(* ===== verification/Prelude.thy ===== *)
theory Prelude
  imports
    Complex_Main
    "HOL-Library.Char_ord"
    "HOL-Library.List_Lexorder"
    "HOL-Library.Multiset"
    "HOL-Library.AList"
    "HOL-Library.Sublist"
begin

text \<open>
  Shared vocabulary of the development: the error values every fallible operation of the
  engine returns, the result combinators that thread them, and the list routines that
  the engine borrows from Python and numpy (\<^verbatim>\<open>list(dict.fromkeys(xs))\<close>,
  \<^verbatim>\<open>Series.unique()\<close>, \<^verbatim>\<open>np.setdiff1d\<close>). The component theories
  import this theory and add their facts to the two collections declared here.
\<close>

named_theorems py_defs "unfolding equations of the modelled Python, numpy and pandas primitives"
named_theorems wf_keep "rules stating that an operation keeps a well-formedness invariant"

section \<open>Errors as values\<close>

text \<open>
  Every \<^verbatim>\<open>raise\<close> of the source is a \<open>ValueError\<close> carrying the message
  of the source. \<open>KeyError\<close> and \<open>AttributeError\<close> are what pandas and Python raise
  for a missing column and for a string method on a value that is no string;
  \<open>BackendError\<close> stands for any exception of a matcher backend.
\<close>

datatype error =
    ValueError string
  | KeyError string
  | AttributeError string
  | BackendError string

type_synonym 'a result = "error + 'a"

definition bind_r :: "'a result \<Rightarrow> ('a \<Rightarrow> 'b result) \<Rightarrow> 'b result" where
  "bind_r m f = (case m of Inl e \<Rightarrow> Inl e | Inr x \<Rightarrow> f x)"

fun mapM_r :: "('a \<Rightarrow> 'b result) \<Rightarrow> 'a list \<Rightarrow> 'b list result" where
  "mapM_r f [] = Inr []"
| "mapM_r f (x # xs) = bind_r (f x) (\<lambda>y. bind_r (mapM_r f xs) (\<lambda>ys. Inr (y # ys)))"

definition is_ok :: "'a result \<Rightarrow> bool" where
  "is_ok m = (case m of Inl _ \<Rightarrow> False | Inr _ \<Rightarrow> True)"

lemma bind_r_Inl [simp]: "bind_r (Inl e) f = Inl e"
  by (simp add: bind_r_def)

lemma bind_r_Inr [simp]: "bind_r (Inr x) f = f x"
  by (simp add: bind_r_def)

lemma bind_r_eq_Inr_iff: "bind_r m f = Inr y \<longleftrightarrow> (\<exists>x. m = Inr x \<and> f x = Inr y)"
  by (cases m) auto

lemma bind_r_eq_Inl_iff:
  "bind_r m f = Inl e \<longleftrightarrow> m = Inl e \<or> (\<exists>x. m = Inr x \<and> f x = Inl e)"
  by (cases m) auto

lemma bind_r_assoc: "bind_r (bind_r m f) g = bind_r m (\<lambda>x. bind_r (f x) g)"
  by (cases m) auto

lemma bind_r_cong:
  "m = m' \<Longrightarrow> (\<And>x. m' = Inr x \<Longrightarrow> f x = g x) \<Longrightarrow> bind_r m f = bind_r m' g"
  by (cases m') (simp_all add: bind_r_def)

lemma is_ok_simps [simp]: "is_ok (Inr x)" "\<not> is_ok (Inl e)"
  by (simp_all add: is_ok_def)

lemma is_ok_iff: "is_ok m \<longleftrightarrow> (\<exists>x. m = Inr x)"
  by (cases m) auto

lemma mapM_r_total: "(\<And>x. x \<in> set xs \<Longrightarrow> f x = Inr (g x)) \<Longrightarrow> mapM_r f xs = Inr (map g xs)"
  by (induction xs) auto

lemma mapM_r_Inr_length: "mapM_r f xs = Inr ys \<Longrightarrow> length ys = length xs"
  by (induction xs arbitrary: ys) (auto simp: bind_r_eq_Inr_iff)

section \<open>Order-preserving removal of duplicates\<close>

text \<open>
  \<^verbatim>\<open>list(dict.fromkeys(xs))\<close> and pandas' \<^verbatim>\<open>unique()\<close> keep the first
  occurrence of every element, in the order of first appearance. The library's
  \<open>remdups\<close> keeps the last occurrence, so the routine is defined here the way
  Python runs it: one pass that appends an element unless it was seen.
\<close>

definition dedup_step :: "'a \<Rightarrow> 'a list \<Rightarrow> 'a list" where
  "dedup_step x acc = (if x \<in> set acc then acc else acc @ [x])"

definition dedup_first :: "'a list \<Rightarrow> 'a list" where
  "dedup_first xs = fold dedup_step xs []"

lemma remdups_snoc: "remdups (xs @ [x]) = remdups (filter (\<lambda>y. y \<noteq> x) xs) @ [x]"
  by (induction xs) auto

lemma fold_dedup_step_eq:
  "fold dedup_step xs acc = acc @ rev (remdups (rev (filter (\<lambda>x. x \<notin> set acc) xs)))"
proof (induction xs arbitrary: acc)
  case Nil
  show ?case by simp
next
  case (Cons x xs)
  show ?case
  proof (cases "x \<in> set acc")
    case True
    with Cons.IH [of acc] show ?thesis by (simp add: dedup_step_def)
  next
    case False
    have "filter (\<lambda>y. y \<notin> set (acc @ [x])) xs
        = filter (\<lambda>y. y \<notin> set [x]) (filter (\<lambda>y. y \<notin> set acc) xs)"
      by (simp add: conj_commute)
    with False Cons.IH [of "acc @ [x]"] show ?thesis
      by (simp add: dedup_step_def remdups_snoc rev_filter conj_commute)
  qed
qed

text \<open>The one-pass routine agrees with the reference: keep first occurrences.\<close>

lemma dedup_first_eq_remdups: "dedup_first xs = rev (remdups (rev xs))"
  by (simp add: dedup_first_def fold_dedup_step_eq)

lemma dedup_first_Nil [simp]: "dedup_first [] = []"
  by (simp add: dedup_first_def)

lemma dedup_first_Cons: "dedup_first (x # xs) = x # dedup_first (filter (\<lambda>y. y \<noteq> x) xs)"
  by (simp add: dedup_first_eq_remdups remdups_snoc rev_filter)

lemma set_dedup_first [simp]: "set (dedup_first xs) = set xs"
  by (simp add: dedup_first_eq_remdups)

lemma distinct_dedup_first [simp]: "distinct (dedup_first xs)"
  by (simp add: dedup_first_eq_remdups)

lemma dedup_first_distinct_id: "distinct xs \<Longrightarrow> dedup_first xs = xs"
proof (induction xs)
  case Nil
  show ?case by simp
next
  case (Cons x xs)
  then have "filter (\<lambda>y. y \<noteq> x) xs = xs"
    by (auto intro: filter_True)
  with Cons show ?case by (simp add: dedup_first_Cons)
qed

lemma dedup_first_idem [simp]: "dedup_first (dedup_first xs) = dedup_first xs"
  by (simp add: dedup_first_distinct_id)

text \<open>
  pandas' \<^verbatim>\<open>drop_duplicates\<close> keeps the first row of every key: the same routine
  with the comparison made on a key \<open>k x\<close>.
\<close>

fun dedup_on :: "('a \<Rightarrow> 'k) \<Rightarrow> 'a list \<Rightarrow> 'a list" where
  "dedup_on k [] = []"
| "dedup_on k (x # xs) = x # dedup_on k (filter (\<lambda>y. k y \<noteq> k x) xs)"

lemma set_dedup_on_subset: "set (dedup_on k xs) \<subseteq> set xs"
  by (induction k xs rule: dedup_on.induct) auto

lemma keys_dedup_on [simp]: "k ` set (dedup_on k xs) = k ` set xs"
  by (induction k xs rule: dedup_on.induct) (auto simp: image_iff)

lemma distinct_keys_dedup_on [simp]: "distinct (map k (dedup_on k xs))"
proof (induction k xs rule: dedup_on.induct)
  case (1 k)
  show ?case by simp
next
  case (2 k x xs)
  have "k x \<notin> k ` set (dedup_on k (filter (\<lambda>y. k y \<noteq> k x) xs))"
    by (simp del: keys_dedup_on add: keys_dedup_on [of k]) (auto simp: image_iff)
  with 2 show ?case by simp
qed

lemma dedup_on_distinct_id: "distinct (map k xs) \<Longrightarrow> dedup_on k xs = xs"
proof (induction xs)
  case Nil
  show ?case by simp
next
  case (Cons x xs)
  then have "filter (\<lambda>y. k y \<noteq> k x) xs = xs"
    by (intro filter_True) (auto simp: image_iff)
  with Cons show ?case by simp
qed

lemma dedup_on_idem [simp]: "dedup_on k (dedup_on k xs) = dedup_on k xs"
  by (simp add: dedup_on_distinct_id)

lemma dedup_on_map: "map h (dedup_on (\<lambda>x. k (h x)) xs) = dedup_on k (map h xs)"
  by (induction "\<lambda>x. k (h x)" xs rule: dedup_on.induct) (simp_all add: filter_map comp_def)

lemma dedup_on_filter_key:
  "dedup_on k (filter (\<lambda>x. P (k x)) xs) = filter (\<lambda>x. P (k x)) (dedup_on k xs)"
proof (induction k xs rule: dedup_on.induct)
  case (1 k)
  show ?case by simp
next
  case (2 k x xs)
  have "filter (\<lambda>y. k y \<noteq> k x) (filter (\<lambda>x. P (k x)) xs)
      = filter (\<lambda>x. P (k x)) (filter (\<lambda>y. k y \<noteq> k x) xs)"
    by (simp add: conj_commute)
  moreover have "\<not> P (k x) \<Longrightarrow>
      filter (\<lambda>x. P (k x)) xs = filter (\<lambda>x. P (k x)) (filter (\<lambda>y. k y \<noteq> k x) xs)"
    by (auto intro!: filter_cong)
  ultimately show ?case
    using 2 by (auto simp del: filter_filter)
qed

lemma dedup_on_id: "dedup_on (\<lambda>x. x) xs = dedup_first xs"
  by (induction "\<lambda>x::'a. x" xs rule: dedup_on.induct) (simp_all add: dedup_first_Cons)

lemma dedup_first_filter: "dedup_first (filter P xs) = filter P (dedup_first xs)"
  using dedup_on_filter_key [of "\<lambda>x. x" P xs] by (simp add: dedup_on_id)

text \<open>
  Removing the duplicates of a finer key first does not change the first occurrences of a
  coarser one.
\<close>

lemma dedup_first_map_dedup_on:
  assumes "\<And>x y. k x = k y \<Longrightarrow> g x = g y"
  shows "dedup_first (map g (dedup_on k xs)) = dedup_first (map g xs)"
  using assms
proof (induction k xs rule: dedup_on.induct)
  case (1 k)
  show ?case by simp
next
  case (2 k x xs)
  let ?xs' = "filter (\<lambda>y. k y \<noteq> k x) xs"
  have "k y \<noteq> k x" if "g y \<noteq> g x" for y
    using that 2(2) by blast
  then have f: "filter (\<lambda>y. g y \<noteq> g x) ?xs' = filter (\<lambda>y. g y \<noteq> g x) xs"
    by (auto intro!: filter_cong)
  have ih: "dedup_first (map g (dedup_on k ?xs')) = dedup_first (map g ?xs')"
    by (rule 2(1)) (rule 2(2))
  have "dedup_first (map g (dedup_on k (x # xs)))
      = g x # filter (\<lambda>z. z \<noteq> g x) (dedup_first (map g (dedup_on k ?xs')))"
    by (simp add: dedup_first_Cons dedup_first_filter)
  also have "\<dots> = g x # dedup_first (map g (filter (\<lambda>y. g y \<noteq> g x) ?xs'))"
    unfolding ih by (simp add: dedup_first_filter [symmetric] filter_map comp_def)
  also have "\<dots> = dedup_first (map g (x # xs))"
    unfolding f by (simp add: dedup_first_Cons filter_map comp_def)
  finally show ?case .
qed

section \<open>numpy's sorted set operations\<close>

text \<open>
  \<^verbatim>\<open>np.unique\<close> returns the sorted distinct elements; \<^verbatim>\<open>np.setdiff1d(a, b)\<close>
  is \<^verbatim>\<open>unique(a)\<close> without the elements of \<open>b\<close>. On strings numpy compares code
  points lexicographically, which is the order \<open>List_Lexorder\<close> and \<open>Char_ord\<close>
  give to \<open>string\<close>.
\<close>

definition np_unique :: "'a::linorder list \<Rightarrow> 'a list" where
  "np_unique xs = sort (remdups xs)"

definition np_setdiff1d :: "'a::linorder list \<Rightarrow> 'a list \<Rightarrow> 'a list" where
  "np_setdiff1d ar1 ar2 = filter (\<lambda>x. x \<notin> set ar2) (np_unique ar1)"

lemma set_np_unique [simp]: "set (np_unique xs) = set xs"
  by (simp add: np_unique_def)

lemma distinct_np_unique [simp]: "distinct (np_unique xs)"
  by (simp add: np_unique_def)

lemma sorted_np_unique [simp]: "sorted (np_unique xs)"
  by (simp add: np_unique_def)

lemma np_unique_eq_sorted_list_of_set: "np_unique xs = sorted_list_of_set (set xs)"
  by (simp add: np_unique_def sorted_list_of_set_sort_remdups)

lemma set_np_setdiff1d [simp]: "set (np_setdiff1d ar1 ar2) = set ar1 - set ar2"
  by (auto simp: np_setdiff1d_def)

lemma distinct_np_setdiff1d [simp]: "distinct (np_setdiff1d ar1 ar2)"
  by (simp add: np_setdiff1d_def)

lemma sorted_np_setdiff1d [simp]: "sorted (np_setdiff1d ar1 ar2)"
  by (simp add: np_setdiff1d_def sorted_wrt_filter)

lemma mset_np_setdiff1d: "mset (np_setdiff1d ar1 ar2) = mset_set (set ar1 - set ar2)"
  using mset_set_set [OF distinct_np_setdiff1d, of ar1 ar2] by simp

section \<open>Generic list facts\<close>

lemma filter_mem_partition_mset:
  "mset xs = mset (filter P xs) + mset (filter (\<lambda>x. \<not> P x) xs)"
  by (induction xs) auto

lemma map_eq_replicate_iff: "map f xs = replicate (length xs) v \<longleftrightarrow> (\<forall>x\<in>set xs. f x = v)"
  by (induction xs) auto

lemma count_list_1_mem: "count_list xs x = Suc n \<Longrightarrow> x \<in> set xs"
  by (rule ccontr) simp

lemma count_list_distinct:"distinct xs \<Longrightarrow> count_list xs x = (if x \<in> set xs then 1 else 0)"
  by (induction xs) auto

lemma mset_map_filter_partition:
  "mset (map f (filter P xs)) + mset (map f (filter (\<lambda>x. \<not> P x) xs)) = mset (map f xs)"
  by (induction xs) simp_all

lemma count_list_rename:
  assumes "distinct cols" "old \<in> set cols" "new \<notin> set cols"
  shows "count_list (map (\<lambda>c. if c = old then new else c) cols) new = 1"
  using assms by (induction cols) (auto simp: count_list_0_iff)

lemma length_concat_nonempty:
  "(\<And>x. x \<in> set xs \<Longrightarrow> f x \<noteq> []) \<Longrightarrow> length xs \<le> length (concat (map f xs))"
proof (induction xs)
  case Nil
  show ?case by simp
next
  case (Cons x xs)
  then have "f x \<noteq> []" "length xs \<le> length (concat (map f xs))" by simp_all
  then show ?case by (cases "f x") simp_all
qed

text \<open>A fold of pointwise updates leaves a point alone that no step touches.\<close>

lemma fold_other:
  "(\<And>n u. n \<in> set ns \<Longrightarrow> f n u c = u c) \<Longrightarrow> fold f ns v c = v c"
  by (induction ns arbitrary: v) simp_all

end
