(* ===== verification/PyString.thy ===== *)
theory PyString
  imports Prelude
begin

text \<open>
  The string primitives the engine calls: \<^verbatim>\<open>str.strip()\<close>, \<^verbatim>\<open>str.lower()\<close>,
  the decimal rendering of the f-strings \<^verbatim>\<open>f'top{i}_match'\<close> and the regular
  expression \<^verbatim>\<open>(C\d+)\<close> of \<^verbatim>\<open>_normalize_df\<close>. A \<open>char\<close> is a code point
  below 256 (Latin-1); on that range the definitions follow Python's Unicode tables.
\<close>

section \<open>Quoting in messages\<close>

text \<open>A name between single quotes, as the error messages of the source write it.\<close>

definition quoted :: "string \<Rightarrow> string" where
  "quoted s = CHR 0x27 # s @ [CHR 0x27]"

section \<open>Whitespace and stripping\<close>

text \<open>
  \<^verbatim>\<open>str.isspace\<close> below code point 256: tab to carriage return (9-13), the
  separators 28-31, space (32), next-line (133) and no-break space (160).
\<close>

definition py_isspace :: "char \<Rightarrow> bool" where
  "py_isspace c = (of_char c \<in> {9, 10, 11, 12, 13, 28, 29, 30, 31, 32, 133, 160 :: nat})"

definition lstrip :: "string \<Rightarrow> string" where
  "lstrip s = dropWhile py_isspace s"

definition rstrip :: "string \<Rightarrow> string" where
  "rstrip s = rev (dropWhile py_isspace (rev s))"

definition strip :: "string \<Rightarrow> string" where
  "strip s = rstrip (lstrip s)"

lemmas strip_defs [py_defs] = strip_def lstrip_def rstrip_def

lemma strip_Nil [simp]: "strip [] = []"
  by (simp add: strip_defs)

lemma lstrip_idem: "lstrip (lstrip s) = lstrip s"
  by (simp add: lstrip_def dropWhile_idem)

lemma rstrip_idem: "rstrip (rstrip s) = rstrip s"
  by (simp add: rstrip_def dropWhile_idem)

lemma hd_lstrip_not_space: "lstrip s \<noteq> [] \<Longrightarrow> \<not> py_isspace (hd (lstrip s))"
  unfolding lstrip_def by (rule hd_dropWhile)

lemma last_rstrip_not_space: "rstrip s \<noteq> [] \<Longrightarrow> \<not> py_isspace (last (rstrip s))"
  unfolding rstrip_def using hd_dropWhile [of py_isspace "rev s"] by (simp add: last_rev)

lemma lstrip_no_leading: "s = [] \<or> \<not> py_isspace (hd s) \<Longrightarrow> lstrip s = s"
  by (cases s) (auto simp: lstrip_def)

lemma rstrip_no_trailing: "s = [] \<or> \<not> py_isspace (last s) \<Longrightarrow> rstrip s = s"
proof -
  assume a: "s = [] \<or> \<not> py_isspace (last s)"
  have "dropWhile py_isspace (rev s) = rev s"
  proof (cases "rev s")
    case Nil
    then show ?thesis by simp
  next
    case (Cons c cs)
    then have "last s = c" and "s \<noteq> []"
      by (auto simp: last_rev [symmetric] simp del: last_rev)
    with a Cons show ?thesis by simp
  qed
  then show ?thesis by (simp add: rstrip_def)
qed

lemma dropWhile_snoc_keep: "\<not> P c \<Longrightarrow> dropWhile P (xs @ [c]) = dropWhile P xs @ [c]"
  by (induction xs) auto

lemma rstrip_Cons_keep: "\<not> py_isspace c \<Longrightarrow> rstrip (c # cs) = c # rstrip cs"
  by (simp add: rstrip_def dropWhile_snoc_keep)

lemma lstrip_cases: "lstrip s = [] \<or> (\<exists>c cs. lstrip s = c # cs \<and> \<not> py_isspace c)"
  using hd_lstrip_not_space [of s] by (cases "lstrip s") auto

lemma lstrip_strip [simp]: "lstrip (strip s) = strip s"
proof -
  consider "lstrip s = []" | c cs where "lstrip s = c # cs" "\<not> py_isspace c"
    using lstrip_cases by blast
  then show ?thesis
  proof cases
    case 1
    then have "strip s = []" by (simp add: strip_def rstrip_def)
    then show ?thesis by (simp add: lstrip_def)
  next
    case 2
    then have "strip s = c # rstrip cs" by (simp add: strip_def rstrip_Cons_keep)
    with 2(2) show ?thesis by (simp add: lstrip_def)
  qed
qed

lemma rstrip_strip [simp]: "rstrip (strip s) = strip s"
  by (simp add: strip_def rstrip_idem)

lemma strip_idem [simp]: "strip (strip s) = strip s"
  by (simp add: strip_def [of "strip s"])

lemma strip_no_space_ends:
  "strip s = [] \<or> (\<not> py_isspace (hd (strip s)) \<and> \<not> py_isspace (last (strip s)))"
  using hd_lstrip_not_space [of "strip s"] last_rstrip_not_space [of "strip s"] by auto

lemma strip_fixpoint_iff:
  "strip s = s \<longleftrightarrow> s = [] \<or> (\<not> py_isspace (hd s) \<and> \<not> py_isspace (last s))"
proof
  assume "strip s = s"
  with strip_no_space_ends [of s] show "s = [] \<or> (\<not> py_isspace (hd s) \<and> \<not> py_isspace (last s))"
    by simp
next
  assume a: "s = [] \<or> (\<not> py_isspace (hd s) \<and> \<not> py_isspace (last s))"
  then have "lstrip s = s" by (auto intro: lstrip_no_leading)
  moreover from a have "rstrip s = s" by (auto intro: rstrip_no_trailing)
  ultimately show "strip s = s" by (simp add: strip_def)
qed

section \<open>Case folding\<close>

text \<open>
  \<^verbatim>\<open>str.lower\<close> below code point 256: the 26 ASCII capitals and the Latin-1
  capitals 192-222 (without the multiplication sign 215) move up by 32; every other
  code point stays.
\<close>

definition py_isupper :: "char \<Rightarrow> bool" where
  "py_isupper c = (let n = of_char c :: nat in
     (65 \<le> n \<and> n \<le> 90) \<or> (192 \<le> n \<and> n \<le> 222 \<and> n \<noteq> 215))"

definition py_lower_char :: "char \<Rightarrow> char" where
  "py_lower_char c = (if py_isupper c then char_of (of_char c + 32 :: nat) else c)"

definition lower :: "string \<Rightarrow> string" where
  "lower s = map py_lower_char s"

lemma of_char_lower_upper: "py_isupper c \<Longrightarrow> of_char (py_lower_char c) = (of_char c + 32 :: nat)"
  by (auto simp: py_lower_char_def py_isupper_def Let_def)

lemma lower_char_not_upper [simp]: "\<not> py_isupper (py_lower_char c)"
proof (cases "py_isupper c")
  case True
  from of_char_lower_upper [OF this] True show ?thesis
    by (auto simp: py_isupper_def Let_def)
next
  case False
  then show ?thesis by (simp add: py_lower_char_def)
qed

lemma lower_char_idem [simp]: "py_lower_char (py_lower_char c) = py_lower_char c"
  using lower_char_not_upper [of c] by (simp add: py_lower_char_def [of "py_lower_char c"])

lemma lower_idem [simp]: "lower (lower s) = lower s"
  by (simp add: lower_def)

lemma length_lower [simp]: "length (lower s) = length s"
  by (simp add: lower_def)

lemma isspace_not_upper: "py_isspace c \<Longrightarrow> \<not> py_isupper c"
  by (auto simp: py_isspace_def py_isupper_def Let_def)

lemma isspace_lower_char [simp]: "py_isspace (py_lower_char c) = py_isspace c"
proof (cases "py_isupper c")
  case True
  from of_char_lower_upper [OF this] True isspace_not_upper [of c] show ?thesis
    by (auto simp: py_isspace_def py_isupper_def Let_def)
next
  case False
  then show ?thesis by (simp add: py_lower_char_def)
qed

lemma dropWhile_isspace_lower:
  "dropWhile py_isspace (map py_lower_char s) = map py_lower_char (dropWhile py_isspace s)"
  by (induction s) auto

lemma lower_strip_commute: "lower (strip s) = strip (lower s)"
  by (simp add: strip_defs lower_def dropWhile_isspace_lower rev_map)

section \<open>The normal form of exact matching\<close>

text \<open>
  \<^verbatim>\<open>q.strip().lower()\<close>: the key under which a query and a corpus entry are
  compared in \<^verbatim>\<open>_exact_matching\<close>.
\<close>

definition norm_key :: "string \<Rightarrow> string" where
  "norm_key s = lower (strip s)"

lemma norm_key_idem [simp]: "norm_key (norm_key s) = norm_key s"
  by (simp add: norm_key_def lower_strip_commute)

lemma norm_key_strip [simp]: "norm_key (strip s) = norm_key s"
  by (simp add: norm_key_def)

lemma norm_key_lower [simp]: "norm_key (lower s) = norm_key s"
  by (simp add: norm_key_def lower_strip_commute [symmetric])

text \<open>
  The key \<^verbatim>\<open>s.strip().lower()\<close> of exact matching is a normal form: computing
  it again changes nothing, it does not depend on surrounding white space or on the case
  of the string, and it has no surrounding white space and no upper-case letter left.
\<close>

lemma norm_key_canonical:
  "norm_key (norm_key s) = norm_key s \<and> norm_key (strip s) = norm_key s \<and>
   norm_key (lower s) = norm_key s \<and> strip (norm_key s) = norm_key s \<and> lower (norm_key s) = norm_key s"
  by (simp add: norm_key_def lower_strip_commute [symmetric] strip_idem lower_idem)

section \<open>Surrounding white space and letter case\<close>

text \<open>
  Two strings have the same key exactly when they are equal up to surrounding white space
  and the case of their letters: padding is ignored, every string is its stripped form
  between two runs of white space, and white space inside a string is kept.
\<close>

lemma lstrip_pad: "list_all py_isspace pre \<Longrightarrow> lstrip (pre @ s) = lstrip s"
  by (simp add: lstrip_def list_all_iff dropWhile_append2)

lemma rstrip_pad: "list_all py_isspace post \<Longrightarrow> rstrip (s @ post) = rstrip s"
proof -
  assume "list_all py_isspace post"
  then have "dropWhile py_isspace (rev post @ rev s) = dropWhile py_isspace (rev s)"
    by (intro dropWhile_append2) (simp add: list_all_iff)
  then show ?thesis by (simp add: rstrip_def)
qed

lemma strip_pad:
  assumes "list_all py_isspace pre" "list_all py_isspace post"
  shows "strip (pre @ s @ post) = strip s"
proof (cases "lstrip s = []")
  case True
  then have "list_all py_isspace s" by (simp add: lstrip_def list_all_iff)
  with assms(2) have "lstrip (s @ post) = []" by (simp add: lstrip_def list_all_iff)
  with True show ?thesis by (simp add: strip_def lstrip_pad [OF assms(1)])
next
  case False
  then obtain x where "x \<in> set s" "\<not> py_isspace x"
    by (auto simp: lstrip_def)
  then have "lstrip (s @ post) = lstrip s @ post"
    unfolding lstrip_def by (rule dropWhile_append1)
  then show ?thesis by (simp add: strip_def lstrip_pad [OF assms(1)] rstrip_pad [OF assms(2)])
qed

lemma strip_decompose:
  obtains pre post where "s = pre @ strip s @ post" "list_all py_isspace pre" "list_all py_isspace post"
proof
  let ?l = "lstrip s"
  have 1: "s = takeWhile py_isspace s @ ?l" by (simp add: lstrip_def)
  have "rev (takeWhile py_isspace (rev ?l) @ dropWhile py_isspace (rev ?l)) = ?l"
    by (simp only: takeWhile_dropWhile_id rev_rev_ident)
  then have 2: "?l = strip s @ rev (takeWhile py_isspace (rev ?l))"
    by (simp only: rev_append strip_def rstrip_def)
  from 1 2 show "s = takeWhile py_isspace s @ strip s @ rev (takeWhile py_isspace (rev ?l))"
    by simp
  show "list_all py_isspace (takeWhile py_isspace s)"
    by (auto simp: list_all_iff dest: set_takeWhileD)
  show "list_all py_isspace (rev (takeWhile py_isspace (rev ?l)))"
    by (auto simp: list_all_iff dest: set_takeWhileD)
qed

lemma norm_key_eq_iff:
  "norm_key q = norm_key c \<longleftrightarrow>
     (\<exists>pre s post pre' t post'. q = pre @ s @ post \<and> c = pre' @ t @ post' \<and>
        list_all py_isspace (pre @ post @ pre' @ post') \<and> lower s = lower t)"
proof
  assume k: "norm_key q = norm_key c"
  obtain pre post where q: "q = pre @ strip q @ post" "list_all py_isspace pre" "list_all py_isspace post"
    by (rule strip_decompose)
  obtain pre' post' where c: "c = pre' @ strip c @ post'" "list_all py_isspace pre'"
    "list_all py_isspace post'"
    by (rule strip_decompose)
  from k have "lower (strip q) = lower (strip c)" by (simp add: norm_key_def)
  with q c show "\<exists>pre s post pre' t post'. q = pre @ s @ post \<and> c = pre' @ t @ post' \<and>
        list_all py_isspace (pre @ post @ pre' @ post') \<and> lower s = lower t"
    by (intro exI [of _ pre] exI [of _ "strip q"] exI [of _ post] exI [of _ pre']
        exI [of _ "strip c"] exI [of _ post']) simp
next
  assume "\<exists>pre s post pre' t post'. q = pre @ s @ post \<and> c = pre' @ t @ post' \<and>
        list_all py_isspace (pre @ post @ pre' @ post') \<and> lower s = lower t"
  then obtain pre s post pre' t post' where q: "q = pre @ s @ post" and c: "c = pre' @ t @ post'"
    and sp: "list_all py_isspace pre" "list_all py_isspace post" "list_all py_isspace pre'"
      "list_all py_isspace post'"
    and l: "lower s = lower t"
    by auto
  have "norm_key q = strip (lower s)"
    by (simp add: q norm_key_def strip_pad sp lower_strip_commute)
  also have "\<dots> = norm_key c"
    by (simp add: c l norm_key_def strip_pad sp lower_strip_commute)
  finally show "norm_key q = norm_key c" .
qed

section \<open>Decimal rendering of naturals\<close>

text \<open>
  \<^verbatim>\<open>str(i)\<close> for a non-negative \<open>i\<close>, as the f-strings of the column names
  use it: most significant digit first, no leading zero but for 0 itself.
\<close>

definition digit_char :: "nat \<Rightarrow> char" where
  "digit_char d = char_of (48 + d)"

definition py_isdigit :: "char \<Rightarrow> bool" where
  "py_isdigit c = (48 \<le> (of_char c :: nat) \<and> (of_char c :: nat) \<le> 57)"

definition digit_val :: "char \<Rightarrow> nat" where
  "digit_val c = of_char c - 48"

fun str_nat :: "nat \<Rightarrow> string" where
  "str_nat n = (if n < 10 then [digit_char n] else str_nat (n div 10) @ [digit_char (n mod 10)])"

declare str_nat.simps [simp del]

definition read_nat :: "string \<Rightarrow> nat" where
  "read_nat s = foldl (\<lambda>a c. 10 * a + digit_val c) 0 s"

lemma digit_val_digit_char [simp]: "d < 10 \<Longrightarrow> digit_val (digit_char d) = d"
  by (simp add: digit_val_def digit_char_def)

lemma isdigit_digit_char [simp]: "d < 10 \<Longrightarrow> py_isdigit (digit_char d)"
  by (simp add: py_isdigit_def digit_char_def)

lemma str_nat_nonempty [simp]: "str_nat n \<noteq> []"
  by (subst str_nat.simps) simp

lemma str_nat_digits: "c \<in> set (str_nat n) \<Longrightarrow> py_isdigit c"
proof (induction n arbitrary: c rule: str_nat.induct)
  case (1 n)
  show ?case
  proof (cases "n < 10")
    case True
    with "1.prems" show ?thesis by (simp add: str_nat.simps [of n])
  next
    case False
    with "1.prems" "1.IH" show ?thesis by (auto simp: str_nat.simps [of n])
  qed
qed

lemma read_nat_snoc: "read_nat (s @ [c]) = 10 * read_nat s + digit_val c"
  by (simp add: read_nat_def)

lemma read_str_nat [simp]: "read_nat (str_nat n) = n"
proof (induction n rule: str_nat.induct)
  case (1 n)
  show ?case
  proof (cases "n < 10")
    case True
    then show ?thesis by (simp add: str_nat.simps [of n] read_nat_def)
  next
    case False
    with "1.IH" show ?thesis by (simp add: str_nat.simps [of n] read_nat_snoc)
  qed
qed

lemma str_nat_inj: "str_nat m = str_nat n \<longleftrightarrow> m = n"
  by (metis read_str_nat)

section \<open>The code pattern of the reference table\<close>

text \<open>
  \<^verbatim>\<open>Series.str.extract(r'(C\d+)', expand=False)\<close> on one string: the leftmost
  capital C that is followed by a digit, with the longest run of digits after it;
  \<open>None\<close> (pandas: NaN) when there is no such place.
\<close>

fun extract_code :: "string \<Rightarrow> string option" where
  "extract_code [] = None"
| "extract_code (c # cs) =
     (if c = CHR ''C'' \<and> takeWhile py_isdigit cs \<noteq> [] then Some (c # takeWhile py_isdigit cs)
      else extract_code cs)"

definition is_code :: "string \<Rightarrow> bool" where
  "is_code s = (case s of [] \<Rightarrow> False | c # ds \<Rightarrow> c = CHR ''C'' \<and> ds \<noteq> [] \<and> list_all py_isdigit ds)"

lemma extract_code_is_code: "extract_code s = Some k \<Longrightarrow> is_code k"
  by (induction s) (auto simp: is_code_def list_all_iff split: if_splits dest: set_takeWhileD)

lemma extract_code_infix: "extract_code s = Some k \<Longrightarrow> \<exists>pre post. s = pre @ k @ post"
proof (induction s)
  case Nil
  then show ?case by simp
next
  case (Cons c cs)
  show ?case
  proof (cases "c = CHR ''C'' \<and> takeWhile py_isdigit cs \<noteq> []")
    case True
    with Cons.prems have "k = c # takeWhile py_isdigit cs" by simp
    then have "c # cs = [] @ k @ dropWhile py_isdigit cs" by simp
    then show ?thesis by blast
  next
    case False
    with Cons.prems have "extract_code cs = Some k" by auto
    with Cons.IH obtain pre post where "cs = pre @ k @ post" by blast
    then have "c # cs = (c # pre) @ k @ post" by simp
    then show ?thesis by blast
  qed
qed

lemma extract_code_of_code: "is_code k \<Longrightarrow> extract_code k = Some k"
  by (cases k) (auto simp: is_code_def list_all_iff takeWhile_eq_all_conv [THEN iffD2])

lemma extract_code_None_iff:
  "extract_code s = None \<longleftrightarrow> (\<forall>pre d post. s = pre @ CHR ''C'' # d # post \<longrightarrow> \<not> py_isdigit d)"
proof (induction s)
  case Nil
  show ?case by simp
next
  case (Cons c cs)
  have head: "takeWhile py_isdigit cs \<noteq> [] \<longleftrightarrow> (\<exists>d post. cs = d # post \<and> py_isdigit d)"
    by (cases cs) auto
  show ?case
  proof (cases "c = CHR ''C'' \<and> takeWhile py_isdigit cs \<noteq> []")
    case True
    then obtain d post where "cs = d # post" "py_isdigit d" using head by blast
    then have "c # cs = [] @ CHR ''C'' # d # post" using True by simp
    with True \<open>py_isdigit d\<close> show ?thesis by (metis extract_code.simps(2) option.distinct(1))
  next
    case False
    have "(\<forall>pre d post. c # cs = pre @ CHR ''C'' # d # post \<longrightarrow> \<not> py_isdigit d)
      \<longleftrightarrow> (\<forall>pre d post. cs = pre @ CHR ''C'' # d # post \<longrightarrow> \<not> py_isdigit d)"
    proof (intro iffI allI impI)
      fix pre d post
      assume a: "\<forall>pre d post. c # cs = pre @ CHR ''C'' # d # post \<longrightarrow> \<not> py_isdigit d"
        and "cs = pre @ CHR ''C'' # d # post"
      then have "c # cs = (c # pre) @ CHR ''C'' # d # post" by simp
      with a show "\<not> py_isdigit d" by blast
    next
      fix pre d post
      assume a: "\<forall>pre d post. cs = pre @ CHR ''C'' # d # post \<longrightarrow> \<not> py_isdigit d"
        and b: "c # cs = pre @ CHR ''C'' # d # post"
      show "\<not> py_isdigit d"
      proof (cases pre)
        case Nil
        with b have "c = CHR ''C''" "cs = d # post" by auto
        with False head show ?thesis by auto
      next
        case (Cons p pre')
        with b have "cs = pre' @ CHR ''C'' # d # post" by simp
        with a show ?thesis by blast
      qed
    qed
    with False Cons.IH show ?thesis by auto
  qed
qed

end
