(* ===== verification/ExactMatch.thy ===== *)
theory ExactMatch
  imports PyString
begin

text \<open>
  Stage 1 of the cascade, \<^verbatim>\<open>OntoMapEngine._exact_matching\<close>: the queries whose
  stripped, lower-cased form is the stripped, lower-cased form of some corpus label. The
  result is a sublist of the query list: order and duplicates are kept.
\<close>

definition corpus_normalized :: "string list \<Rightarrow> string set" where
  "corpus_normalized corpus = set (map norm_key corpus)"

definition exact_matching :: "string list \<Rightarrow> string list \<Rightarrow> string list" where
  "exact_matching query corpus = filter (\<lambda>q. norm_key q \<in> corpus_normalized corpus) query"

lemmas exact_defs [py_defs] = exact_matching_def corpus_normalized_def

section \<open>Membership\<close>

lemma exact_matching_iff:
  "q \<in> set (exact_matching query corpus) \<longleftrightarrow>
     q \<in> set query \<and> (\<exists>c\<in>set corpus. norm_key q = norm_key c)"
  by (auto simp: exact_defs)

lemma exact_matching_subset: "set (exact_matching query corpus) \<subseteq> set query"
  by (auto simp: exact_defs)

lemma exact_matching_same_key:
  "norm_key q = norm_key q' \<Longrightarrow> q \<in> set query \<Longrightarrow> q' \<in> set query \<Longrightarrow>
   q \<in> set (exact_matching query corpus) \<longleftrightarrow> q' \<in> set (exact_matching query corpus)"
  by (simp add: exact_matching_iff)

lemma exact_matching_corpus_label:
  "c \<in> set corpus \<Longrightarrow> q \<in> set query \<Longrightarrow> strip (lower q) = strip (lower c) \<Longrightarrow>
   q \<in> set (exact_matching query corpus)"
  by (auto simp: exact_matching_iff norm_key_def lower_strip_commute)

section \<open>Order and multiplicity\<close>

lemma count_exact_matching:
  "count_list (exact_matching query corpus) q =
     (if norm_key q \<in> corpus_normalized corpus then count_list query q else 0)"
  by (induction query) (auto simp: exact_matching_def)

lemma mset_exact_matching:
  "mset (exact_matching query corpus) = filter_mset (\<lambda>q. norm_key q \<in> corpus_normalized corpus) (mset query)"
  by (simp add: exact_matching_def)

lemma exact_matching_subseq: "subseq (exact_matching query corpus) query"
  by (simp add: exact_matching_def)

lemma exact_matching_append:
  "exact_matching (xs @ ys) corpus = exact_matching xs corpus @ exact_matching ys corpus"
  by (simp add: exact_matching_def)

section \<open>Independence of the corpus representation\<close>

lemma corpus_normalized_dedup [simp]: "corpus_normalized (dedup_first corpus) = corpus_normalized corpus"
  by (simp add: corpus_normalized_def)

lemma exact_matching_dedup_corpus [simp]:
  "exact_matching query (dedup_first corpus) = exact_matching query corpus"
  by (simp add: exact_matching_def)

lemma exact_matching_idem [simp]:
  "exact_matching (exact_matching query corpus) corpus = exact_matching query corpus"
  by (simp add: exact_matching_def)

lemma exact_matching_mono:
  "set corpus \<subseteq> set corpus' \<Longrightarrow> set (exact_matching query corpus) \<subseteq> set (exact_matching query corpus')"
  by (auto simp: exact_defs)

section \<open>The queries left for stage 2\<close>

text \<open>
  \<^verbatim>\<open>np.setdiff1d(self.query, stage1_matches)\<close>: the sorted distinct queries that
  stage 1 did not match.
\<close>

lemma set_non_exact:
  "set (np_setdiff1d query (exact_matching query corpus)) =
     {q \<in> set query. norm_key q \<notin> corpus_normalized corpus}"
  by (auto simp: exact_defs)

lemma non_exact_disjoint:
  "set (np_setdiff1d query (exact_matching query corpus)) \<inter> set (exact_matching query corpus) = {}"
  by auto

lemma non_exact_cover:
  "set (exact_matching query corpus) \<union> set (np_setdiff1d query (exact_matching query corpus)) = set query"
  using exact_matching_subset [of query corpus] by auto

section \<open>What an exact match is\<close>

text \<open>
  C20. Exact matching is equality up to surrounding white space and letter case. A query is
  returned by \<^verbatim>\<open>_exact_matching\<close> exactly when it is one of the queries and some
  corpus label differs from it only in white space before and after (Python's
  \<^verbatim>\<open>str.isspace\<close> characters) and in the case of letters (Python's
  \<^verbatim>\<open>str.lower\<close>); white space inside the text is significant.
\<close>

theorem exact_matching_insensitive:
  "q \<in> set (exact_matching query corpus) \<longleftrightarrow>
     q \<in> set query \<and>
     (\<exists>c\<in>set corpus. \<exists>pre s post pre' t post'.
        q = pre @ s @ post \<and> c = pre' @ t @ post' \<and>
        list_all py_isspace (pre @ post @ pre' @ post') \<and> lower s = lower t)"
  by (simp add: exact_matching_iff norm_key_eq_iff)

end
