(* ===== verification/PyDict.thy ===== *)
theory PyDict
  imports Prelude
begin

text \<open>
  Python dictionaries with string keys, as the engine uses them (the curation map, the
  abbreviation table, the mapping from original to expanded queries). A Python
  \<^verbatim>\<open>dict\<close> keeps its keys in insertion order and a later assignment to a key
  that is present replaces the value in place; the order is visible wherever the source
  iterates over \<^verbatim>\<open>items()\<close>. The model is an association list with distinct
  keys; \<open>map_of\<close> is its abstraction to a partial function.
\<close>

type_synonym 'v pydict = "(string \<times> 'v) list"

definition wf_dict :: "'v pydict \<Rightarrow> bool" where
  "wf_dict d = distinct (map fst d)"

definition dict_keys :: "'v pydict \<Rightarrow> string list" where
  "dict_keys d = map fst d"

definition dict_contains :: "'v pydict \<Rightarrow> string \<Rightarrow> bool" where
  "dict_contains d k = (k \<in> set (dict_keys d))"

definition dict_get :: "'v pydict \<Rightarrow> string \<Rightarrow> 'v option" where
  "dict_get d k = map_of d k"

definition dict_get_or :: "'v pydict \<Rightarrow> string \<Rightarrow> 'v \<Rightarrow> 'v" where
  "dict_get_or d k dflt = (case map_of d k of None \<Rightarrow> dflt | Some v \<Rightarrow> v)"

definition dict_item :: "'v pydict \<Rightarrow> string \<Rightarrow> 'v result" where
  "dict_item d k = (case map_of d k of None \<Rightarrow> Inl (KeyError k) | Some v \<Rightarrow> Inr v)"

definition dict_set :: "'v pydict \<Rightarrow> string \<Rightarrow> 'v \<Rightarrow> 'v pydict" where
  "dict_set d k v = AList.update k v d"

definition dict_of_pairs :: "(string \<times> 'v) list \<Rightarrow> 'v pydict" where
  "dict_of_pairs ps = fold (\<lambda>(k, v) d. dict_set d k v) ps []"

lemmas dict_defs [py_defs] =
  dict_keys_def dict_contains_def dict_get_def dict_get_or_def dict_item_def dict_set_def

section \<open>Single operations\<close>

lemma wf_dict_Nil [simp]: "wf_dict []"
  by (simp add: wf_dict_def)

lemma wf_dict_set [wf_keep]: "wf_dict d \<Longrightarrow> wf_dict (dict_set d k v)"
  by (simp add: wf_dict_def dict_set_def distinct_update)

lemma map_of_dict_set [simp]: "map_of (dict_set d k v) = (map_of d)(k \<mapsto> v)"
  by (simp add: dict_set_def update_conv')

lemma dict_keys_set:
  "dict_keys (dict_set d k v) = (if k \<in> set (dict_keys d) then dict_keys d else dict_keys d @ [k])"
  by (simp add: dict_keys_def dict_set_def update_keys)

lemma dict_contains_iff: "dict_contains d k \<longleftrightarrow> map_of d k \<noteq> None"
  by (simp add: dict_contains_def dict_keys_def map_of_eq_None_iff)

lemma dict_item_Inr_iff: "dict_item d k = Inr v \<longleftrightarrow> map_of d k = Some v"
  by (simp add: dict_item_def split: option.splits)

lemma dict_item_contains: "dict_contains d k \<Longrightarrow> \<exists>v. dict_item d k = Inr v"
  by (auto simp: dict_contains_iff dict_item_def split: option.splits)

lemma dict_item_missing: "\<not> dict_contains d k \<Longrightarrow> dict_item d k = Inl (KeyError k)"
  by (simp add: dict_contains_iff dict_item_def)

section \<open>Building a dictionary by repeated assignment\<close>

text \<open>
  A loop \<^verbatim>\<open>for x in xs: d[key(x)] = val(x)\<close> is a fold of \<open>dict_set\<close>. Its
  keys are the first occurrences in order; its values are those of the last assignment.
\<close>

lemma wf_fold_dict_set:
  "wf_dict d \<Longrightarrow> wf_dict (fold (\<lambda>x d. dict_set d (kf x) (vf x)) xs d)"
  by (induction xs arbitrary: d) (auto intro: wf_dict_set)

lemma keys_fold_dict_set:
  "dict_keys (fold (\<lambda>x d. dict_set d (kf x) (vf x)) xs d) = fold dedup_step (map kf xs) (dict_keys d)"
  by (induction xs arbitrary: d) (auto simp: dict_keys_set dedup_step_def)

lemma map_of_fold_dict_set:
  "map_of (fold (\<lambda>x d. dict_set d (kf x) (vf x)) xs d) =
     map_of d ++ map_of (map (\<lambda>x. (kf x, vf x)) (rev xs))"
proof (induction xs arbitrary: d)
  case Nil
  show ?case by simp
next
  case (Cons x xs)
  show ?case
    by (simp add: Cons.IH map_of_append) (auto simp: map_add_def fun_eq_iff split: option.splits)
qed

lemma dict_keys_Nil [simp]: "dict_keys [] = []"
  by (simp add: dict_keys_def)

lemma dict_of_pairs_eq: "dict_of_pairs ps = fold (\<lambda>p d. dict_set d (fst p) (snd p)) ps []"
  by (simp add: dict_of_pairs_def case_prod_unfold)

lemma wf_dict_of_pairs [simp]: "wf_dict (dict_of_pairs ps)"
  by (simp add: dict_of_pairs_eq wf_fold_dict_set)

lemma dict_keys_of_pairs: "dict_keys (dict_of_pairs ps) = dedup_first (map fst ps)"
  by (simp add: dict_of_pairs_eq keys_fold_dict_set dedup_first_def)

lemma map_of_dict_of_pairs: "map_of (dict_of_pairs ps) = map_of (rev ps)"
  by (simp add: dict_of_pairs_eq map_of_fold_dict_set)

lemma dict_set_fresh: "k \<notin> set (dict_keys d) \<Longrightarrow> dict_set d k v = d @ [(k, v)]"
  by (induction d) (auto simp: dict_set_def dict_keys_def)

lemma dict_of_pairs_distinct_id: "distinct (map fst ps) \<Longrightarrow> dict_of_pairs ps = ps"
proof (induction ps rule: rev_induct)
  case Nil
  show ?case by (simp add: dict_of_pairs_def)
next
  case (snoc p ps)
  then have "dict_of_pairs ps = ps" and "fst p \<notin> set (dict_keys ps)"
    by (auto simp: dict_keys_def)
  then show ?case
    by (simp add: dict_of_pairs_eq dict_set_fresh)
qed

end
