(* ===== verification/Abbreviation.thy ===== *)
theory Abbreviation
  imports PyString PyDict
begin

text \<open>
  The abbreviation resolver, \<^verbatim>\<open>OntoMapEngine._map_shortname_to_fullname\<close>. The
  code-to-name table is read from a CSV file on every call; the file system is not part
  of the source, so the table is a parameter: \<open>None\<close> when the file does not exist
  (\<^verbatim>\<open>FileNotFoundError\<close>, the one exception the source catches), otherwise the
  rows of its \<^verbatim>\<open>code\<close> and \<^verbatim>\<open>name\<close> columns, both strings.
\<close>

type_synonym abbr_source = "(string \<times> string) list option"

text \<open>\<^verbatim>\<open>dict(zip(code.str.strip(), name.str.strip()))\<close>, or the empty dictionary.\<close>

definition short_to_name :: "abbr_source \<Rightarrow> string pydict" where
  "short_to_name src =
     (case src of
        None \<Rightarrow> []
      | Some table \<Rightarrow> dict_of_pairs (map (\<lambda>(code, name). (strip code, strip name)) table))"

text \<open>
  The loop over the queries: \<^verbatim>\<open>replaced[q] = short_to_name.get(q_strip, q_strip)\<close>.
\<close>

definition map_shortname_to_fullname :: "abbr_source \<Rightarrow> string list \<Rightarrow> string pydict" where
  "map_shortname_to_fullname src non_exact_list =
     (let stn = short_to_name src
      in fold (\<lambda>q replaced. dict_set replaced q (dict_get_or stn (strip q) (strip q)))
           non_exact_list [])"

text \<open>
  The dictionary comprehension of \<^verbatim>\<open>run\<close> that re-keys the curation map:
  \<^verbatim>\<open>{mapping_dict[k]: v for k, v in cura_map.items() if k in mapping_dict}\<close>.
\<close>

definition rekey_cura_map :: "string pydict \<Rightarrow> string pydict \<Rightarrow> string pydict" where
  "rekey_cura_map mapping_dict cura =
     dict_of_pairs
       (concat (map (\<lambda>(k, v). case dict_get mapping_dict k of None \<Rightarrow> [] | Some u \<Rightarrow> [(u, v)]) cura))"

text \<open>What the resolver promises for one query: its expansion.\<close>

definition expand :: "abbr_source \<Rightarrow> string \<Rightarrow> string" where
  "expand src q = (case map_of (short_to_name src) (strip q) of None \<Rightarrow> strip q | Some name \<Rightarrow> name)"

lemmas abbr_defs [py_defs] =
  short_to_name_def map_shortname_to_fullname_def rekey_cura_map_def expand_def

section \<open>The mapping is the expansion, on exactly the given queries\<close>

lemma map_of_shortname:
  "map_of (map_shortname_to_fullname src qs) q = (if q \<in> set qs then Some (expand src q) else None)"
proof -
  let ?f = "\<lambda>q. dict_get_or (short_to_name src) (strip q) (strip q)"
  have "map_of (map (\<lambda>x. (x, ?f x)) (rev qs)) q = (if q \<in> set qs then Some (?f q) else None)"
    by (induction qs) (auto simp: map_of_append map_add_def split: option.splits)
  then show ?thesis
    by (simp add: map_shortname_to_fullname_def Let_def map_of_fold_dict_set expand_def
        dict_get_or_def)
qed

lemma keys_shortname: "dict_keys (map_shortname_to_fullname src qs) = dedup_first qs"
  by (simp add: map_shortname_to_fullname_def Let_def keys_fold_dict_set dedup_first_def)

lemma wf_shortname [simp]: "wf_dict (map_shortname_to_fullname src qs)"
  by (simp add: map_shortname_to_fullname_def Let_def wf_fold_dict_set)

lemma dict_item_shortname:
  "q \<in> set qs \<Longrightarrow> dict_item (map_shortname_to_fullname src qs) q = Inr (expand src q)"
  by (simp add: dict_item_def map_of_shortname)

text \<open>The look-ups \<^verbatim>\<open>[mapping_dict[q] for q in qs]\<close> never raise.\<close>

lemma updated_queries_total:
  "mapM_r (dict_item (map_shortname_to_fullname src qs)) qs = Inr (map (expand src) qs)"
  by (rule mapM_r_total) (simp add: dict_item_shortname)

section \<open>Properties of the expansion\<close>

lemma expand_no_table [simp]: "expand None q = strip q"
  by (simp add: expand_def short_to_name_def)

lemma expand_strip [simp]: "expand src (strip q) = expand src q"
  by (simp add: expand_def cong: option.case_cong)

lemma short_to_name_values_stripped:
  "map_of (short_to_name src) k = Some name \<Longrightarrow> strip name = name"
proof (cases src)
  case None
  then show "map_of (short_to_name src) k = Some name \<Longrightarrow> strip name = name"
    by (simp add: short_to_name_def)
next
  case (Some table)
  assume "map_of (short_to_name src) k = Some name"
  with Some have "(k, name) \<in> set (map (\<lambda>(code, name). (strip code, strip name)) table)"
    by (auto simp: short_to_name_def map_of_dict_of_pairs dest: map_of_SomeD)
  then show "strip name = name" by auto
qed

lemma expand_stripped [simp]: "strip (expand src q) = expand src q"
  by (auto simp: expand_def short_to_name_values_stripped split: option.splits)

lemma expand_unknown:
  "strip q \<notin> set (dict_keys (short_to_name src)) \<Longrightarrow> expand src q = strip q"
  by (simp add: expand_def dict_keys_def map_of_eq_None_iff [THEN iffD2])

lemma expand_known_last:
  "src = Some table \<Longrightarrow> distinct (map (strip \<circ> fst) table) \<Longrightarrow> (code, name) \<in> set table \<Longrightarrow>
   expand src code = strip name"
proof -
  assume src: "src = Some table" and d: "distinct (map (strip \<circ> fst) table)"
    and m: "(code, name) \<in> set table"
  let ?ps = "map (\<lambda>(code, name). (strip code, strip name)) table"
  from d have "distinct (map fst ?ps)" by (simp add: case_prod_unfold comp_def)
  then have "dict_of_pairs ?ps = ?ps" by (rule dict_of_pairs_distinct_id)
  moreover from m have "(strip code, strip name) \<in> set ?ps" by force
  ultimately have "map_of (short_to_name src) (strip code) = Some (strip name)"
    using src \<open>distinct (map fst ?ps)\<close> by (simp add: short_to_name_def)
  then show ?thesis by (simp add: expand_def)
qed

section \<open>The re-keyed curation map\<close>

lemma wf_rekey_cura_map [simp]: "wf_dict (rekey_cura_map md cura)"
  by (simp add: rekey_cura_map_def)

lemma rekey_cura_map_keys:
  "set (dict_keys (rekey_cura_map md cura)) = {u. \<exists>k v. (k, v) \<in> set cura \<and> map_of md k = Some u}"
  by (auto simp: rekey_cura_map_def dict_keys_of_pairs dict_get_def split: option.splits)
    (force split: option.splits)+

lemma rekey_cura_map_Some:
  "map_of (rekey_cura_map md cura) u = Some v \<Longrightarrow> \<exists>k. (k, v) \<in> set cura \<and> map_of md k = Some u"
proof -
  assume "map_of (rekey_cura_map md cura) u = Some v"
  then have "(u, v) \<in> set (concat (map (\<lambda>(k, v). case dict_get md k of None \<Rightarrow> []
      | Some u \<Rightarrow> [(u, v)]) cura))"
    by (auto simp: rekey_cura_map_def map_of_dict_of_pairs dest!: map_of_SomeD)
  then obtain k w where "(k, w) \<in> set cura"
    and "(u, v) \<in> set (case dict_get md k of None \<Rightarrow> [] | Some u \<Rightarrow> [(u, w)])"
    by auto
  then show ?thesis
    by (cases "dict_get md k") (auto simp: dict_get_def)
qed

section \<open>What the resolver returns\<close>

text \<open>
  C34. Expansion of a known code. When no two rows of the table have the same code
  after stripping, a query that is a listed code up to surrounding white space is mapped
  to the stripped name of that code, and looking it up in the mapping does not fail.
\<close>

theorem resolver_expands:
  assumes "(code, name) \<in> set table" "distinct (map (strip \<circ> fst) table)"
    and "q \<in> set qs" "strip q = strip code"
  shows "dict_item (map_shortname_to_fullname (Some table) qs) q = Inr (strip name)"
proof -
  have "expand (Some table) code = strip name"
    using assms(1,2) by (intro expand_known_last [OF refl])
  moreover have "expand (Some table) q = expand (Some table) code"
    by (metis assms(4) expand_strip)
  ultimately show ?thesis using assms(3) by (simp add: dict_item_shortname)
qed

theorem resolver_expands_witness:
  "dict_item (map_shortname_to_fullname (Some [(''XYZ'', '' xylo zeta'')]) ['' XYZ'', ''abc'']) '' XYZ''
     = Inr ''xylo zeta''"
proof -
  have 1: "(''XYZ'', '' xylo zeta'') \<in> set [(''XYZ'', '' xylo zeta'')]" by simp
  have 2: "distinct (map (strip \<circ> fst) [(''XYZ'', '' xylo zeta'')])" by simp
  have 3: "'' XYZ'' \<in> set ['' XYZ'', ''abc'']" by simp
  have 4: "strip '' XYZ'' = strip ''XYZ''" by code_simp
  have 5: "strip '' xylo zeta'' = ''xylo zeta''" by code_simp
  from resolver_expands [OF 1 2 3 4] 5 show ?thesis by simp
qed

text \<open>
  C35. Without a table (the file is missing) the resolver maps every query to itself
  with the surrounding white space removed: it is the identity only on queries without
  surrounding white space.
\<close>

theorem resolver_without_table:
  "map_shortname_to_fullname None qs = dict_of_pairs (map (\<lambda>q. (q, strip q)) qs)"
  by (simp add: map_shortname_to_fullname_def short_to_name_def dict_get_or_def dict_get_def
      dict_of_pairs_def fold_map comp_def case_prod_unfold)

end
