(* ===== verification/Frame.thy ===== *)
theory Frame
  imports PyString PyDict
begin

text \<open>
  The tables the engine passes around are pandas data frames. This theory models the
  part of pandas the engine calls: cells, frames with named columns, column assignment,
  renaming, row selection, the left merge on one key, concatenation with the union of the
  columns, and the numeric coercion of scores. A frame is a list of column names and a
  list of rows, each row a list of cells aligned with the columns; \<open>wf_frame\<close> states
  the alignment and that column names are distinct. Reasoning goes through the
  \<^emph>\<open>view\<close> of a row, the function from column names to cells that is \<open>NA\<close>
  outside the frame's columns.
\<close>

section \<open>Numbers and cells\<close>

text \<open>
  A Python float that is not NaN: a rational (every finite double is one) or one of the
  infinities. NaN is pandas' missing value and is the cell \<open>NA\<close>. Only comparison is
  used on scores, so no rounding is modelled.
\<close>

datatype pyfloat = MinusInf | Flt rat | PlusInf

instantiation pyfloat :: linorder
begin

definition less_eq_pyfloat :: "pyfloat \<Rightarrow> pyfloat \<Rightarrow> bool" where
  "less_eq_pyfloat x y =
     (case x of
        MinusInf \<Rightarrow> True
      | Flt a \<Rightarrow> (case y of MinusInf \<Rightarrow> False | Flt b \<Rightarrow> a \<le> b | PlusInf \<Rightarrow> True)
      | PlusInf \<Rightarrow> y = PlusInf)"

definition less_pyfloat :: "pyfloat \<Rightarrow> pyfloat \<Rightarrow> bool" where
  "less_pyfloat x y = (x \<le> y \<and> \<not> y \<le> (x :: pyfloat))"

instance
  by standard (auto simp: less_eq_pyfloat_def less_pyfloat_def split: pyfloat.splits)

end

lemma Flt_less_iff [simp]: "Flt a < Flt b \<longleftrightarrow> a < b"
  by (auto simp: less_pyfloat_def less_eq_pyfloat_def)

lemma Flt_le_iff [simp]: "Flt a \<le> Flt b \<longleftrightarrow> a \<le> b"
  by (simp add: less_eq_pyfloat_def)

lemma pyfloat_inf_simps [simp]:
  "MinusInf < Flt a" "Flt a < PlusInf" "MinusInf < PlusInf"
  "\<not> x < MinusInf" "\<not> PlusInf < x"
  by (auto simp: less_pyfloat_def less_eq_pyfloat_def split: pyfloat.splits)

datatype cell = NA | Str string | Num pyfloat

definition str_cells :: "string list \<Rightarrow> cell list" where
  "str_cells xs = map Str xs"

text \<open>
  \<^verbatim>\<open>Series.tolist()\<close> followed by a string method on every element: an element
  that is no string raises \<^verbatim>\<open>AttributeError\<close>.
\<close>

definition cell_text :: "cell \<Rightarrow> string result" where
  "cell_text c = (case c of Str s \<Rightarrow> Inr s | _ \<Rightarrow> Inl (AttributeError ''strip''))"

definition cells_text :: "cell list \<Rightarrow> string list result" where
  "cells_text cs = mapM_r cell_text cs"

lemma cells_text_str_cells [simp]: "cells_text (str_cells xs) = Inr xs"
  by (induction xs) (simp_all add: cells_text_def str_cells_def cell_text_def)

lemma cells_text_Inr_iff: "cells_text cs = Inr xs \<longleftrightarrow> cs = str_cells xs"
proof (induction cs arbitrary: xs)
  case Nil
  show ?case by (auto simp: cells_text_def str_cells_def)
next
  case (Cons c cs)
  show ?case
    using Cons.IH
    by (cases c; cases xs)
      (auto simp: cells_text_def str_cells_def cell_text_def bind_r_eq_Inr_iff)
qed

lemma set_str_cells [simp]: "set (str_cells xs) = Str ` set xs"
  by (simp add: str_cells_def)

lemma count_list_str_cells [simp]: "count_list (str_cells xs) (Str q) = count_list xs q"
  by (induction xs) (simp_all add: str_cells_def)

lemma cells_text_ok: "set cs \<subseteq> range Str \<Longrightarrow> is_ok (cells_text cs)"
proof -
  assume "set cs \<subseteq> range Str"
  then have "cs = str_cells (map (\<lambda>c. case c of Str s \<Rightarrow> s | _ \<Rightarrow> []) cs)"
    by (induction cs) (auto simp: str_cells_def)
  then show ?thesis by (metis cells_text_str_cells is_ok_simps(1))
qed

section \<open>Frames and row views\<close>

record frame =
  columns :: "string list"
  rows :: "cell list list"

definition aligned :: "frame \<Rightarrow> bool" where
  "aligned f = list_all (\<lambda>r. length r = length (columns f)) (rows f)"

definition wf_frame :: "frame \<Rightarrow> bool" where
  "wf_frame f = (distinct (columns f) \<and> aligned f)"

definition cell_at :: "string list \<Rightarrow> cell list \<Rightarrow> string \<Rightarrow> cell" where
  "cell_at cols r c = (case map_of (zip cols r) c of None \<Rightarrow> NA | Some v \<Rightarrow> v)"

definition views :: "frame \<Rightarrow> (string \<Rightarrow> cell) list" where
  "views f = map (cell_at (columns f)) (rows f)"

definition has_col :: "frame \<Rightarrow> string \<Rightarrow> bool" where
  "has_col f c = (c \<in> set (columns f))"

definition col_values :: "frame \<Rightarrow> string \<Rightarrow> cell list" where
  "col_values f c = map (\<lambda>v. v c) (views f)"

definition n_rows :: "frame \<Rightarrow> nat" where
  "n_rows f = length (rows f)"

text \<open>\<^verbatim>\<open>pd.DataFrame({c: vs})\<close>: one column.\<close>

definition frame_of_col :: "string \<Rightarrow> cell list \<Rightarrow> frame" where
  "frame_of_col c vs = \<lparr>columns = [c], rows = map (\<lambda>v. [v]) vs\<rparr>"

section \<open>Column assignment, renaming and row selection\<close>

text \<open>
  \<^verbatim>\<open>df[c] = series\<close> where the series is computed row by row from \<open>df\<close> itself
  (another column, a mapped column, a scalar): \<open>g\<close> receives the view of the row and
  returns the new cell. An existing column is overwritten in place, a new one is
  appended as the last column.
\<close>

definition put_cell :: "string list \<Rightarrow> cell list \<Rightarrow> string \<Rightarrow> cell \<Rightarrow> cell list" where
  "put_cell cols r c v =
     (if c \<in> set cols then map (\<lambda>(k, x). if k = c then v else x) (zip cols r) else r @ [v])"

definition assign :: "frame \<Rightarrow> string \<Rightarrow> ((string \<Rightarrow> cell) \<Rightarrow> cell) \<Rightarrow> frame" where
  "assign f c g =
     \<lparr>columns = (if c \<in> set (columns f) then columns f else columns f @ [c]),
      rows = map (\<lambda>r. put_cell (columns f) r c (g (cell_at (columns f) r))) (rows f)\<rparr>"

text \<open>\<^verbatim>\<open>df.rename(columns={old: new})\<close>; a missing \<open>old\<close> is ignored by pandas.\<close>

definition rename_col :: "frame \<Rightarrow> string \<Rightarrow> string \<Rightarrow> frame" where
  "rename_col f old new = f\<lparr>columns := map (\<lambda>c. if c = old then new else c) (columns f)\<rparr>"

text \<open>\<^verbatim>\<open>df[mask]\<close> and \<^verbatim>\<open>df.loc[mask, c]\<close> for a mask computed row by row.\<close>

definition filter_rows :: "frame \<Rightarrow> ((string \<Rightarrow> cell) \<Rightarrow> bool) \<Rightarrow> frame" where
  "filter_rows f p = f\<lparr>rows := filter (\<lambda>r. p (cell_at (columns f) r)) (rows f)\<rparr>"

section \<open>Left merge on one key\<close>

text \<open>
  \<^verbatim>\<open>pd.merge(l, r, on=key, how="left")\<close>. Every left row is kept, in order; it is
  paired with each right row that has the same key cell, in the right frame's order, or
  padded with \<open>NA\<close> when there is none. The key column appears once. A column name
  other than the key that both frames have gets pandas' suffixes. A key that is not a
  column raises \<^verbatim>\<open>KeyError\<close>; a key that names two columns raises
  \<^verbatim>\<open>ValueError\<close>.
\<close>

definition suffix_if :: "string set \<Rightarrow> string \<Rightarrow> string \<Rightarrow> string" where
  "suffix_if clash sfx c = (if c \<in> clash then c @ sfx else c)"

definition join_row :: "frame \<Rightarrow> string \<Rightarrow> string list \<Rightarrow> string list \<Rightarrow> cell list \<Rightarrow> cell list list" where
  "join_row r key lcols rest lr =
     (let ms = filter (\<lambda>rr. cell_at (columns r) rr key = cell_at lcols lr key) (rows r)
      in if ms = [] then [lr @ map (\<lambda>_. NA) rest]
         else map (\<lambda>rr. lr @ map (cell_at (columns r) rr) rest) ms)"

definition merge_left :: "frame \<Rightarrow> frame \<Rightarrow> string \<Rightarrow> frame result" where
  "merge_left l r key =
     (if key \<notin> set (columns l) \<or> key \<notin> set (columns r) then Inl (KeyError key)
      else if count_list (columns l) key \<noteq> 1 \<or> count_list (columns r) key \<noteq> 1
        then Inl (ValueError (''The column label '' @ key @ '' is not unique.''))
      else
        let rest = filter (\<lambda>c. c \<noteq> key) (columns r);
            lcols = map (suffix_if (set rest) ''_x'') (columns l);
            rcols = map (suffix_if (set (columns l)) ''_y'') rest
        in Inr \<lparr>columns = lcols @ rcols,
                rows = concat (map (join_row r key (columns l) rest) (rows l))\<rparr>)"

section \<open>Concatenation\<close>

text \<open>
  \<^verbatim>\<open>pd.concat(fs, ignore_index=True)\<close>: the rows of the frames one after the
  other, over the union of their columns in order of first appearance; a row gets
  \<open>NA\<close> in the columns its frame lacks.
\<close>

definition reindex :: "string list \<Rightarrow> frame \<Rightarrow> cell list list" where
  "reindex cols f = map (\<lambda>r. map (cell_at (columns f) r) cols) (rows f)"

definition concat_frames :: "frame list \<Rightarrow> frame" where
  "concat_frames fs =
     (let cols = dedup_first (concat (map columns fs))
      in \<lparr>columns = cols, rows = concat (map (reindex cols) fs)\<rparr>)"

section \<open>Score coercion\<close>

text \<open>
  \<^verbatim>\<open>pd.to_numeric(col, errors='coerce').fillna(0)\<close> on one cell. How pandas reads
  a string as a number is a parameter \<open>parse\<close> of the model (\<open>None\<close>: not a number,
  or NaN); the properties hold for every such function.
\<close>

definition to_numeric0 :: "(string \<Rightarrow> pyfloat option) \<Rightarrow> cell \<Rightarrow> pyfloat" where
  "to_numeric0 parse c =
     (case c of
        NA \<Rightarrow> Flt 0
      | Num x \<Rightarrow> x
      | Str s \<Rightarrow> (case parse s of None \<Rightarrow> Flt 0 | Some x \<Rightarrow> x))"

section \<open>Cell-wise series operations\<close>

text \<open>
  \<^verbatim>\<open>Series.map(d)\<close> for a dictionary with string keys (a value that is no key
  becomes missing), \<^verbatim>\<open>Series.fillna(v)\<close> and \<^verbatim>\<open>Series.astype(str)\<close>. How a
  float is printed is a parameter \<open>render\<close> of the model; a missing value prints as
  \<^verbatim>\<open>nan\<close>.
\<close>

definition series_map_dict :: "string pydict \<Rightarrow> cell \<Rightarrow> cell" where
  "series_map_dict d c =
     (case c of Str s \<Rightarrow> (case dict_get d s of None \<Rightarrow> NA | Some v \<Rightarrow> Str v) | _ \<Rightarrow> NA)"

definition fillna :: "cell \<Rightarrow> cell \<Rightarrow> cell" where
  "fillna c dflt = (case c of NA \<Rightarrow> dflt | _ \<Rightarrow> c)"

definition astype_str :: "(pyfloat \<Rightarrow> string) \<Rightarrow> cell \<Rightarrow> string" where
  "astype_str render c = (case c of NA \<Rightarrow> ''nan'' | Str s \<Rightarrow> s | Num x \<Rightarrow> render x)"

section \<open>Dropping rows\<close>

text \<open>
  \<^verbatim>\<open>df.dropna(subset=cs)\<close> drops the rows with a missing value in one of the
  columns \<open>cs\<close>; \<^verbatim>\<open>df.drop_duplicates(subset=cs)\<close> keeps the first row of every
  combination of values in \<open>cs\<close>.
\<close>

definition dropna :: "frame \<Rightarrow> string list \<Rightarrow> frame" where
  "dropna f cs = filter_rows f (\<lambda>v. list_all (\<lambda>c. v c \<noteq> NA) cs)"

definition drop_duplicates :: "frame \<Rightarrow> string list \<Rightarrow> frame" where
  "drop_duplicates f cs = f\<lparr>rows := dedup_on (\<lambda>r. map (cell_at (columns f) r) cs) (rows f)\<rparr>"

section \<open>A frame of two columns\<close>

text \<open>
  \<^verbatim>\<open>pd.DataFrame({c1: xs, c2: ys})\<close>; pandas raises \<^verbatim>\<open>ValueError\<close> when the
  two lists differ in length.
\<close>

definition frame_of_2cols :: "string \<Rightarrow> cell list \<Rightarrow> string \<Rightarrow> cell list \<Rightarrow> frame result" where
  "frame_of_2cols c1 xs c2 ys =
     (if length xs \<noteq> length ys then Inl (ValueError ''All arrays must be of the same length'')
      else Inr \<lparr>columns = [c1, c2], rows = map (\<lambda>(x, y). [x, y]) (zip xs ys)\<rparr>)"

lemmas frame_defs [py_defs] =
  views_def has_col_def col_values_def n_rows_def frame_of_col_def assign_def rename_col_def
  filter_rows_def merge_left_def join_row_def concat_frames_def reindex_def to_numeric0_def
  cell_at_def put_cell_def suffix_if_def series_map_dict_def fillna_def astype_str_def
  dropna_def drop_duplicates_def frame_of_2cols_def

section \<open>The abstract join\<close>

text \<open>
  What the merge promises, on views: two frames are \<open>joinable\<close> on a key when the key
  names exactly one column of each and is the only name they share. \<open>join_views\<close> is
  the left join of one left view with the right views.
\<close>

definition joinable :: "frame \<Rightarrow> frame \<Rightarrow> string \<Rightarrow> bool" where
  "joinable l r key =
     (count_list (columns l) key = 1 \<and> count_list (columns r) key = 1 \<and>
      set (columns l) \<inter> set (columns r) \<subseteq> {key})"

definition join_views ::
  "string set \<Rightarrow> string \<Rightarrow> (string \<Rightarrow> cell) list \<Rightarrow> (string \<Rightarrow> cell) \<Rightarrow> (string \<Rightarrow> cell) list" where
  "join_views lcols key rvs lv =
     (let ms = filter (\<lambda>rv. rv key = lv key) rvs
      in if ms = [] then [lv] else map (\<lambda>rv c. if c \<in> lcols then lv c else rv c) ms)"

text \<open>
  Sample frames: three queries with their expansions, the answer of a backend with two
  rows for one expansion and none for another, and their left merge.
\<close>

definition left_sample :: frame where
  "left_sample = \<lparr>columns = [''original_value'', ''updated_value''],
     rows = [[Str ''a '', Str ''a''], [Str ''b'', Str ''b''], [Str ''a'', Str ''a'']]\<rparr>"

definition right_sample :: frame where
  "right_sample = \<lparr>columns = [''updated_value'', ''top1_match''],
     rows = [[Str ''a'', Str ''A1''], [Str ''a'', Str ''A2'']]\<rparr>"

definition merged_sample :: frame where
  "merged_sample = \<lparr>columns = [''original_value'', ''updated_value'', ''top1_match''],
     rows = [[Str ''a '', Str ''a'', Str ''A1''], [Str ''a '', Str ''a'', Str ''A2''],
             [Str ''b'', Str ''b'', NA],
             [Str ''a'', Str ''a'', Str ''A1''], [Str ''a'', Str ''a'', Str ''A2'']]\<rparr>"

section \<open>Cells of a row\<close>

lemma cell_at_notin [simp]: "c \<notin> set cols \<Longrightarrow> cell_at cols r c = NA"
  by (auto simp: cell_at_def split: option.splits dest!: map_of_SomeD set_zip_leftD)

lemma cell_at_map_cols: "cell_at cols (map g cols) c = (if c \<in> set cols then g c else NA)"
  by (simp add: cell_at_def map_of_zip_map)

lemma cell_at_append:
  "length r = length cols \<Longrightarrow>
   cell_at (cols @ cs) (r @ vs) c = (if c \<in> set cols then cell_at cols r c else cell_at cs vs c)"
  by (auto simp: cell_at_def map_add_def split: option.splits dest!: map_of_SomeD set_zip_leftD)

lemma length_put_cell:
  "length r = length cols \<Longrightarrow>
   length (put_cell cols r c v) = length (if c \<in> set cols then cols else cols @ [c])"
  by (simp add: put_cell_def)

lemma map_of_zip_put:
  "length cols = length r \<Longrightarrow>
   map_of (zip cols (map (\<lambda>(k, x). if k = c then v else x) (zip cols r))) k
     = (if k = c \<and> c \<in> set cols then Some v else map_of (zip cols r) k)"
  by (induction cols r rule: list_induct2) auto

lemma cell_at_put_cell:
  "length r = length cols \<Longrightarrow>
   cell_at (if c \<in> set cols then cols else cols @ [c]) (put_cell cols r c v) = (cell_at cols r)(c := v)"
  by (auto simp: fun_eq_iff put_cell_def cell_at_append) (auto simp: cell_at_def map_of_zip_put)

lemma cell_at_reindex:
  "set cols' \<subseteq> set cols \<Longrightarrow> cell_at cols (map (cell_at cols' r) cols) = cell_at cols' r"
  by (auto simp: fun_eq_iff cell_at_map_cols intro!: cell_at_notin [symmetric])

lemma map_of_zip_rename:
  assumes "length cols = length r" "distinct cols" "new \<notin> set cols - {old}"
  shows "map_of (zip (map (\<lambda>c. if c = old then new else c) cols) r) k =
     (if k = new then map_of (zip cols r) old else if k = old then None else map_of (zip cols r) k)"
  using assms
  by (induction cols r rule: list_induct2) (auto simp: map_of_eq_None_iff dest: set_zip_leftD)

lemma cell_at_rename:
  assumes "length r = length cols" "distinct cols" "new \<notin> set cols - {old}"
  shows "cell_at (map (\<lambda>c. if c = old then new else c) cols) r =
     (\<lambda>k. if k = new then cell_at cols r old else if k = old then NA else cell_at cols r k)"
  using map_of_zip_rename [OF assms(1) [symmetric] assms(2,3)]
  by (auto simp: cell_at_def fun_eq_iff)

lemma cell_at_join_nomatch:
  "length lr = length lcols \<Longrightarrow> cell_at (lcols @ rest) (lr @ map (\<lambda>_. NA) rest) = cell_at lcols lr"
  by (auto simp: fun_eq_iff cell_at_append cell_at_map_cols)

lemma cell_at_join_match:
  "length lr = length lcols \<Longrightarrow>
   cell_at (lcols @ rest) (lr @ map g rest) =
     (\<lambda>c. if c \<in> set lcols then cell_at lcols lr c else if c \<in> set rest then g c else NA)"
  by (auto simp: fun_eq_iff cell_at_append cell_at_map_cols)

section \<open>Well-formedness is kept\<close>

lemma alignedD: "aligned f \<Longrightarrow> r \<in> set (rows f) \<Longrightarrow> length r = length (columns f)"
  by (simp add: aligned_def list_all_iff)

lemma wf_aligned: "wf_frame f \<Longrightarrow> aligned f"
  by (simp add: wf_frame_def)

lemma aligned_frame_of_col [wf_keep, simp]: "aligned (frame_of_col c vs)"
  by (simp add: aligned_def frame_of_col_def list_all_iff)

lemma aligned_assign [wf_keep]: "aligned f \<Longrightarrow> aligned (assign f c g)"
  by (auto simp: aligned_def assign_def list_all_iff length_put_cell)

lemma aligned_filter_rows [wf_keep]: "aligned f \<Longrightarrow> aligned (filter_rows f p)"
  by (auto simp: aligned_def filter_rows_def list_all_iff)

lemma aligned_concat_frames [wf_keep, simp]: "aligned (concat_frames fs)"
  by (auto simp: aligned_def concat_frames_def reindex_def Let_def list_all_iff)

lemma aligned_rename_col [wf_keep]: "aligned f \<Longrightarrow> aligned (rename_col f old new)"
  by (simp add: aligned_def rename_col_def)

lemma wf_frame_of_col [wf_keep, simp]: "wf_frame (frame_of_col c vs)"
  using aligned_frame_of_col [of c vs] by (simp add: wf_frame_def frame_of_col_def)

lemma wf_assign [wf_keep]: "wf_frame f \<Longrightarrow> wf_frame (assign f c g)"
  using aligned_assign [of f c g] by (auto simp: wf_frame_def assign_def)

lemma wf_filter_rows [wf_keep]: "wf_frame f \<Longrightarrow> wf_frame (filter_rows f p)"
  using aligned_filter_rows [of f p] by (simp add: wf_frame_def filter_rows_def)

lemma wf_concat_frames [wf_keep, simp]: "wf_frame (concat_frames fs)"
  using aligned_concat_frames [of fs] by (simp add: wf_frame_def concat_frames_def Let_def)

lemma wf_rename_col [wf_keep]:
  "wf_frame f \<Longrightarrow> new \<notin> set (columns f) - {old} \<Longrightarrow> wf_frame (rename_col f old new)"
  using aligned_rename_col [of f old new]
  by (auto simp: wf_frame_def rename_col_def distinct_map inj_on_def)

section \<open>Columns and views of each operation\<close>

lemma columns_frame_of_col [simp]: "columns (frame_of_col c vs) = [c]"
  by (simp add: frame_of_col_def)

lemma views_frame_of_col: "views (frame_of_col c vs) = map (\<lambda>v. (\<lambda>_. NA)(c := v)) vs"
  by (auto simp: views_def frame_of_col_def cell_at_def fun_eq_iff)

lemma columns_assign:
  "columns (assign f c g) = (if c \<in> set (columns f) then columns f else columns f @ [c])"
  by (simp add: assign_def)

lemma set_columns_assign [simp]: "set (columns (assign f c g)) = insert c (set (columns f))"
  by (auto simp: assign_def)

lemma views_assign: "aligned f \<Longrightarrow> views (assign f c g) = map (\<lambda>v. v(c := g v)) (views f)"
  by (simp add: views_def assign_def cell_at_put_cell alignedD)

lemma columns_filter_rows [simp]: "columns (filter_rows f p) = columns f"
  by (simp add: filter_rows_def)

lemma views_filter_rows: "views (filter_rows f p) = filter p (views f)"
  by (simp add: views_def filter_rows_def filter_map comp_def)

lemma columns_rename_col [simp]:
  "columns (rename_col f old new) = map (\<lambda>c. if c = old then new else c) (columns f)"
  by (simp add: rename_col_def)

lemma views_rename_col:
  assumes "wf_frame f" "new \<notin> set (columns f) - {old}"
  shows "views (rename_col f old new) =
     map (\<lambda>v k. if k = new then v old else if k = old then NA else v k) (views f)"
proof -
  from assms(1) have d: "distinct (columns f)" by (simp add: wf_frame_def)
  have "cell_at (map (\<lambda>c. if c = old then new else c) (columns f)) r =
      (\<lambda>k. if k = new then cell_at (columns f) r old else if k = old then NA
        else cell_at (columns f) r k)" if "r \<in> set (rows f)" for r
    by (rule cell_at_rename [OF alignedD [OF wf_aligned [OF assms(1)] that] d assms(2)])
  then show ?thesis
    by (simp add: views_def rename_col_def cong: map_cong)
qed

lemma columns_concat_frames: "columns (concat_frames fs) = dedup_first (concat (map columns fs))"
  by (simp add: concat_frames_def Let_def)

lemma views_concat_frames: "views (concat_frames fs) = concat (map views fs)"
proof -
  have "f \<in> set fs \<Longrightarrow> set (columns f) \<subseteq> set (dedup_first (concat (map columns fs)))" for f
    by auto
  then show ?thesis
    by (simp add: views_def concat_frames_def reindex_def Let_def map_concat comp_def
        cell_at_reindex cong: map_cong)
qed

lemma length_views [simp]: "length (views f) = n_rows f"
  by (simp add: views_def n_rows_def)

lemma n_rows_concat_frames: "n_rows (concat_frames fs) = sum_list (map n_rows fs)"
  using arg_cong [OF views_concat_frames [of fs], of length]
  by (simp add: length_concat comp_def)

lemma col_values_concat_frames:
  "col_values (concat_frames fs) c = concat (map (\<lambda>f. col_values f c) fs)"
  by (simp add: col_values_def views_concat_frames map_concat comp_def)

lemma col_values_filter_rows:
  "col_values (filter_rows f p) c = map (\<lambda>v. v c) (filter p (views f))"
  by (simp add: col_values_def views_filter_rows)

section \<open>Dropping rows, two-column frames, cell operations\<close>

lemma aligned_dropna [wf_keep]: "aligned f \<Longrightarrow> aligned (dropna f cs)"
  by (simp add: dropna_def aligned_filter_rows)

lemma wf_dropna [wf_keep]: "wf_frame f \<Longrightarrow> wf_frame (dropna f cs)"
  by (simp add: dropna_def wf_filter_rows)

lemma columns_dropna [simp]: "columns (dropna f cs) = columns f"
  by (simp add: dropna_def)

lemma views_dropna: "views (dropna f cs) = filter (\<lambda>v. \<forall>c\<in>set cs. v c \<noteq> NA) (views f)"
  by (simp add: dropna_def views_filter_rows list_all_iff)

lemma columns_drop_duplicates [simp]: "columns (drop_duplicates f cs) = columns f"
  by (simp add: drop_duplicates_def)

lemma aligned_drop_duplicates [wf_keep]: "aligned f \<Longrightarrow> aligned (drop_duplicates f cs)"
  using set_dedup_on_subset [of "\<lambda>r. map (cell_at (columns f) r) cs" "rows f"]
  by (auto simp: aligned_def drop_duplicates_def list_all_iff)

lemma wf_drop_duplicates [wf_keep]: "wf_frame f \<Longrightarrow> wf_frame (drop_duplicates f cs)"
  using aligned_drop_duplicates [of f cs] by (simp add: wf_frame_def)

lemma views_drop_duplicates:
  "views (drop_duplicates f cs) = dedup_on (\<lambda>v. map v cs) (views f)"
  using dedup_on_map [where h = "cell_at (columns f)" and k = "\<lambda>v. map v cs" and xs = "rows f"]
  by (simp add: views_def drop_duplicates_def)

lemma frame_of_2cols_Inr:
  "length xs = length ys \<Longrightarrow>
   frame_of_2cols c1 xs c2 ys = Inr \<lparr>columns = [c1, c2], rows = map (\<lambda>(x, y). [x, y]) (zip xs ys)\<rparr>"
  by (simp add: frame_of_2cols_def)

lemma views_frame_of_2cols:
  "frame_of_2cols c1 xs c2 ys = Inr f \<Longrightarrow> c1 \<noteq> c2 \<Longrightarrow>
   views f = map (\<lambda>(x, y). (\<lambda>_. NA)(c1 := x, c2 := y)) (zip xs ys)"
  by (auto simp: frame_of_2cols_def views_def cell_at_def fun_eq_iff split: if_splits)

lemma columns_frame_of_2cols:
  "frame_of_2cols c1 xs c2 ys = Inr f \<Longrightarrow> columns f = [c1, c2]"
  by (auto simp: frame_of_2cols_def split: if_splits)

lemma aligned_frame_of_2cols [wf_keep]: "frame_of_2cols c1 xs c2 ys = Inr f \<Longrightarrow> aligned f"
  by (auto simp: frame_of_2cols_def aligned_def list_all_iff split: if_splits)

lemma fillna_simps [simp]:
  "fillna NA d = d" "fillna (Str s) d = Str s" "fillna (Num x) d = Num x"
  by (simp_all add: fillna_def)

lemma series_map_dict_Str [simp]:
  "series_map_dict d (Str s) = (case map_of d s of None \<Rightarrow> NA | Some v \<Rightarrow> Str v)"
  by (simp add: series_map_dict_def dict_get_def)

lemma astype_str_Str [simp]: "astype_str render (Str s) = s"
  by (simp add: astype_str_def)

section \<open>Operations that change nothing\<close>

lemma put_cell_same_aux:
  "length cols = length r \<Longrightarrow> distinct cols \<Longrightarrow> map_of (zip cols r) c = Some v \<or> c \<notin> set cols \<Longrightarrow>
   map (\<lambda>(k, x). if k = c then v else x) (zip cols r) = r"
  by (induction cols r rule: list_induct2) (auto split: if_splits)

lemma put_cell_same:
  "length r = length cols \<Longrightarrow> distinct cols \<Longrightarrow> c \<in> set cols \<Longrightarrow>
   put_cell cols r c (cell_at cols r c) = r"
proof -
  assume a: "length r = length cols" "distinct cols" "c \<in> set cols"
  then obtain v where v: "map_of (zip cols r) c = Some v"
    using map_of_zip_is_Some [of cols r c] by auto
  with a put_cell_same_aux [of cols r c v] show ?thesis
    by (simp add: put_cell_def cell_at_def)
qed

lemma assign_same:
  assumes "wf_frame f" "c \<in> set (columns f)" "\<And>v. v \<in> set (views f) \<Longrightarrow> g v = v c"
  shows "assign f c g = f"
proof -
  have "put_cell (columns f) r c (g (cell_at (columns f) r)) = r" if "r \<in> set (rows f)" for r
  proof -
    from that have "g (cell_at (columns f) r) = cell_at (columns f) r c"
      by (intro assms(3)) (simp add: views_def)
    with assms(1,2) that show ?thesis
      by (simp add: put_cell_same alignedD wf_frame_def)
  qed
  then have "map (\<lambda>r. put_cell (columns f) r c (g (cell_at (columns f) r))) (rows f) = rows f"
    by (simp add: map_idI)
  with assms(2) show ?thesis by (simp add: assign_def)
qed

lemma filter_rows_all: "(\<And>v. v \<in> set (views f) \<Longrightarrow> p v) \<Longrightarrow> filter_rows f p = f"
  by (simp add: filter_rows_def views_def)

lemma dropna_same:
  "(\<And>v c. v \<in> set (views f) \<Longrightarrow> c \<in> set cs \<Longrightarrow> v c \<noteq> NA) \<Longrightarrow> dropna f cs = f"
  by (simp add: dropna_def filter_rows_all list_all_iff)

lemma drop_duplicates_same:
  "distinct (map (\<lambda>v. map v cs) (views f)) \<Longrightarrow> drop_duplicates f cs = f"
  by (simp add: drop_duplicates_def views_def comp_def dedup_on_distinct_id)

section \<open>The merge implements the abstract join\<close>

lemma merge_left_joinable:
  assumes "joinable l r key"
  shows "merge_left l r key =
    Inr \<lparr>columns = columns l @ filter (\<lambda>c. c \<noteq> key) (columns r),
         rows = concat (map (join_row r key (columns l) (filter (\<lambda>c. c \<noteq> key) (columns r)))
                  (rows l))\<rparr>"
proof -
  from assms have k: "count_list (columns l) key = 1" "count_list (columns r) key = 1"
    by (auto simp: joinable_def)
  then have mem: "key \<in> set (columns l)" "key \<in> set (columns r)"
    by (auto dest: count_list_1_mem)
  have "map (suffix_if (set (filter (\<lambda>c. c \<noteq> key) (columns r))) ''_x'') (columns l) = columns l"
    using assms by (auto simp: joinable_def suffix_if_def intro!: map_idI)
  moreover have "map (suffix_if (set (columns l)) ''_y'') (filter (\<lambda>c. c \<noteq> key) (columns r))
      = filter (\<lambda>c. c \<noteq> key) (columns r)"
    using assms by (auto simp: joinable_def suffix_if_def intro!: map_idI)
  ultimately show ?thesis
    using k mem by (simp add: merge_left_def Let_def)
qed

lemma merge_left_KeyError:
  "key \<notin> set (columns l) \<or> key \<notin> set (columns r) \<Longrightarrow> merge_left l r key = Inl (KeyError key)"
  by (simp add: merge_left_def)

lemma columns_merge_left:
  "joinable l r key \<Longrightarrow> merge_left l r key = Inr m \<Longrightarrow>
   columns m = columns l @ filter (\<lambda>c. c \<noteq> key) (columns r)"
  by (auto simp: merge_left_joinable)

lemma views_merge_left:
  assumes j: "joinable l r key" and wf: "aligned l" and m: "merge_left l r key = Inr m"
  shows "views m = concat (map (join_views (set (columns l)) key (views r)) (views l))"
proof -
  let ?rest = "filter (\<lambda>c. c \<noteq> key) (columns r)"
  have key: "key \<in> set (columns l)"
    using j by (auto simp: joinable_def dest: count_list_1_mem)
  have row: "map (cell_at (columns l @ ?rest)) (join_row r key (columns l) ?rest lr)
      = join_views (set (columns l)) key (views r) (cell_at (columns l) lr)"
    if "lr \<in> set (rows l)" for lr
  proof -
    from that wf have len: "length lr = length (columns l)" by (rule alignedD [rotated])
    have pick: "cell_at (columns l @ ?rest) (lr @ map (cell_at (columns r) rr) ?rest)
        = (\<lambda>c. if c \<in> set (columns l) then cell_at (columns l) lr c else cell_at (columns r) rr c)"
      for rr
      using key by (auto simp: cell_at_join_match [OF len] fun_eq_iff)
    show ?thesis
      by (simp add: join_row_def join_views_def Let_def views_def filter_map comp_def
          cell_at_join_nomatch [OF len] pick)
  qed
  from m have "m = \<lparr>columns = columns l @ ?rest,
      rows = concat (map (join_row r key (columns l) ?rest) (rows l))\<rparr>"
    by (simp add: merge_left_joinable [OF j])
  then show ?thesis
    by (simp add: views_def map_concat comp_def row cong: map_cong)
qed

lemma aligned_merge_left [wf_keep]:
  assumes wf: "aligned l" and m: "merge_left l r key = Inr m"
  shows "aligned m"
proof -
  let ?rest = "filter (\<lambda>c. c \<noteq> key) (columns r)"
  have "length x = length (columns l) + length ?rest"
    if "lr \<in> set (rows l)" "x \<in> set (join_row r key (columns l) ?rest lr)" for lr x
    using that alignedD [OF wf that(1)] by (auto simp: join_row_def Let_def split: if_splits)
  then show ?thesis
    using m by (auto simp: merge_left_def aligned_def list_all_iff Let_def split: if_splits)
qed

lemma wf_merge_left [wf_keep]:
  assumes j: "joinable l r key" and wf: "wf_frame l" and d: "distinct (columns r)"
    and m: "merge_left l r key = Inr m"
  shows "wf_frame m"
proof -
  from j wf d have "distinct (columns l @ filter (\<lambda>c. c \<noteq> key) (columns r))"
    by (auto simp: joinable_def wf_frame_def)
  with aligned_merge_left [OF wf_aligned [OF wf] m] columns_merge_left [OF j m] show ?thesis
    by (simp add: wf_frame_def)
qed

lemma merge_left_Inr_iff:
  "(\<exists>m. merge_left l r key = Inr m) \<longleftrightarrow>
     count_list (columns l) key = 1 \<and> count_list (columns r) key = 1"
  by (auto simp: merge_left_def Let_def dest: count_list_1_mem)

text \<open>
  A left join never loses a left row, and keeps exactly one row per left row when no two
  right rows share a key.
\<close>

lemma join_views_nonempty [simp]: "join_views lcols key rvs lv \<noteq> []"
  by (simp add: join_views_def Let_def)

lemma join_views_left_cols:
  "v \<in> set (join_views lcols key rvs lv) \<Longrightarrow> c \<in> lcols \<Longrightarrow> v c = lv c"
  by (auto simp: join_views_def Let_def split: if_splits)

lemma join_views_unique:
  assumes "distinct (map (\<lambda>rv. rv key) rvs)"
  shows "length (join_views lcols key rvs lv) = 1"
proof -
  have "length (filter (\<lambda>rv. rv key = k) rvs) \<le> 1" for k
    using assms by (induction rvs) (auto simp: filter_empty_conv image_iff)
  from this [of "lv key"] show ?thesis
    by (auto simp: join_views_def Let_def le_Suc_eq)
qed

text \<open>
  C17. Refinement of the left merge. For two frames that share only the key column,
  \<^verbatim>\<open>pd.merge(l, r, on=key, how="left")\<close> has the columns of the left frame followed by
  the other columns of the right frame, its rows are the abstract left join of the rows
  of the two frames, and it has at least as many rows as the left frame.
\<close>

theorem merge_left_refines_join:
  assumes "joinable l r key" "aligned l" "merge_left l r key = Inr m"
  shows "columns m = columns l @ filter (\<lambda>c. c \<noteq> key) (columns r) \<and>
         views m = concat (map (join_views (set (columns l)) key (views r)) (views l)) \<and>
         n_rows l \<le> n_rows m"
proof -
  have v: "views m = concat (map (join_views (set (columns l)) key (views r)) (views l))"
    using assms by (rule views_merge_left)
  have "length (views l)
      \<le> length (concat (map (join_views (set (columns l)) key (views r)) (views l)))"
    by (rule length_concat_nonempty) simp
  then have "n_rows l \<le> n_rows m"
    using arg_cong [OF v, of length] by simp
  with v columns_merge_left [OF assms(1,3)] show ?thesis by simp
qed

theorem merge_left_refines_join_witness:
  "joinable left_sample right_sample ''updated_value'' \<and>
   merge_left left_sample right_sample ''updated_value'' = Inr merged_sample \<and>
   n_rows left_sample \<le> n_rows merged_sample"
proof -
  have j: "joinable left_sample right_sample ''updated_value''" by code_simp
  have a: "aligned left_sample" by code_simp
  have m: "merge_left left_sample right_sample ''updated_value'' = Inr merged_sample" by code_simp
  from merge_left_refines_join [OF j a m] j m show ?thesis by simp
qed

end
