(* ===== verification/Normalizer.thy ===== *)
theory Normalizer
  imports Frame
begin

text \<open>
  The corpus normalizer, \<^verbatim>\<open>OntoMapEngine._normalize_df\<close>: it makes sure that the
  reference table has an \<^verbatim>\<open>official_label\<close> column (falling back to
  \<^verbatim>\<open>label\<close>) and, when a code is needed, a \<^verbatim>\<open>clean_code\<close> column (derived
  from \<^verbatim>\<open>obo_id\<close>), drops the rows with a missing key and the duplicate keys, and
  converts the key columns to strings. The three numbered blocks of the source are the
  three definitions below; \<open>normalize_df\<close> composes them.
\<close>

section \<open>The three steps\<close>

definition official_label_fallback :: "frame \<Rightarrow> frame result" where
  "official_label_fallback df =
     (if \<not> has_col df ''official_label'' then
        if has_col df ''label'' then Inr (assign df ''official_label'' (\<lambda>v. v ''label''))
        else Inl (ValueError (''DataFrame must contain '' @ quoted ''official_label'' @ '' or ''
                    @ quoted ''label''))
      else Inr df)"

definition code_of_obo :: "(pyfloat \<Rightarrow> string) \<Rightarrow> cell \<Rightarrow> cell" where
  "code_of_obo render c = (case extract_code (astype_str render c) of None \<Rightarrow> NA | Some k \<Rightarrow> Str k)"

definition clean_code_fallback :: "(pyfloat \<Rightarrow> string) \<Rightarrow> frame \<Rightarrow> bool \<Rightarrow> frame result" where
  "clean_code_fallback render df need_code =
     (if need_code then
        if \<not> has_col df ''clean_code'' then
          if has_col df ''obo_id'' then
            Inr (assign df ''clean_code'' (\<lambda>v. code_of_obo render (v ''obo_id'')))
          else Inl (ValueError (''DataFrame must contain '' @ quoted ''clean_code'' @ '' or ''
                      @ quoted ''obo_id'' @ '' for RAG/RAG_BIE strategies''))
        else Inr df
      else Inr df)"

definition keep_cols :: "bool \<Rightarrow> string list" where
  "keep_cols need_code = [''official_label''] @ (if need_code then [''clean_code''] else [])"

definition basic_cleaning :: "(pyfloat \<Rightarrow> string) \<Rightarrow> frame \<Rightarrow> bool \<Rightarrow> frame" where
  "basic_cleaning render df need_code =
     (let keep = keep_cols need_code;
          df1 = drop_duplicates (dropna df keep) keep;
          df2 = assign df1 ''official_label'' (\<lambda>v. Str (astype_str render (v ''official_label'')))
      in if has_col df2 ''clean_code''
         then assign df2 ''clean_code'' (\<lambda>v. Str (astype_str render (v ''clean_code'')))
         else df2)"

definition normalize_df :: "(pyfloat \<Rightarrow> string) \<Rightarrow> frame \<Rightarrow> bool \<Rightarrow> frame result" where
  "normalize_df render df need_code =
     bind_r (official_label_fallback df) (\<lambda>df1.
     bind_r (clean_code_fallback render df1 need_code) (\<lambda>df2.
     Inr (basic_cleaning render df2 need_code)))"

lemmas normalizer_defs [py_defs] =
  official_label_fallback_def code_of_obo_def clean_code_fallback_def keep_cols_def
  basic_cleaning_def normalize_df_def

section \<open>When normalization fails, and with which error\<close>

definition label_error :: error where
  "label_error = ValueError (''DataFrame must contain '' @ quoted ''official_label'' @ '' or ''
     @ quoted ''label'')"

definition code_error :: error where
  "code_error = ValueError (''DataFrame must contain '' @ quoted ''clean_code'' @ '' or ''
     @ quoted ''obo_id'' @ '' for RAG/RAG_BIE strategies'')"

definition has_label_source :: "frame \<Rightarrow> bool" where
  "has_label_source df = (has_col df ''official_label'' \<or> has_col df ''label'')"

definition has_code_source :: "frame \<Rightarrow> bool" where
  "has_code_source df = (has_col df ''clean_code'' \<or> has_col df ''obo_id'')"

lemma official_label_fallback_cases:
  "official_label_fallback df =
     (if has_col df ''official_label'' then Inr df
      else if has_col df ''label'' then Inr (assign df ''official_label'' (\<lambda>v. v ''label''))
      else Inl label_error)"
  by (simp add: official_label_fallback_def label_error_def)

lemma official_label_fallback_has:
  "official_label_fallback df = Inr df1 \<Longrightarrow> has_col df1 ''official_label''"
  by (auto simp: official_label_fallback_cases has_col_def split: if_splits)

lemma official_label_fallback_cols:
  "official_label_fallback df = Inr df1 \<Longrightarrow>
   set (columns df1) = insert ''official_label'' (set (columns df))"
  by (auto simp: official_label_fallback_cases has_col_def split: if_splits)

lemma clean_code_fallback_cases:
  "clean_code_fallback render df need_code =
     (if \<not> need_code \<or> has_col df ''clean_code'' then Inr df
      else if has_col df ''obo_id''
        then Inr (assign df ''clean_code'' (\<lambda>v. code_of_obo render (v ''obo_id'')))
      else Inl code_error)"
  by (simp add: clean_code_fallback_def code_error_def)

lemma clean_code_fallback_has:
  "clean_code_fallback render df need_code = Inr df2 \<Longrightarrow> need_code \<Longrightarrow> has_col df2 ''clean_code''"
  by (auto simp: clean_code_fallback_cases has_col_def split: if_splits)

lemma clean_code_fallback_keeps:
  "clean_code_fallback render df need_code = Inr df2 \<Longrightarrow> has_col df c \<Longrightarrow> has_col df2 c"
  by (auto simp: clean_code_fallback_cases has_col_def split: if_splits)

lemma normalize_df_label_error:
  "\<not> has_label_source df \<Longrightarrow> normalize_df render df need_code = Inl label_error"
  by (simp add: normalize_df_def official_label_fallback_cases has_label_source_def)

lemma normalize_df_code_error:
  "has_label_source df \<Longrightarrow> need_code \<Longrightarrow> \<not> has_code_source df \<Longrightarrow>
   normalize_df render df need_code = Inl code_error"
  by (auto simp: normalize_df_def official_label_fallback_cases clean_code_fallback_cases
      has_label_source_def has_code_source_def has_col_def)

lemma normalize_df_ok_iff:
  "is_ok (normalize_df render df need_code) \<longleftrightarrow>
     has_label_source df \<and> (need_code \<longrightarrow> has_code_source df)"
  by (auto simp: normalize_df_def official_label_fallback_cases clean_code_fallback_cases
      has_label_source_def has_code_source_def has_col_def)

section \<open>Well-formedness and the columns of the result\<close>

lemma wf_official_label_fallback [wf_keep]:
  "wf_frame df \<Longrightarrow> official_label_fallback df = Inr df1 \<Longrightarrow> wf_frame df1"
  by (auto simp: official_label_fallback_cases wf_assign split: if_splits)

lemma wf_clean_code_fallback [wf_keep]:
  "wf_frame df \<Longrightarrow> clean_code_fallback render df need_code = Inr df2 \<Longrightarrow> wf_frame df2"
  by (auto simp: clean_code_fallback_cases wf_assign split: if_splits)

lemma wf_basic_cleaning [wf_keep]: "wf_frame df \<Longrightarrow> wf_frame (basic_cleaning render df need_code)"
  by (simp add: basic_cleaning_def Let_def wf_assign wf_drop_duplicates wf_dropna)

lemma wf_normalize_df [wf_keep]:
  "wf_frame df \<Longrightarrow> normalize_df render df need_code = Inr out \<Longrightarrow> wf_frame out"
  by (auto simp: normalize_df_def bind_r_eq_Inr_iff
      intro: wf_basic_cleaning wf_clean_code_fallback wf_official_label_fallback)

lemma columns_basic_cleaning:
  "has_col df ''official_label'' \<Longrightarrow> columns (basic_cleaning render df need_code) = columns df"
  by (simp add: basic_cleaning_def Let_def has_col_def columns_assign)

lemma normalize_df_has_label:
  "normalize_df render df need_code = Inr out \<Longrightarrow> has_col out ''official_label''"
proof -
  assume "normalize_df render df need_code = Inr out"
  then obtain df1 df2 where 1: "official_label_fallback df = Inr df1"
    and 2: "clean_code_fallback render df1 need_code = Inr df2"
    and 3: "out = basic_cleaning render df2 need_code"
    by (auto simp: normalize_df_def bind_r_eq_Inr_iff)
  from official_label_fallback_has [OF 1] clean_code_fallback_keeps [OF 2]
  have "has_col df2 ''official_label''" by blast
  with 3 show ?thesis by (simp add: columns_basic_cleaning has_col_def)
qed

lemma normalize_df_has_code:
  "normalize_df render df True = Inr out \<Longrightarrow> has_col out ''clean_code''"
proof -
  assume "normalize_df render df True = Inr out"
  then obtain df1 df2 where 1: "official_label_fallback df = Inr df1"
    and 2: "clean_code_fallback render df1 True = Inr df2"
    and 3: "out = basic_cleaning render df2 True"
    by (auto simp: normalize_df_def bind_r_eq_Inr_iff)
  from official_label_fallback_has [OF 1] clean_code_fallback_keeps [OF 2]
  have "has_col df2 ''official_label''" by blast
  moreover from clean_code_fallback_has [OF 2] have "has_col df2 ''clean_code''" by simp
  ultimately show ?thesis using 3 by (simp add: columns_basic_cleaning has_col_def)
qed

end
