(* ===== verification/NormalizerContract.thy ===== *)
theory NormalizerContract
  imports Normalizer
begin

text \<open>
  What \<^verbatim>\<open>_normalize_df\<close> promises. A table is \<open>normalized\<close> when it is well
  formed, has the key columns, holds only strings in them and has no two rows with the same
  key. A normalized table is a fixed point of the normalizer. The normalizer produces a
  normalized table when the key cells of its input are text or missing
  (\<open>key_cells_text\<close>); it removes duplicates \<^emph>\<open>before\<close> it converts the keys to
  strings, so for a table that mixes numbers and text in a key column the promise fails.
\<close>

section \<open>The contract\<close>

definition is_text :: "cell \<Rightarrow> bool" where
  "is_text c = (case c of Str _ \<Rightarrow> True | _ \<Rightarrow> False)"

definition normalized :: "bool \<Rightarrow> frame \<Rightarrow> bool" where
  "normalized need_code f =
     (wf_frame f \<and> has_col f ''official_label'' \<and> (need_code \<longrightarrow> has_col f ''clean_code'') \<and>
      list_all (\<lambda>v. is_text (v ''official_label'')) (views f) \<and>
      (has_col f ''clean_code'' \<longrightarrow> list_all (\<lambda>v. is_text (v ''clean_code'')) (views f)) \<and>
      distinct (map (\<lambda>v. map v (keep_cols need_code)) (views f)))"

definition text_or_na :: "cell \<Rightarrow> bool" where
  "text_or_na c = (case c of Num _ \<Rightarrow> False | _ \<Rightarrow> True)"

definition key_cells_text :: "bool \<Rightarrow> frame \<Rightarrow> bool" where
  "key_cells_text need_code df =
     list_all (\<lambda>v. text_or_na (if has_col df ''official_label'' then v ''official_label'' else v ''label'')
                \<and> (need_code \<and> has_col df ''clean_code'' \<longrightarrow> text_or_na (v ''clean_code'')))
       (views df)"

text \<open>
  Where the two key cells of a row come from: the \<^verbatim>\<open>official_label\<close> column or,
  without it, \<^verbatim>\<open>label\<close>; the \<^verbatim>\<open>clean_code\<close> column or, without it, the
  code found in \<^verbatim>\<open>obo_id\<close>.
\<close>

definition label_source :: "frame \<Rightarrow> (string \<Rightarrow> cell) \<Rightarrow> cell" where
  "label_source df v = (if has_col df ''official_label'' then v ''official_label'' else v ''label'')"

definition code_source :: "(pyfloat \<Rightarrow> string) \<Rightarrow> frame \<Rightarrow> (string \<Rightarrow> cell) \<Rightarrow> cell" where
  "code_source render df v =
     (if has_col df ''clean_code'' then v ''clean_code'' else code_of_obo render (v ''obo_id''))"

section \<open>Sample tables\<close>

text \<open>
  A reference table as the engine receives it (labels and OBO identifiers, with a repeated
  key and a missing label), its normal form, and a table whose label column holds a
  number \<open>x\<close> next to a string \<open>s\<close>.
\<close>

definition demo_render :: "pyfloat \<Rightarrow> string" where
  "demo_render x = ''0.0''"

definition demo_corpus_df :: frame where
  "demo_corpus_df = \<lparr>columns = [''label'', ''obo_id''],
     rows = [[Str ''lung cancer'', Str ''NCIT:C7377''], [Str ''Breast Cancer'', Str ''NCIT:C4872''],
             [Str ''lung cancer'', Str ''http://purl.obolibrary.org/obo/NCIT_C7377''], [NA, Str ''NCIT:C1'']]\<rparr>"

definition demo_normal_df :: frame where
  "demo_normal_df = \<lparr>columns = [''label'', ''obo_id'', ''official_label'', ''clean_code''],
     rows = [[Str ''lung cancer'', Str ''NCIT:C7377'', Str ''lung cancer'', Str ''C7377''],
             [Str ''Breast Cancer'', Str ''NCIT:C4872'', Str ''Breast Cancer'', Str ''C4872'']]\<rparr>"

definition mixed_df :: "pyfloat \<Rightarrow> string \<Rightarrow> frame" where
  "mixed_df x s = \<lparr>columns = [''official_label''], rows = [[Num x], [Str s]]\<rparr>"

section \<open>A normalized table is a fixed point\<close>


lemma is_text_iff: "is_text c \<longleftrightarrow> (\<exists>s. c = Str s)"
  by (cases c) (auto simp: is_text_def)

lemma astype_text: "is_text c \<Longrightarrow> Str (astype_str render c) = c"
  by (auto simp: is_text_iff)

lemma basic_cleaning_normalized:
  assumes "normalized need_code f"
  shows "basic_cleaning render f need_code = f"
proof -
  from assms have wf: "wf_frame f" and ol: "''official_label'' \<in> set (columns f)"
    and olt: "\<And>v. v \<in> set (views f) \<Longrightarrow> is_text (v ''official_label'')"
    and cct: "\<And>v. ''clean_code'' \<in> set (columns f) \<Longrightarrow> v \<in> set (views f) \<Longrightarrow> is_text (v ''clean_code'')"
    and nc: "need_code \<Longrightarrow> ''clean_code'' \<in> set (columns f)"
    and d: "distinct (map (\<lambda>v. map v (keep_cols need_code)) (views f))"
    by (auto simp: normalized_def has_col_def list_all_iff)
  have "v c \<noteq> NA" if "v \<in> set (views f)" "c \<in> set (keep_cols need_code)" for v c
    using that olt [of v] cct [of v] nc by (auto simp: keep_cols_def is_text_iff split: if_splits)
  then have 1: "dropna f (keep_cols need_code) = f" by (rule dropna_same)
  have 2: "drop_duplicates f (keep_cols need_code) = f" using d by (rule drop_duplicates_same)
  have 3: "assign f ''official_label'' (\<lambda>v. Str (astype_str render (v ''official_label''))) = f"
    using wf ol by (rule assign_same) (simp add: astype_text olt)
  have 4: "assign f ''clean_code'' (\<lambda>v. Str (astype_str render (v ''clean_code''))) = f"
    if "''clean_code'' \<in> set (columns f)"
    using wf that by (rule assign_same) (simp add: astype_text cct that)
  show ?thesis
    by (simp add: basic_cleaning_def Let_def 1 2 3 4 has_col_def)
qed

lemma normalize_df_normalized:
  "normalized need_code f \<Longrightarrow> normalize_df render f need_code = Inr f"
proof -
  assume n: "normalized need_code f"
  then have "has_col f ''official_label''" and "need_code \<longrightarrow> has_col f ''clean_code''"
    by (simp_all add: normalized_def)
  then show ?thesis
    by (auto simp: normalize_df_def official_label_fallback_cases clean_code_fallback_cases
        basic_cleaning_normalized [OF n])
qed

section \<open>The result of the cleaning step\<close>

lemma views_basic_cleaning:
  assumes "aligned df" "has_col df ''official_label''"
  shows "views (basic_cleaning render df need_code) =
    map (\<lambda>v. if has_col df ''clean_code''
              then v(''official_label'' := Str (astype_str render (v ''official_label'')),
                     ''clean_code'' := Str (astype_str render (v ''clean_code'')))
              else v(''official_label'' := Str (astype_str render (v ''official_label''))))
      (dedup_on (\<lambda>v. map v (keep_cols need_code))
         (filter (\<lambda>v. \<forall>c\<in>set (keep_cols need_code). v c \<noteq> NA) (views df)))"
proof -
  let ?d1 = "drop_duplicates (dropna df (keep_cols need_code)) (keep_cols need_code)"
  have a1: "aligned ?d1" using assms(1) by (simp add: aligned_drop_duplicates aligned_dropna)
  have v1: "views ?d1 = dedup_on (\<lambda>v. map v (keep_cols need_code))
         (filter (\<lambda>v. \<forall>c\<in>set (keep_cols need_code). v c \<noteq> NA) (views df))"
    by (simp add: views_drop_duplicates views_dropna)
  let ?d2 = "assign ?d1 ''official_label'' (\<lambda>v. Str (astype_str render (v ''official_label'')))"
  have a2: "aligned ?d2" using a1 by (rule aligned_assign)
  have c2: "has_col ?d2 ''clean_code'' = has_col df ''clean_code''"
    by (simp add: has_col_def)
  show ?thesis
    by (simp add: basic_cleaning_def Let_def c2 views_assign [OF a2] views_assign [OF a1] v1 comp_def)
qed


section \<open>Text keys give a normalized result\<close>

lemma text_or_na_iff: "text_or_na c \<longleftrightarrow> c = NA \<or> is_text c"
  by (cases c) (auto simp: text_or_na_def is_text_def)

lemma code_of_obo_text: "text_or_na (code_of_obo render c)"
  by (simp add: code_of_obo_def text_or_na_def split: option.splits)

lemma fallbacks_key_cells:
  assumes wf: "wf_frame df" and t: "key_cells_text need_code df"
    and 1: "official_label_fallback df = Inr df1"
    and 2: "clean_code_fallback render df1 need_code = Inr df2"
    and v: "v \<in> set (views df2)"
  shows "text_or_na (v ''official_label'') \<and> (need_code \<longrightarrow> text_or_na (v ''clean_code''))"
proof -
  have a: "aligned df" using wf by (rule wf_aligned)
  have a1: "aligned df1"
    using a 1 by (auto simp: official_label_fallback_cases aligned_assign split: if_splits)
  have t1: "text_or_na (u ''official_label'') \<and>
      (need_code \<and> has_col df1 ''clean_code'' \<longrightarrow> text_or_na (u ''clean_code''))"
    if "u \<in> set (views df1)" for u
    using that t 1 a
    by (auto simp: official_label_fallback_cases key_cells_text_def list_all_iff views_assign
        has_col_def split: if_splits)
  show ?thesis
    using v 2 t1 a1
    by (auto simp: clean_code_fallback_cases views_assign code_of_obo_text has_col_def
        split: if_splits)
qed

text \<open>The rows after the two fallbacks, with both key columns filled in.\<close>

lemma views_fallbacks:
  assumes a: "aligned df"
    and 1: "official_label_fallback df = Inr df1"
    and 2: "clean_code_fallback render df1 True = Inr df2"
  shows "aligned df2"
    and "views df2 = map (\<lambda>v. v(''official_label'' := label_source df v,
                                 ''clean_code'' := code_source render df v)) (views df)"
proof -
  have a1: "aligned df1"
    using a 1 by (auto simp: official_label_fallback_cases aligned_assign split: if_splits)
  have v1: "views df1 = map (\<lambda>v. v(''official_label'' := label_source df v)) (views df)"
    using a 1
    by (auto simp: official_label_fallback_cases views_assign label_source_def split: if_splits)
  have c1: "has_col df1 ''clean_code'' = has_col df ''clean_code''"
    using 1 by (auto simp: official_label_fallback_cases has_col_def split: if_splits)
  show "aligned df2"
    using a1 2 by (auto simp: clean_code_fallback_cases aligned_assign split: if_splits)
  have "views df2 = map (\<lambda>u. u(''clean_code'' :=
      (if has_col df ''clean_code'' then u ''clean_code'' else code_of_obo render (u ''obo_id''))))
      (views df1)"
    using a1 2 c1 by (auto simp: clean_code_fallback_cases views_assign split: if_splits)
  then show "views df2 = map (\<lambda>v. v(''official_label'' := label_source df v,
                                 ''clean_code'' := code_source render df v)) (views df)"
    by (simp add: v1 code_source_def comp_def)
qed


lemma normalize_df_normalizes:
  assumes wf: "wf_frame df" and t: "key_cells_text need_code df"
    and n: "normalize_df render df need_code = Inr out"
  shows "normalized need_code out"
proof -
  from n obtain df1 df2 where 1: "official_label_fallback df = Inr df1"
    and 2: "clean_code_fallback render df1 need_code = Inr df2"
    and 3: "out = basic_cleaning render df2 need_code"
    by (auto simp: normalize_df_def bind_r_eq_Inr_iff)
  have wf2: "wf_frame df2"
    using wf 1 2 by (blast intro: wf_official_label_fallback wf_clean_code_fallback)
  have ol2: "has_col df2 ''official_label''"
    using official_label_fallback_has [OF 1] clean_code_fallback_keeps [OF 2] by blast
  have cc2: "need_code \<Longrightarrow> has_col df2 ''clean_code''"
    using clean_code_fallback_has [OF 2] by simp
  let ?keep = "keep_cols need_code"
  let ?sel = "dedup_on (\<lambda>v. map v ?keep) (filter (\<lambda>v. \<forall>c\<in>set ?keep. v c \<noteq> NA) (views df2))"
  let ?post = "\<lambda>v. if has_col df2 ''clean_code''
              then v(''official_label'' := Str (astype_str render (v ''official_label'')),
                     ''clean_code'' := Str (astype_str render (v ''clean_code'')))
              else v(''official_label'' := Str (astype_str render (v ''official_label'')))"
  have vs: "views out = map ?post ?sel"
    unfolding 3 by (rule views_basic_cleaning [OF wf_aligned [OF wf2] ol2])
  have sel: "v \<in> set (views df2) \<and> (\<forall>c\<in>set ?keep. v c \<noteq> NA)" if "v \<in> set ?sel" for v
    using that set_dedup_on_subset [of "\<lambda>v. map v ?keep"
        "filter (\<lambda>v. \<forall>c\<in>set ?keep. v c \<noteq> NA) (views df2)"] by auto
  have keys: "map (?post v) ?keep = map v ?keep" if "v \<in> set ?sel" for v
    using sel [OF that] fallbacks_key_cells [OF wf t 1 2, of v]
    by (auto simp: keep_cols_def text_or_na_iff is_text_iff)
  have "map (\<lambda>v. map v ?keep) (views out) = map (\<lambda>v. map v ?keep) ?sel"
    by (simp add: vs comp_def keys cong: map_cong)
  then have d: "distinct (map (\<lambda>v. map v ?keep) (views out))"
    by simp
  have cols: "columns out = columns df2"
    unfolding 3 by (rule columns_basic_cleaning [OF ol2])
  show ?thesis
    unfolding normalized_def
    using wf_normalize_df [OF wf n] ol2 cc2 d
    by (auto simp: has_col_def cols vs list_all_iff is_text_def)
qed

section \<open>Idempotence and the keys of the result\<close>

lemma demo_normalize: "normalize_df demo_render demo_corpus_df True = Inr demo_normal_df"
  by code_simp

lemma demo_corpus_df_ok: "wf_frame demo_corpus_df" "key_cells_text True demo_corpus_df"
  by code_simp+

text \<open>
  C15. Idempotence of \<^verbatim>\<open>_normalize_df\<close>. For a well-formed table whose key cells are text
  or missing, normalizing the normalized table returns it unchanged.
\<close>

theorem normalize_df_idempotent:
  assumes "wf_frame df" "key_cells_text need_code df"
    and "normalize_df render df need_code = Inr out"
  shows "normalize_df render out need_code = Inr out"
  by (rule normalize_df_normalized [OF normalize_df_normalizes [OF assms]])

theorem normalize_df_idempotent_witness:
  "normalize_df demo_render demo_corpus_df True = Inr demo_normal_df \<and>
   normalize_df demo_render demo_normal_df True = Inr demo_normal_df"
  using normalize_df_idempotent [OF demo_corpus_df_ok demo_normalize] demo_normalize by simp

text \<open>
  C16. The normalizer's contract. For a well-formed table whose key cells are text or
  missing, the normalized table is well formed, has the label column (and the code column
  when a code is needed), holds a string in every key cell, and has no two rows with the
  same key.
\<close>

theorem normalize_df_keys:
  assumes "wf_frame df" "key_cells_text need_code df"
    and "normalize_df render df need_code = Inr out"
  shows "wf_frame out \<and> has_col out ''official_label'' \<and>
         list_all (\<lambda>v. is_text (v ''official_label'')) (views out) \<and>
         (need_code \<longrightarrow> has_col out ''clean_code'' \<and>
            list_all (\<lambda>v. is_text (v ''clean_code'')) (views out)) \<and>
         distinct (map (\<lambda>v. map v (keep_cols need_code)) (views out))"
  using normalize_df_normalizes [OF assms] by (simp add: normalized_def)

theorem normalize_df_keys_witness:
  "wf_frame demo_normal_df \<and>
   distinct (map (\<lambda>v. map v (keep_cols True)) (views demo_normal_df))"
  using normalize_df_keys [OF demo_corpus_df_ok demo_normalize] by simp

text \<open>
  C36. The text-key assumption cannot be dropped. \<^verbatim>\<open>_normalize_df\<close> removes duplicates
  before it converts the key column to strings: for a label column that holds the number
  \<open>x\<close> and the string that \<open>x\<close> prints as, the result has two rows with the same
  label, and normalizing it again changes it. This holds for every way of printing
  numbers.
\<close>

theorem mixed_keys_not_idempotent:
  "wf_frame (mixed_df x (render x)) \<and>
   (\<exists>out. normalize_df render (mixed_df x (render x)) False = Inr out \<and>
      normalize_df render out False \<noteq> Inr out \<and>
      \<not> distinct (col_values out ''official_label''))"
  by (simp add: mixed_df_def normalizer_defs frame_defs wf_frame_def aligned_def Let_def)

end
