(* ===== verification/Engine.thy ===== *)
theory Engine
  imports NormalizerContract
begin

text \<open>
  The state of \<^verbatim>\<open>OntoMapEngine\<close> and its constructor. The keyword arguments of
  \<^verbatim>\<open>__init__\<close> are the record \<open>init_args\<close>; the extension bag
  \<^verbatim>\<open>**other_params\<close> is the record \<open>params\<close>, in which an absent key is
  \<open>None\<close>. A constructed engine is an \<open>init_args\<close> record extended by the checked
  \<^verbatim>\<open>_test_or_prod\<close> value. The constructor returns the engine or the
  \<^verbatim>\<open>ValueError\<close> it raises; the checks are made in the order of the source.
  The value of \<^verbatim>\<open>test_or_prod\<close> is a string: a call that passes the key with the
  value \<^verbatim>\<open>None\<close> is outside the model. Of \<^verbatim>\<open>other_params\<close> only the three
  keys the engine reads are kept.
\<close>

section \<open>State\<close>

record params =
  p_test_or_prod :: "string option"
  p_corpus_df :: "frame option"
  p_query_df :: "frame option"

record init_args =
  method_name :: string
  category :: string
  query :: "string list"
  corpus :: "string list"
  cura_map :: "string pydict"
  topk :: int
  s2_strategy :: string
  s3_strategy :: "string option"
  s3_threshold :: pyfloat
  other_params :: params

record engine = init_args +
  test_or_prod :: string

section \<open>The errors of the constructor\<close>

definition test_or_prod_error :: error where
  "test_or_prod_error = ValueError ''test_or_prod value must be defined in other_params dictionary''"

definition s2_strategy_error :: error where
  "s2_strategy_error = ValueError (''s2_strategy must be '' @ quoted ''lm'' @ '' or '' @ quoted ''st'')"

definition s3_strategy_error :: error where
  "s3_strategy_error =
     ValueError (''s3_strategy must be '' @ quoted ''rag'' @ '', '' @ quoted ''rag_bie'' @ '', or None'')"

definition corpus_df_error :: error where
  "corpus_df_error =
     ValueError (''corpus_df must be provided for '' @ quoted ''rag'' @ ''/'' @ quoted ''rag_bie''
       @ '' for running stage 3'')"

section \<open>The constructor\<close>

text \<open>
  \<^verbatim>\<open>corpus_df["official_label"].astype(str).unique().tolist()\<close>: the working
  corpus of a stage-3 configuration.
\<close>

definition label_corpus :: "(pyfloat \<Rightarrow> string) \<Rightarrow> frame \<Rightarrow> string list" where
  "label_corpus render df = dedup_first (map (astype_str render) (col_values df ''official_label''))"

definition assign_fields :: "init_args \<Rightarrow> string \<Rightarrow> engine" where
  "assign_fields a tp =
     \<lparr>method_name = method_name a, category = category a, query = query a,
      corpus = dedup_first (corpus a), cura_map = cura_map a, topk = topk a,
      s2_strategy = s2_strategy a, s3_strategy = s3_strategy a,
      s3_threshold = s3_threshold a, other_params = other_params a, test_or_prod = tp\<rparr>"

definition init_engine :: "(pyfloat \<Rightarrow> string) \<Rightarrow> init_args \<Rightarrow> engine result" where
  "init_engine render a =
     (case p_test_or_prod (other_params a) of
        None \<Rightarrow> Inl test_or_prod_error
      | Some tp \<Rightarrow>
          let e = assign_fields a tp
          in if s2_strategy a \<notin> {''lm'', ''st''} then Inl s2_strategy_error
             else
               (case s3_strategy a of
                  None \<Rightarrow> Inr e
                | Some s3 \<Rightarrow>
                    if s3 \<notin> {''rag'', ''rag_bie''} then Inl s3_strategy_error
                    else
                      (case p_corpus_df (other_params a) of
                         None \<Rightarrow> Inl corpus_df_error
                       | Some corpus_df \<Rightarrow>
                           bind_r (normalize_df render corpus_df True) (\<lambda>df.
                             Inr (e\<lparr>corpus := label_corpus render df,
                                    other_params := (other_params a)\<lparr>p_corpus_df := Some df\<rparr>\<rparr>)))))"

lemmas engine_defs [py_defs] = init_engine_def assign_fields_def label_corpus_def

lemmas init_errors =
  test_or_prod_error_def s2_strategy_error_def s3_strategy_error_def corpus_df_error_def

section \<open>The invariant of a constructed engine\<close>

text \<open>
  What every method of the engine may rely on: the stage-2 strategy is one of the two
  semantic matchers, a stage-3 strategy is one of the two retrieval matchers and comes
  with a reference table, and the corpus has no duplicate.
\<close>

definition valid_engine :: "engine \<Rightarrow> bool" where
  "valid_engine e =
     (s2_strategy e \<in> {''lm'', ''st''} \<and>
      (case s3_strategy e of
         None \<Rightarrow> True
       | Some s3 \<Rightarrow> s3 \<in> {''rag'', ''rag_bie''} \<and> p_corpus_df (other_params e) \<noteq> None) \<and>
      distinct (corpus e) \<and>
      p_test_or_prod (other_params e) = Some (test_or_prod e))"

section \<open>The first error of a configuration\<close>

text \<open>
  Which \<^verbatim>\<open>ValueError\<close> a configuration raises, as a decision list in the order of
  the constructor's checks; \<open>None\<close> when it raises none.
\<close>

definition first_error :: "init_args \<Rightarrow> error option" where
  "first_error a =
     (if p_test_or_prod (other_params a) = None then Some test_or_prod_error
      else if s2_strategy a \<notin> {''lm'', ''st''} then Some s2_strategy_error
      else
        (case s3_strategy a of
           None \<Rightarrow> None
         | Some s3 \<Rightarrow>
             if s3 \<notin> {''rag'', ''rag_bie''} then Some s3_strategy_error
             else
               (case p_corpus_df (other_params a) of
                  None \<Rightarrow> Some corpus_df_error
                | Some df \<Rightarrow>
                    if \<not> has_label_source df then Some label_error
                    else if \<not> has_code_source df then Some code_error else None)))"

section \<open>The labels of a reference table\<close>

text \<open>
  What the corpus of a stage-3 engine is meant to be, read off the table as given: the
  labels of the rows that have a label and a code, printed as strings, each once, in the
  order of first appearance.
\<close>

definition reference_labels :: "(pyfloat \<Rightarrow> string) \<Rightarrow> frame \<Rightarrow> string list" where
  "reference_labels render df =
     dedup_first (map (\<lambda>v. astype_str render (label_source df v))
       (filter (\<lambda>v. label_source df v \<noteq> NA \<and> code_source render df v \<noteq> NA) (views df)))"

section \<open>A sample configuration\<close>

definition demo_args :: init_args where
  "demo_args = \<lparr>method_name = ''mpnet'', category = ''disease'',
     query = [''Lung Cancer'', '' lung cancer'', ''abc'', ''XYZ''],
     corpus = [''lung cancer'', ''lung cancer''],
     cura_map = [(''Lung Cancer'', ''Lung Carcinoma'')], topk = 1, s2_strategy = ''st'',
     s3_strategy = Some ''rag'', s3_threshold = Flt (9 / 10),
     other_params = \<lparr>p_test_or_prod = Some ''test'', p_corpus_df = Some demo_corpus_df,
       p_query_df = None\<rparr>\<rparr>"

definition demo_engine :: engine where
  "demo_engine = \<lparr>method_name = ''mpnet'', category = ''disease'',
     query = [''Lung Cancer'', '' lung cancer'', ''abc'', ''XYZ''],
     corpus = [''lung cancer'', ''Breast Cancer''],
     cura_map = [(''Lung Cancer'', ''Lung Carcinoma'')], topk = 1, s2_strategy = ''st'',
     s3_strategy = Some ''rag'', s3_threshold = Flt (9 / 10),
     other_params = \<lparr>p_test_or_prod = Some ''test'', p_corpus_df = Some demo_normal_df,
       p_query_df = None\<rparr>, test_or_prod = ''test''\<rparr>"

lemma demo_init: "init_engine demo_render demo_args = Inr demo_engine"
  by code_simp

section \<open>Which configurations are refused, and with which error\<close>

lemma normalize_df_Inl_iff:
  "normalize_df render df need_code = Inl err \<longleftrightarrow>
     (\<not> has_label_source df \<and> err = label_error) \<or>
     (has_label_source df \<and> need_code \<and> \<not> has_code_source df \<and> err = code_error)"
proof (cases "has_label_source df")
  case False
  then show ?thesis by (auto simp: normalize_df_label_error)
next
  case l: True
  show ?thesis
  proof (cases "need_code \<and> \<not> has_code_source df")
    case True
    with l show ?thesis by (auto simp: normalize_df_code_error)
  next
    case False
    with l have "is_ok (normalize_df render df need_code)" by (auto simp: normalize_df_ok_iff)
    with l False show ?thesis by (auto simp: is_ok_iff)
  qed
qed

text \<open>
  C10. The constructor's errors. \<^verbatim>\<open>__init__\<close> raises exactly the first error of the
  decision list: a missing \<^verbatim>\<open>test_or_prod\<close>, then a stage-2 strategy other than
  \<^verbatim>\<open>lm\<close> and \<^verbatim>\<open>st\<close>, then a stage-3 strategy other than \<^verbatim>\<open>rag\<close>
  and \<^verbatim>\<open>rag_bie\<close>, then a missing reference table, then a reference table without a
  label column, then one without a code column.
\<close>

theorem init_engine_errors: "init_engine render a = Inl err \<longleftrightarrow> first_error a = Some err"
  by (auto simp: init_engine_def first_error_def Let_def bind_r_eq_Inl_iff normalize_df_Inl_iff
      split: option.splits)

lemma init_engine_ok_iff: "is_ok (init_engine render a) \<longleftrightarrow> first_error a = None"
proof -
  have "\<not> is_ok (init_engine render a) \<longleftrightarrow> (\<exists>err. init_engine render a = Inl err)"
    by (cases "init_engine render a") simp_all
  then show ?thesis by (auto simp: init_engine_errors)
qed

section \<open>What a constructed engine holds\<close>

lemma init_engine_Inr:
  assumes "init_engine render a = Inr e"
  obtains (no_s3) tp where "p_test_or_prod (other_params a) = Some tp" "s3_strategy a = None"
      "e = assign_fields a tp"
  | (with_s3) tp s3 df df' where "p_test_or_prod (other_params a) = Some tp"
      "s3_strategy a = Some s3" "s3 \<in> {''rag'', ''rag_bie''}"
      "p_corpus_df (other_params a) = Some df" "normalize_df render df True = Inr df'"
      "e = (assign_fields a tp)\<lparr>corpus := label_corpus render df',
             other_params := (other_params a)\<lparr>p_corpus_df := Some df'\<rparr>\<rparr>"
  using assms
  by (auto simp: init_engine_def Let_def bind_r_eq_Inr_iff split: option.splits if_splits)

lemma init_engine_s2: "init_engine render a = Inr e \<Longrightarrow> s2_strategy e \<in> {''lm'', ''st''}"
  by (auto simp: init_engine_def Let_def bind_r_eq_Inr_iff assign_fields_def
      split: option.splits if_splits)

lemma init_valid:
  assumes "init_engine render a = Inr e"
  shows "valid_engine e"
  using assms
proof (cases rule: init_engine_Inr)
  case (no_s3 tp)
  with init_engine_s2 [OF assms] show ?thesis
    by (simp add: valid_engine_def assign_fields_def distinct_dedup_first)
next
  case (with_s3 tp s3 df df')
  with init_engine_s2 [OF assms] show ?thesis
    by (simp add: valid_engine_def assign_fields_def label_corpus_def distinct_dedup_first)
qed

text \<open>
  C13. Every engine that the constructor returns is valid: its stage-2 strategy is
  \<^verbatim>\<open>lm\<close> or \<^verbatim>\<open>st\<close>, a stage-3 strategy is \<^verbatim>\<open>rag\<close> or
  \<^verbatim>\<open>rag_bie\<close> and comes with a reference table, the corpus has no duplicate,
  and with stage 3 the stored reference table has the label and the code column and the
  corpus is its list of distinct labels.
\<close>

theorem init_engine_valid:
  assumes "init_engine render a = Inr e"
  shows "valid_engine e \<and>
         (\<forall>s3. s3_strategy e = Some s3 \<longrightarrow>
            (\<exists>df. p_corpus_df (other_params e) = Some df \<and> has_col df ''official_label'' \<and>
               has_col df ''clean_code'' \<and> corpus e = label_corpus render df))"
  using assms
proof (cases rule: init_engine_Inr)
  case (no_s3 tp)
  with init_valid [OF assms] show ?thesis by (simp add: assign_fields_def)
next
  case (with_s3 tp s3 df df')
  with init_valid [OF assms] normalize_df_has_label [of render df True df']
    normalize_df_has_code [of render df df']
  show ?thesis by (simp add: assign_fields_def)
qed

theorem init_engine_valid_witness:
  "init_engine demo_render demo_args = Inr demo_engine \<and> valid_engine demo_engine"
  using init_engine_valid [OF demo_init] demo_init by simp

section \<open>The corpus of a stage-3 engine\<close>

text \<open>
  The labels of the normalized table are the labels of the given one: the fallbacks fill
  in the two key columns, the cleaning step keeps the rows that have both, and removing
  repeated (label, code) pairs first does not change which labels come first.
\<close>

lemma label_corpus_normalize_df:
  assumes a: "aligned df" and n: "normalize_df render df True = Inr out"
  shows "label_corpus render out = reference_labels render df"
proof -
  from n obtain df1 df2 where 1: "official_label_fallback df = Inr df1"
    and 2: "clean_code_fallback render df1 True = Inr df2"
    and 3: "out = basic_cleaning render df2 True"
    by (auto simp: normalize_df_def bind_r_eq_Inr_iff)
  note f = views_fallbacks [OF a 1 2]
  have ol2: "has_col df2 ''official_label''"
    using official_label_fallback_has [OF 1] clean_code_fallback_keeps [OF 2] by blast
  have cc2: "has_col df2 ''clean_code''"
    using clean_code_fallback_has [OF 2] by simp
  let ?k = "\<lambda>v::string \<Rightarrow> cell. map v (keep_cols True)"
  let ?g = "\<lambda>v::string \<Rightarrow> cell. astype_str render (v ''official_label'')"
  let ?sel = "filter (\<lambda>v. \<forall>c\<in>set (keep_cols True). v c \<noteq> NA) (views df2)"
  have m: "map (astype_str render) (col_values out ''official_label'') = map ?g (dedup_on ?k ?sel)"
    unfolding 3 col_values_def views_basic_cleaning [OF f(1) ol2] by (simp add: cc2 comp_def)
  have "dedup_first (map ?g (dedup_on ?k ?sel)) = dedup_first (map ?g ?sel)"
    by (rule dedup_first_map_dedup_on) (simp add: keep_cols_def)
  then have "label_corpus render out = dedup_first (map ?g ?sel)"
    unfolding label_corpus_def m .
  also have "\<dots> = reference_labels render df"
    by (simp add: f(2) reference_labels_def keep_cols_def filter_map comp_def)
  finally show ?thesis .
qed

text \<open>
  C30. The working corpus, in terms of the arguments. Without stage 3 the corpus is the
  given list without its repeated entries. With stage 3 the given list is ignored: the
  corpus is the list of distinct labels of the given reference table, taken from
  \<^verbatim>\<open>official_label\<close> or else \<^verbatim>\<open>label\<close>, over the rows that have a label
  and a code (\<^verbatim>\<open>clean_code\<close> or else the code found in \<^verbatim>\<open>obo_id\<close>), in
  the order of first appearance. Dropping the duplicate (label, code) pairs before the
  labels are printed does not change this list.
\<close>

theorem init_engine_corpus:
  assumes "init_engine render a = Inr e"
    and "\<forall>raw. p_corpus_df (other_params a) = Some raw \<longrightarrow> aligned raw"
  shows "corpus e =
     (case s3_strategy a of
        None \<Rightarrow> dedup_first (corpus a)
      | Some _ \<Rightarrow>
          (case p_corpus_df (other_params a) of
             None \<Rightarrow> []
           | Some raw \<Rightarrow> reference_labels render raw))"
  using assms(1)
proof (cases rule: init_engine_Inr)
  case (no_s3 tp)
  then show ?thesis by (simp add: assign_fields_def)
next
  case (with_s3 tp s3 df df')
  with assms(2) have "aligned df" by simp
  from label_corpus_normalize_df [OF this with_s3(5)] with_s3 show ?thesis by simp
qed

theorem init_engine_corpus_witness:
  "init_engine demo_render demo_args = Inr demo_engine \<and>
   corpus demo_engine = reference_labels demo_render demo_corpus_df \<and>
   reference_labels demo_render demo_corpus_df = [''lung cancer'', ''Breast Cancer'']"
proof -
  have a: "\<forall>raw. p_corpus_df (other_params demo_args) = Some raw \<longrightarrow> aligned raw"
    using demo_corpus_df_ok(1) by (simp add: demo_args_def wf_aligned)
  have r: "reference_labels demo_render demo_corpus_df = [''lung cancer'', ''Breast Cancer'']"
    by code_simp
  from init_engine_corpus [OF demo_init a] demo_init r show ?thesis
    by (simp add: demo_args_def)
qed

text \<open>
  The constructor stores the method, the category, the queries, the curation map, the
  number of ranks, the strategies, the threshold, the run mode and the query table as
  given.
\<close>

lemma init_engine_keeps_arguments:
  assumes "init_engine render a = Inr e"
  shows "method_name e = method_name a \<and> category e = category a \<and> query e = query a \<and>
         cura_map e = cura_map a \<and> topk e = topk a \<and> s2_strategy e = s2_strategy a \<and>
         s3_strategy e = s3_strategy a \<and> s3_threshold e = s3_threshold a \<and>
         p_test_or_prod (other_params a) = Some (test_or_prod e) \<and>
         p_query_df (other_params e) = p_query_df (other_params a)"
  using assms by (cases rule: init_engine_Inr) (simp_all add: assign_fields_def)

lemma init_engine_keeps_arguments_witness:
  "init_engine demo_render demo_args = Inr demo_engine \<and> query demo_engine = query demo_args \<and>
   s3_threshold demo_engine = s3_threshold demo_args"
  using init_engine_keeps_arguments [OF demo_init] demo_init by simp

end
