(* ===== verification/Adapter.thy ===== *)
theory Adapter
  imports Engine
begin

text \<open>
  The matcher adapter, \<^verbatim>\<open>OntoMapEngine._om_model_from_strategy\<close>: it resolves a
  strategy name to one of the four backend classes and passes the constructor arguments
  that class takes. The backends are not part of the source. A \<open>model\<close> records which
  class was chosen and with which arguments; what a backend answers is the capability
  \<open>matcher\<close>, a parameter of the model of \<^verbatim>\<open>run\<close>.
\<close>

datatype backend = OntoMapLM | OntoMapST | OntoMapRAG | OntoMapBIE

record model_args =
  m_method :: string
  m_category :: string
  m_om_strategy :: string
  m_query :: "string list"
  m_corpus :: "string list"
  m_topk :: int
  m_from_tokenizer :: "bool option"
  m_query_df :: "frame option"
  m_corpus_df :: "frame option"

datatype model = Model backend model_args

text \<open>
  \<^verbatim>\<open>model.get_match_results(cura_map=.., topk=.., test_or_prod=..)\<close>: the table
  of a backend, or the exception it raises.
\<close>

type_synonym matcher = "model \<Rightarrow> string pydict \<Rightarrow> int \<Rightarrow> string \<Rightarrow> frame result"

definition strategy_error :: "string \<Rightarrow> error" where
  "strategy_error strategy =
     ValueError (''strategy should be '' @ quoted ''st'' @ '', '' @ quoted ''lm'' @ '', ''
       @ quoted ''rag'' @ '', or '' @ quoted ''rag_bie'' @ '', got '' @ quoted strategy)"

definition common_args :: "engine \<Rightarrow> string \<Rightarrow> string list \<Rightarrow> model_args" where
  "common_args e strategy non_exact_query_list =
     \<lparr>m_method = method_name e, m_category = category e, m_om_strategy = strategy,
      m_query = non_exact_query_list, m_corpus = corpus e, m_topk = topk e,
      m_from_tokenizer = None, m_query_df = None, m_corpus_df = None\<rparr>"

definition om_model_from_strategy :: "engine \<Rightarrow> string \<Rightarrow> string list \<Rightarrow> model result" where
  "om_model_from_strategy e strategy non_exact_query_list =
     (let query_df = p_query_df (other_params e);
          corpus_df = p_corpus_df (other_params e);
          args = common_args e strategy non_exact_query_list
      in if strategy = ''lm'' then Inr (Model OntoMapLM (args\<lparr>m_from_tokenizer := Some True\<rparr>))
         else if strategy = ''st'' then Inr (Model OntoMapST (args\<lparr>m_from_tokenizer := Some False\<rparr>))
         else if strategy = ''rag'' then Inr (Model OntoMapRAG (args\<lparr>m_corpus_df := corpus_df\<rparr>))
         else if strategy = ''rag_bie''
           then Inr (Model OntoMapBIE (args\<lparr>m_query_df := query_df, m_corpus_df := corpus_df\<rparr>))
         else Inl (strategy_error strategy))"

lemmas adapter_defs [py_defs] = om_model_from_strategy_def common_args_def strategy_error_def

definition known_strategy :: "string \<Rightarrow> bool" where
  "known_strategy s = (s \<in> {''lm'', ''st'', ''rag'', ''rag_bie''})"

definition backend_of :: "model \<Rightarrow> backend" where
  "backend_of m = (case m of Model b _ \<Rightarrow> b)"

definition args_of :: "model \<Rightarrow> model_args" where
  "args_of m = (case m of Model _ a \<Rightarrow> a)"

section \<open>Resolution\<close>

lemma om_model_ok_iff:
  "is_ok (om_model_from_strategy e strategy qs) \<longleftrightarrow> known_strategy strategy"
  by (auto simp: om_model_from_strategy_def known_strategy_def Let_def)

lemma om_model_unknown:
  "\<not> known_strategy strategy \<Longrightarrow> om_model_from_strategy e strategy qs = Inl (strategy_error strategy)"
  by (auto simp: om_model_from_strategy_def known_strategy_def Let_def)

lemma om_model_backend:
  "om_model_from_strategy e strategy qs = Inr m \<Longrightarrow>
   backend_of m =
     (if strategy = ''lm'' then OntoMapLM else if strategy = ''st'' then OntoMapST
      else if strategy = ''rag'' then OntoMapRAG else OntoMapBIE)"
  by (auto simp: om_model_from_strategy_def backend_of_def Let_def split: if_splits)

lemma om_model_passes_queries:
  "om_model_from_strategy e strategy qs = Inr m \<Longrightarrow>
   m_query (args_of m) = qs \<and> m_corpus (args_of m) = corpus e \<and> m_topk (args_of m) = topk e \<and>
   m_om_strategy (args_of m) = strategy \<and> m_method (args_of m) = method_name e \<and>
   m_category (args_of m) = category e"
  by (auto simp: om_model_from_strategy_def args_of_def common_args_def Let_def split: if_splits)

lemma om_model_reference_table:
  "om_model_from_strategy e strategy qs = Inr m \<Longrightarrow> strategy \<in> {''rag'', ''rag_bie''} \<Longrightarrow>
   m_corpus_df (args_of m) = p_corpus_df (other_params e)"
  by (auto simp: om_model_from_strategy_def args_of_def common_args_def Let_def split: if_splits)

end
