(* ===== verification/Cascade.thy ===== *)
theory Cascade
  imports ExactMatch Abbreviation Adapter
begin

text \<open>
  The cascade controller and the result assembler, \<^verbatim>\<open>OntoMapEngine.run\<close>. The
  environment \<open>env\<close> holds what \<^verbatim>\<open>run\<close> reads from outside the engine: the
  abbreviation table on disk, the answer of a matcher backend, and how pandas reads a
  score written as text. \<open>exact_frame\<close> is the stage-1 table, \<open>semantic_stage\<close> the
  block of statements that stage 2 and stage 3 share (abbreviation expansion, backend
  call, merge back to the original values, curated value, stage tag), and \<open>run\<close> the
  method with its four exits. Every exception is a value \<open>Inl\<close>.
\<close>

section \<open>Environment\<close>

record env =
  abbr_table :: abbr_source
  get_match_results :: matcher
  parse_score :: "string \<Rightarrow> pyfloat option"

section \<open>Stage 1: the table of the exact matches\<close>

definition top_match_col :: "nat \<Rightarrow> string" where
  "top_match_col i = ''top'' @ str_nat i @ ''_match''"

definition top_score_col :: "nat \<Rightarrow> string" where
  "top_score_col i = ''top'' @ str_nat i @ ''_score''"

text \<open>\<^verbatim>\<open>range(1, self.topk + 1)\<close>\<close>

definition topk_range :: "int \<Rightarrow> nat list" where
  "topk_range k = [1 ..< nat (k + 1)]"

definition add_topk :: "nat \<Rightarrow> frame \<Rightarrow> frame" where
  "add_topk i df =
     assign (assign df (top_match_col i) (\<lambda>v. v ''curated_ontology''))
       (top_score_col i) (\<lambda>_. Num (Flt 1))"

definition exact_frame :: "engine \<Rightarrow> string list \<Rightarrow> frame" where
  "exact_frame e stage1_matches =
     (let df0 = frame_of_col ''original_value'' (str_cells stage1_matches);
          df1 = assign df0 ''curated_ontology''
                  (\<lambda>v. fillna (series_map_dict (cura_map e) (v ''original_value''))
                         (v ''original_value''));
          df2 = assign df1 ''match_level'' (\<lambda>_. Num (Flt 1));
          df3 = assign df2 ''stage'' (\<lambda>_. Num (Flt 1))
      in fold add_topk (topk_range (topk e)) df3)"

section \<open>Stages 2 and 3: a semantic stage\<close>

definition tag_stage :: "engine \<Rightarrow> nat \<Rightarrow> frame \<Rightarrow> frame" where
  "tag_stage e tag merged =
     assign
       (assign merged ''curated_ontology''
          (\<lambda>v. fillna (series_map_dict (cura_map e) (v ''original_value'')) (Str ''Not Found'')))
       ''stage'' (\<lambda>_. Num (Flt (of_nat tag)))"

definition semantic_stage :: "env \<Rightarrow> engine \<Rightarrow> string \<Rightarrow> nat \<Rightarrow> string list \<Rightarrow> frame result" where
  "semantic_stage w e strategy tag qs =
     (let mapping_dict = map_shortname_to_fullname (abbr_table w) qs
      in bind_r (mapM_r (dict_item mapping_dict) qs) (\<lambda>updated_queries.
         bind_r (frame_of_2cols ''original_value'' (str_cells qs)
                   ''updated_value'' (str_cells updated_queries)) (\<lambda>replace_df.
         let updated_cura_map = rekey_cura_map mapping_dict (cura_map e)
         in bind_r (om_model_from_strategy e strategy updated_queries) (\<lambda>model.
            bind_r (get_match_results w model updated_cura_map (topk e) (test_or_prod e)) (\<lambda>res.
            bind_r (merge_left replace_df (rename_col res ''original_value'' ''updated_value'')
                      ''updated_value'') (\<lambda>merged.
            Inr (tag_stage e tag merged)))))))"

section \<open>The cascade\<close>

definition low_confidence :: "env \<Rightarrow> engine \<Rightarrow> (string \<Rightarrow> cell) \<Rightarrow> bool" where
  "low_confidence w e v = (to_numeric0 (parse_score w) (v ''top1_score'') < s3_threshold e)"

definition run :: "env \<Rightarrow> engine \<Rightarrow> frame result" where
  "run w e =
     (let exact_matches = exact_matching (query e) (corpus e);
          exact_df = exact_frame e exact_matches;
          non_exact_matches_ls = np_setdiff1d (query e) exact_matches
      in if non_exact_matches_ls = [] then Inr exact_df
         else
           bind_r (semantic_stage w e (s2_strategy e) 2 non_exact_matches_ls) (\<lambda>s2_res.
             case s3_strategy e of
               None \<Rightarrow> Inr (concat_frames [exact_df, s2_res])
             | Some s3 \<Rightarrow>
                 if \<not> has_col s2_res ''top1_score'' then Inr (concat_frames [exact_df, s2_res])
                 else
                   let queries_for_s3 =
                         col_values (filter_rows s2_res (low_confidence w e)) ''original_value''
                   in if queries_for_s3 = [] then Inr (concat_frames [exact_df, s2_res])
                      else
                        bind_r (cells_text queries_for_s3) (\<lambda>qs3.
                        bind_r (semantic_stage w e s3 3 qs3) (\<lambda>s3_res.
                          let s2_res_filtered =
                                filter_rows s2_res
                                  (\<lambda>v. v ''original_value'' \<notin> set queries_for_s3)
                          in Inr (concat_frames [exact_df, s2_res_filtered, s3_res])))))"

lemmas cascade_defs [py_defs] =
  top_match_col_def top_score_col_def topk_range_def add_topk_def exact_frame_def
  tag_stage_def semantic_stage_def low_confidence_def run_def

section \<open>What the stage-1 table holds\<close>

text \<open>
  The stage-1 table is described row by row: \<open>exact_view e q\<close> is the row of the exact
  match \<open>q\<close>, a function from column names to cells. \<open>curated\<close> is the curated value
  of a query, \<^verbatim>\<open>cura_map.get(q, q)\<close>; \<open>fixed_cols\<close> are the column names that
  the engine writes and that are no rank column.
\<close>

definition fixed_cols :: "string set" where
  "fixed_cols = {''original_value'', ''curated_ontology'', ''match_level'', ''stage'', ''updated_value''}"

definition upd_topk :: "nat \<Rightarrow> (string \<Rightarrow> cell) \<Rightarrow> (string \<Rightarrow> cell)" where
  "upd_topk i v = (v(top_match_col i := v ''curated_ontology''))(top_score_col i := Num (Flt 1))"

definition curated :: "engine \<Rightarrow> string \<Rightarrow> string" where
  "curated e q = dict_get_or (cura_map e) q q"

definition base_view :: "engine \<Rightarrow> string \<Rightarrow> string \<Rightarrow> cell" where
  "base_view e q =
     (\<lambda>_. NA)(''original_value'' := Str q, ''curated_ontology'' := Str (curated e q),
       ''match_level'' := Num (Flt 1), ''stage'' := Num (Flt 1))"

definition exact_view :: "engine \<Rightarrow> string \<Rightarrow> string \<Rightarrow> cell" where
  "exact_view e q = fold upd_topk (topk_range (topk e)) (base_view e q)"

section \<open>The rank columns are distinct names\<close>

lemma top_match_col_inj [simp]: "top_match_col i = top_match_col j \<longleftrightarrow> i = j"
  by (simp add: top_match_col_def str_nat_inj)

lemma top_score_col_inj [simp]: "top_score_col i = top_score_col j \<longleftrightarrow> i = j"
  by (simp add: top_score_col_def str_nat_inj)

lemma top_match_neq_score [simp]:
  "top_match_col i \<noteq> top_score_col j" "top_score_col j \<noteq> top_match_col i"
  by (auto simp: top_match_col_def top_score_col_def dest: arg_cong [where f = last])

lemma top_cols_not_fixed [simp]:
  "top_match_col i \<notin> fixed_cols" "top_score_col i \<notin> fixed_cols"
  by (auto simp: top_match_col_def top_score_col_def fixed_cols_def)

lemma fixed_cols_neq_top [simp]:
  "c \<in> fixed_cols \<Longrightarrow> top_match_col i \<noteq> c" "c \<in> fixed_cols \<Longrightarrow> top_score_col i \<noteq> c"
  "c \<in> fixed_cols \<Longrightarrow> c \<noteq> top_match_col i" "c \<in> fixed_cols \<Longrightarrow> c \<noteq> top_score_col i"
  using top_cols_not_fixed [of i] by auto

lemma fixed_cols_mem [simp]:
  "''original_value'' \<in> fixed_cols" "''curated_ontology'' \<in> fixed_cols"
  "''match_level'' \<in> fixed_cols" "''stage'' \<in> fixed_cols" "''updated_value'' \<in> fixed_cols"
  by (simp_all add: fixed_cols_def)

lemma mem_topk_range: "i \<in> set (topk_range k) \<longleftrightarrow> 1 \<le> i \<and> int i \<le> k"
  by (auto simp: topk_range_def)

lemma distinct_topk_range [simp]: "distinct (topk_range k)"
  by (simp add: topk_range_def)

lemma length_topk_range: "length (topk_range k) = nat k"
  by (simp add: topk_range_def)

section \<open>The loop over the ranks\<close>

lemma aligned_add_topk [wf_keep]: "aligned f \<Longrightarrow> aligned (add_topk i f)"
  by (simp add: add_topk_def aligned_assign)

lemma aligned_fold_add_topk [wf_keep]: "aligned f \<Longrightarrow> aligned (fold add_topk ns f)"
  by (induction ns arbitrary: f) (simp_all add: aligned_add_topk)

lemma views_add_topk: "aligned f \<Longrightarrow> views (add_topk i f) = map (upd_topk i) (views f)"
  by (simp add: add_topk_def views_assign aligned_assign upd_topk_def)

lemma views_fold_add_topk:
  "aligned f \<Longrightarrow> views (fold add_topk ns f) = map (fold upd_topk ns) (views f)"
  by (induction ns arbitrary: f) (simp_all add: views_add_topk aligned_add_topk)

lemma upd_topk_simps [simp]:
  "upd_topk i v (top_match_col i) = v ''curated_ontology''"
  "upd_topk i v (top_score_col i) = Num (Flt 1)"
  "c \<noteq> top_match_col i \<Longrightarrow> c \<noteq> top_score_col i \<Longrightarrow> upd_topk i v c = v c"
  unfolding upd_topk_def by simp_all

lemma fold_upd_topk_fixed [simp]: "c \<in> fixed_cols \<Longrightarrow> fold upd_topk ns v c = v c"
  by (rule fold_other) simp

lemma fold_upd_topk_last:
  assumes "i \<in> set ns"
  obtains u where "fold upd_topk ns v (top_match_col i) = upd_topk i u (top_match_col i)"
    and "fold upd_topk ns v (top_score_col i) = upd_topk i u (top_score_col i)"
    and "u ''curated_ontology'' = v ''curated_ontology''"
proof -
  from assms obtain as bs where ns: "ns = as @ i # bs" and bs: "i \<notin> set bs"
    by (auto dest: split_list_last)
  let ?u = "fold upd_topk as v"
  have ne: "i \<noteq> n" if "n \<in> set bs" for n
    using that bs by auto
  have "fold upd_topk bs w (top_match_col i) = w (top_match_col i)"
    and "fold upd_topk bs w (top_score_col i) = w (top_score_col i)" for w
    by (rule fold_other, simp add: ne)+
  then have "fold upd_topk ns v (top_match_col i) = upd_topk i ?u (top_match_col i)"
    and "fold upd_topk ns v (top_score_col i) = upd_topk i ?u (top_score_col i)"
    by (simp_all add: ns)
  moreover have "?u ''curated_ontology'' = v ''curated_ontology''" by simp
  ultimately show ?thesis by (rule that)
qed

lemma fold_upd_topk_match:
  "i \<in> set ns \<Longrightarrow> fold upd_topk ns v (top_match_col i) = v ''curated_ontology''"
  by (erule fold_upd_topk_last [of i ns v]) simp

lemma fold_upd_topk_score:
  "i \<in> set ns \<Longrightarrow> fold upd_topk ns v (top_score_col i) = Num (Flt 1)"
  by (erule fold_upd_topk_last [of i ns v]) simp

section \<open>The stage-1 table implements its description\<close>

lemma curated_cell:
  "fillna (case map_of (cura_map e) q of None \<Rightarrow> NA | Some x \<Rightarrow> Str x) (Str q) = Str (curated e q)"
  by (simp add: curated_def dict_get_or_def dict_get_def split: option.splits)

lemma aligned_exact_frame [wf_keep, simp]: "aligned (exact_frame e ms)"
  by (simp add: exact_frame_def Let_def aligned_fold_add_topk aligned_assign)

lemma views_exact_frame: "views (exact_frame e ms) = map (exact_view e) ms"
  by (simp add: exact_frame_def Let_def views_fold_add_topk aligned_assign views_assign
      views_frame_of_col str_cells_def exact_view_def base_view_def comp_def curated_cell)

lemma exact_view_fixed:
  "exact_view e q ''original_value'' = Str q"
  "exact_view e q ''curated_ontology'' = Str (curated e q)"
  "exact_view e q ''match_level'' = Num (Flt 1)"
  "exact_view e q ''stage'' = Num (Flt 1)"
  "exact_view e q ''updated_value'' = NA"
  by (simp_all add: exact_view_def base_view_def)

lemma exact_view_topk:
  assumes "1 \<le> i" "int i \<le> topk e"
  shows "exact_view e q (top_match_col i) = Str (curated e q)"
    and "exact_view e q (top_score_col i) = Num (Flt 1)"
  using assms
  by (simp_all add: exact_view_def fold_upd_topk_match fold_upd_topk_score mem_topk_range
      base_view_def)

lemma col_values_exact_frame [simp]:
  "col_values (exact_frame e ms) ''original_value'' = str_cells ms"
  by (simp add: col_values_def views_exact_frame exact_view_fixed str_cells_def comp_def)

section \<open>The shape of the stage-1 table\<close>

text \<open>
  The names of the rank columns, \<^verbatim>\<open>top{i}_match\<close> and
  \<^verbatim>\<open>top{i}_score\<close>: different ranks give different names, a match column is
  never a score column, and no rank column is one of the fixed columns of the result.
\<close>

lemma rank_columns_distinct:
  "(top_match_col i = top_match_col j \<longleftrightarrow> i = j) \<and> (top_score_col i = top_score_col j \<longleftrightarrow> i = j) \<and>
   top_match_col i \<noteq> top_score_col j \<and> top_match_col i \<notin> fixed_cols \<and> top_score_col i \<notin> fixed_cols"
  by simp

lemma wf_add_topk [wf_keep]: "wf_frame f \<Longrightarrow> wf_frame (add_topk i f)"
  by (simp add: add_topk_def wf_assign)

lemma wf_fold_add_topk [wf_keep]: "wf_frame f \<Longrightarrow> wf_frame (fold add_topk ns f)"
  by (induction ns arbitrary: f) (simp_all add: wf_add_topk)

lemma wf_exact_frame [wf_keep, simp]: "wf_frame (exact_frame e ms)"
  by (simp add: exact_frame_def Let_def wf_fold_add_topk wf_assign)

lemma set_columns_fold_add_topk:
  "set (columns (fold add_topk ns f)) =
     set (columns f) \<union> top_match_col ` set ns \<union> top_score_col ` set ns"
  by (induction ns arbitrary: f) (auto simp: add_topk_def)

lemma set_columns_exact_frame:
  "set (columns (exact_frame e ms)) =
     {''original_value'', ''curated_ontology'', ''match_level'', ''stage''}
       \<union> top_match_col ` set (topk_range (topk e)) \<union> top_score_col ` set (topk_range (topk e))"
  by (auto simp: exact_frame_def Let_def set_columns_fold_add_topk)

text \<open>
  C33. The shape of the stage-1 table: it is well formed (no repeated column, every row as
  long as the header), has one row per exact match and four fixed columns plus two columns
  per rank (none for a non-positive \<^verbatim>\<open>topk\<close>).
\<close>

theorem exact_frame_shape:
  "wf_frame (exact_frame e ms) \<and> n_rows (exact_frame e ms) = length ms \<and>
   length (columns (exact_frame e ms)) = 4 + 2 * nat (topk e)"
proof -
  have "length (views (exact_frame e ms)) = length ms" by (simp only: views_exact_frame length_map)
  moreover have "distinct (columns (exact_frame e ms))" using wf_exact_frame [of e ms] by (simp add: wf_frame_def)
  then have "length (columns (exact_frame e ms)) = card (set (columns (exact_frame e ms)))"
    by (simp add: distinct_card)
  moreover have "card (set (columns (exact_frame e ms))) = 4 + 2 * nat (topk e)"
  proof -
    let ?ns = "set (topk_range (topk e))"
    let ?F = "{''original_value'', ''curated_ontology'', ''match_level'', ''stage''}"
    have "card (top_match_col ` ?ns) = nat (topk e)" "card (top_score_col ` ?ns) = nat (topk e)"
      by (simp_all add: card_image inj_on_def distinct_card length_topk_range)
    moreover have "top_match_col ` ?ns \<inter> top_score_col ` ?ns = {}" by auto
    moreover have "?F \<inter> (top_match_col ` ?ns \<union> top_score_col ` ?ns) = {}"
      using top_cols_not_fixed by (auto simp: fixed_cols_def)
    moreover have "card ?F = 4" by simp
    ultimately show ?thesis
      by (simp add: set_columns_exact_frame Un_assoc card_Un_disjoint)
  qed
  ultimately show ?thesis by simp
qed

end
