(* ===== verification/Scenario.thy ===== *)
theory Scenario
  imports Cascade
begin

text \<open>
  Worked runs of the sample engine \<open>demo_engine\<close>, used to instantiate the properties
  at concrete inputs: four queries, stage 2 \<^verbatim>\<open>st\<close>, stage 3 \<^verbatim>\<open>rag\<close> with
  threshold 0.9. The backend \<open>demo_backend\<close> answers one row per distinct query and
  scores \<^verbatim>\<open>abc\<close> low in stage 2; \<open>twin_backend\<close> answers two rows per query, one of
  them below the threshold for \<^verbatim>\<open>abc\<close>; \<open>failing_backend\<close> raises; \<open>scoreless_backend\<close>
  answers without a \<^verbatim>\<open>top1_score\<close> column, with no abbreviation file; in
  \<open>unparsed_env\<close> no score can be read as a number. All values are
  computed by evaluating the definitions of the model.
\<close>

section \<open>Inputs\<close>

definition demo_parse :: "string \<Rightarrow> pyfloat option" where
  "demo_parse s =
     map_of [(''0.42'', Flt (42 / 100)), (''0.95'', Flt (95 / 100)), (''0.97'', Flt (97 / 100))] s"

definition demo_score :: "backend \<Rightarrow> string \<Rightarrow> string" where
  "demo_score b q =
     (if b \<in> {OntoMapRAG, OntoMapBIE} then ''0.95'' else if q = ''abc'' then ''0.42'' else ''0.97'')"

definition demo_backend :: matcher where
  "demo_backend m cm k t =
     (case m of Model b a \<Rightarrow>
        Inr \<lparr>columns = [''original_value'', ''top1_match'', ''top1_score''],
             rows = map (\<lambda>q. [Str q, Str (''NCIT:'' @ q), Str (demo_score b q)])
                      (remdups (m_query a))\<rparr>)"

definition twin_backend :: matcher where
  "twin_backend m cm k t =
     (case m of Model b a \<Rightarrow>
        Inr \<lparr>columns = [''original_value'', ''top1_match'', ''top1_score''],
             rows = concat (map (\<lambda>q. [[Str q, Str (''NCIT:'' @ q), Str ''0.97''],
                                        [Str q, Str (''OBO:'' @ q), Str (demo_score b q)]])
                      (m_query a))\<rparr>)"

definition failing_backend :: matcher where
  "failing_backend m cm k t = Inl (BackendError ''matcher unavailable'')"

definition scoreless_backend :: matcher where
  "scoreless_backend m cm k t =
     (case m of Model b a \<Rightarrow>
        Inr \<lparr>columns = [''original_value'', ''top1_match''],
             rows = map (\<lambda>q. [Str q, Str (''NCIT:'' @ q)]) (remdups (m_query a))\<rparr>)"

definition demo_env :: env where
  "demo_env = \<lparr>abbr_table = Some [(''XYZ'', ''xylo zeta'')], get_match_results = demo_backend,
     parse_score = demo_parse\<rparr>"

definition twin_env :: env where
  "twin_env = demo_env\<lparr>get_match_results := twin_backend\<rparr>"

definition failing_env :: env where
  "failing_env = demo_env\<lparr>get_match_results := failing_backend\<rparr>"

definition scoreless_env :: env where
  "scoreless_env = demo_env\<lparr>abbr_table := None, get_match_results := scoreless_backend\<rparr>"

definition unparsed_env :: env where
  "unparsed_env = demo_env\<lparr>parse_score := (\<lambda>_. None)\<rparr>"

section \<open>Computed values\<close>

definition result_columns :: "string list" where
  "result_columns =
     [''original_value'', ''curated_ontology'', ''match_level'', ''stage'', ''top1_match'',
      ''top1_score'', ''updated_value'']"

definition demo_s2 :: frame where
  "demo_s2 = \<lparr>columns =
        [''original_value'', ''updated_value'', ''top1_match'', ''top1_score'',
         ''curated_ontology'', ''stage''],
      rows =
        [[Str ''XYZ'', Str ''xylo zeta'', Str ''NCIT:xylo zeta'', Str ''0.97'', Str ''Not Found'',
          Num (Flt 2)],
         [Str ''abc'', Str ''abc'', Str ''NCIT:abc'', Str ''0.42'', Str ''Not Found'',
          Num (Flt 2)]]\<rparr>"

definition demo_out :: frame where
  "demo_out = \<lparr>columns = result_columns,
      rows =
        [[Str ''Lung Cancer'', Str ''Lung Carcinoma'', Num (Flt 1), Num (Flt 1),
          Str ''Lung Carcinoma'', Num (Flt 1), NA],
         [Str '' lung cancer'', Str '' lung cancer'', Num (Flt 1), Num (Flt 1),
          Str '' lung cancer'', Num (Flt 1), NA],
         [Str ''XYZ'', Str ''Not Found'', NA, Num (Flt 2), Str ''NCIT:xylo zeta'', Str ''0.97'',
          Str ''xylo zeta''],
         [Str ''abc'', Str ''Not Found'', NA, Num (Flt 3), Str ''NCIT:abc'', Str ''0.95'',
          Str ''abc'']]\<rparr>"

definition twin_out :: frame where
  "twin_out = \<lparr>columns = result_columns,
      rows =
        [[Str ''Lung Cancer'', Str ''Lung Carcinoma'', Num (Flt 1), Num (Flt 1),
          Str ''Lung Carcinoma'', Num (Flt 1), NA],
         [Str '' lung cancer'', Str '' lung cancer'', Num (Flt 1), Num (Flt 1),
          Str '' lung cancer'', Num (Flt 1), NA],
         [Str ''XYZ'', Str ''Not Found'', NA, Num (Flt 2), Str ''NCIT:xylo zeta'', Str ''0.97'',
          Str ''xylo zeta''],
         [Str ''XYZ'', Str ''Not Found'', NA, Num (Flt 2), Str ''OBO:xylo zeta'', Str ''0.97'',
          Str ''xylo zeta''],
         [Str ''abc'', Str ''Not Found'', NA, Num (Flt 3), Str ''NCIT:abc'', Str ''0.97'',
          Str ''abc''],
         [Str ''abc'', Str ''Not Found'', NA, Num (Flt 3), Str ''OBO:abc'', Str ''0.95'',
          Str ''abc'']]\<rparr>"

definition scoreless_s2 :: frame where
  "scoreless_s2 = \<lparr>columns =
        [''original_value'', ''updated_value'', ''top1_match'', ''curated_ontology'', ''stage''],
      rows =
        [[Str ''XYZ'', Str ''XYZ'', Str ''NCIT:XYZ'', Str ''Not Found'', Num (Flt 2)],
         [Str ''abc'', Str ''abc'', Str ''NCIT:abc'', Str ''Not Found'', Num (Flt 2)]]\<rparr>"

definition scoreless_out :: frame where
  "scoreless_out = \<lparr>columns = result_columns,
      rows =
        [[Str ''Lung Cancer'', Str ''Lung Carcinoma'', Num (Flt 1), Num (Flt 1),
          Str ''Lung Carcinoma'', Num (Flt 1), NA],
         [Str '' lung cancer'', Str '' lung cancer'', Num (Flt 1), Num (Flt 1),
          Str '' lung cancer'', Num (Flt 1), NA],
         [Str ''XYZ'', Str ''Not Found'', NA, Num (Flt 2), Str ''NCIT:XYZ'', NA,
          Str ''XYZ''],
         [Str ''abc'', Str ''Not Found'', NA, Num (Flt 2), Str ''NCIT:abc'', NA,
          Str ''abc'']]\<rparr>"

definition unparsed_out :: frame where
  "unparsed_out = \<lparr>columns = result_columns,
      rows =
        [[Str ''Lung Cancer'', Str ''Lung Carcinoma'', Num (Flt 1), Num (Flt 1),
          Str ''Lung Carcinoma'', Num (Flt 1), NA],
         [Str '' lung cancer'', Str '' lung cancer'', Num (Flt 1), Num (Flt 1),
          Str '' lung cancer'', Num (Flt 1), NA],
         [Str ''XYZ'', Str ''Not Found'', NA, Num (Flt 3), Str ''NCIT:xylo zeta'', Str ''0.95'',
          Str ''xylo zeta''],
         [Str ''abc'', Str ''Not Found'', NA, Num (Flt 3), Str ''NCIT:abc'', Str ''0.95'',
          Str ''abc'']]\<rparr>"

lemmas demo_defs =
  demo_parse_def demo_score_def demo_backend_def twin_backend_def failing_backend_def
  demo_env_def twin_env_def failing_env_def result_columns_def demo_s2_def demo_out_def
  twin_out_def

section \<open>The runs\<close>

lemma demo_exact: "exact_matching (query demo_engine) (corpus demo_engine) = [''Lung Cancer'', '' lung cancer'']"
  by code_simp

lemma demo_non_exact:
  "np_setdiff1d (query demo_engine) (exact_matching (query demo_engine) (corpus demo_engine))
     = [''XYZ'', ''abc'']"
  by code_simp

lemma demo_stage2:
  "semantic_stage demo_env demo_engine (s2_strategy demo_engine) 2 [''XYZ'', ''abc''] = Inr demo_s2"
  by code_simp

lemma demo_run: "run demo_env demo_engine = Inr demo_out"
  by code_simp

lemma twin_run: "run twin_env demo_engine = Inr twin_out"
  by code_simp

lemma scoreless_run: "run scoreless_env demo_engine = Inr scoreless_out"
  by code_simp

lemma unparsed_run: "run unparsed_env demo_engine = Inr unparsed_out"
  by code_simp

lemma failing_run: "run failing_env demo_engine = Inl (BackendError ''matcher unavailable'')"
  by code_simp

end
