(* ===== verification/StageContract.thy ===== *)
theory StageContract
  imports Scenario
begin

text \<open>
  The contract of a semantic stage. \<open>stage_views\<close> says what the table of stage 2 or
  stage 3 holds, row by row, given only the rows \<open>rvs\<close> that the backend answered: the
  left join of the queries (with their expansions) with the backend rows on the expanded
  value, then the curated value and the stage tag. \<open>answer_of\<close> is the adapter call
  followed by the backend call. The refinement lemma \<open>views_semantic_stage\<close> shows that
  \<open>semantic_stage\<close>, whenever it returns, returns a table with exactly these rows; it
  needs no assumption on the backend's table.
\<close>

section \<open>The rows a stage promises\<close>

definition replace_view :: "abbr_source \<Rightarrow> string \<Rightarrow> string \<Rightarrow> cell" where
  "replace_view src q = (\<lambda>_. NA)(''original_value'' := Str q, ''updated_value'' := Str (expand src q))"

definition tag_view :: "engine \<Rightarrow> nat \<Rightarrow> (string \<Rightarrow> cell) \<Rightarrow> string \<Rightarrow> cell" where
  "tag_view e tag v =
     (v(''curated_ontology'' :=
          fillna (series_map_dict (cura_map e) (v ''original_value'')) (Str ''Not Found'')))
      (''stage'' := Num (Flt (of_nat tag)))"

definition stage_views ::
  "engine \<Rightarrow> abbr_source \<Rightarrow> nat \<Rightarrow> (string \<Rightarrow> cell) list \<Rightarrow> string list \<Rightarrow> (string \<Rightarrow> cell) list" where
  "stage_views e src tag rvs qs =
     map (tag_view e tag)
       (concat (map (\<lambda>q. join_views {''original_value'', ''updated_value''} ''updated_value'' rvs
                        (replace_view src q)) qs))"

definition replace_frame :: "abbr_source \<Rightarrow> string list \<Rightarrow> frame" where
  "replace_frame src qs =
     \<lparr>columns = [''original_value'', ''updated_value''],
      rows = map (\<lambda>q. [Str q, Str (expand src q)]) qs\<rparr>"

definition answer_of :: "env \<Rightarrow> engine \<Rightarrow> string \<Rightarrow> string list \<Rightarrow> frame result" where
  "answer_of w e strategy qs =
     bind_r (om_model_from_strategy e strategy (map (expand (abbr_table w)) qs)) (\<lambda>model.
       get_match_results w model
         (rekey_cura_map (map_shortname_to_fullname (abbr_table w) qs) (cura_map e))
         (topk e) (test_or_prod e))"

section \<open>The stage implements its contract\<close>

lemma aligned_replace_frame [simp]: "aligned (replace_frame src qs)"
  by (simp add: replace_frame_def aligned_def list_all_iff)

lemma views_replace_frame: "views (replace_frame src qs) = map (replace_view src) qs"
  by (auto simp: replace_frame_def views_def replace_view_def cell_at_def)

lemma semantic_stage_alt:
  "semantic_stage w e strategy tag qs =
     bind_r (answer_of w e strategy qs) (\<lambda>res.
     bind_r (merge_left (replace_frame (abbr_table w) qs)
               (rename_col res ''original_value'' ''updated_value'') ''updated_value'') (\<lambda>merged.
     Inr (tag_stage e tag merged)))"
  by (simp add: semantic_stage_def Let_def updated_queries_total frame_of_2cols_def
      str_cells_def replace_frame_def zip_map_map zip_same_conv_map answer_of_def bind_r_assoc
      comp_def)

lemma views_tag_stage: "aligned f \<Longrightarrow> views (tag_stage e tag f) = map (tag_view e tag) (views f)"
  by (simp add: tag_stage_def views_assign aligned_assign tag_view_def)

lemma renamed_joinable:
  assumes "merge_left (replace_frame src qs) (rename_col res ''original_value'' ''updated_value'')
             ''updated_value'' = Inr merged"
  shows "joinable (replace_frame src qs) (rename_col res ''original_value'' ''updated_value'')
           ''updated_value''"
proof -
  from assms have "\<exists>m. merge_left (replace_frame src qs)
      (rename_col res ''original_value'' ''updated_value'') ''updated_value'' = Inr m" by blast
  then show ?thesis
    by (auto simp: merge_left_Inr_iff joinable_def replace_frame_def)
qed

lemma views_semantic_stage:
  assumes "semantic_stage w e strategy tag qs = Inr out"
  obtains res where "answer_of w e strategy qs = Inr res"
    and "views out = stage_views e (abbr_table w) tag
           (views (rename_col res ''original_value'' ''updated_value'')) qs"
proof -
  let ?l = "replace_frame (abbr_table w) qs"
  from assms obtain res merged where r: "answer_of w e strategy qs = Inr res"
    and m: "merge_left ?l (rename_col res ''original_value'' ''updated_value'') ''updated_value''
              = Inr merged"
    and out: "out = tag_stage e tag merged"
    by (auto simp: semantic_stage_alt bind_r_eq_Inr_iff)
  have "aligned merged" by (rule aligned_merge_left [OF _ m]) simp
  moreover have "set (columns ?l) = {''original_value'', ''updated_value''}"
    by (auto simp: replace_frame_def)
  ultimately have "views out = stage_views e (abbr_table w) tag
      (views (rename_col res ''original_value'' ''updated_value'')) qs"
    using views_merge_left [OF renamed_joinable [OF m] _ m]
    by (simp add: out views_tag_stage stage_views_def views_replace_frame comp_def)
  with r show ?thesis by (rule that)
qed

text \<open>
  C7. Refinement. Whenever a semantic stage returns a table, the backend has answered with
  some table \<open>res\<close>, and the rows of the stage's table are exactly \<open>stage_views\<close>:
  the left join of the queries and their expansions with the rows of \<open>res\<close>, with the
  curated value and the stage tag. No assumption is made on \<open>res\<close>.
\<close>

theorem semantic_stage_refines:
  assumes "semantic_stage w e strategy tag qs = Inr out"
  shows "\<exists>res. answer_of w e strategy qs = Inr res \<and>
           views out = stage_views e (abbr_table w) tag
             (views (rename_col res ''original_value'' ''updated_value'')) qs"
  using assms by (rule views_semantic_stage) blast

theorem semantic_stage_refines_witness:
  "\<exists>res. answer_of demo_env demo_engine (s2_strategy demo_engine) [''XYZ'', ''abc''] = Inr res \<and>
     views demo_s2 = stage_views demo_engine (abbr_table demo_env) 2
       (views (rename_col res ''original_value'' ''updated_value'')) [''XYZ'', ''abc'']"
  using semantic_stage_refines [OF demo_stage2] by simp

section \<open>Consequences of the contract\<close>

lemma stage_views_Nil [simp]: "stage_views e src tag rvs [] = []"
  by (simp add: stage_views_def)

lemma stage_views_Cons:
  "stage_views e src tag rvs (q # qs) =
     map (tag_view e tag)
       (join_views {''original_value'', ''updated_value''} ''updated_value'' rvs (replace_view src q))
     @ stage_views e src tag rvs qs"
  by (simp add: stage_views_def)

lemma tag_view_original [simp]: "tag_view e tag u ''original_value'' = u ''original_value''"
  by (simp add: tag_view_def)

lemma stage_views_row:
  assumes "v \<in> set (stage_views e src tag rvs qs)"
  obtains q where "q \<in> set qs" "v ''original_value'' = Str q"
    "v ''updated_value'' = Str (expand src q)" "v ''stage'' = Num (Flt (of_nat tag))"
    "v ''curated_ontology'' = Str (dict_get_or (cura_map e) q ''Not Found'')"
proof -
  from assms obtain q u where q: "q \<in> set qs"
    and u: "u \<in> set (join_views {''original_value'', ''updated_value''} ''updated_value'' rvs
                  (replace_view src q))"
    and v: "v = tag_view e tag u"
    by (auto simp: stage_views_def)
  from join_views_left_cols [OF u] have "u ''original_value'' = Str q"
    and "u ''updated_value'' = Str (expand src q)"
    by (simp_all add: replace_view_def)
  then have "v ''original_value'' = Str q" "v ''updated_value'' = Str (expand src q)"
    "v ''stage'' = Num (Flt (of_nat tag))"
    "v ''curated_ontology'' = Str (dict_get_or (cura_map e) q ''Not Found'')"
    by (simp_all add: v tag_view_def dict_get_or_def dict_get_def split: option.splits)
  with q show ?thesis by (rule that)
qed

lemma stage_views_cover:
  assumes "q \<in> set qs"
  shows "Str q \<in> (\<lambda>v. v ''original_value'') ` set (stage_views e src tag rvs qs)"
proof -
  let ?js = "join_views {''original_value'', ''updated_value''} ''updated_value'' rvs
      (replace_view src q)"
  have "?js \<noteq> []" by simp
  then obtain u where u: "u \<in> set ?js" by (cases ?js) auto
  from join_views_left_cols [OF u, of "''original_value''"]
  have "tag_view e tag u ''original_value'' = Str q"
    by (simp add: replace_view_def tag_view_def)
  moreover from u assms have "tag_view e tag u \<in> set (stage_views e src tag rvs qs)"
    by (auto simp: stage_views_def)
  ultimately show ?thesis by (rule image_eqI [OF sym])
qed

lemma originals_stage_views:
  "(\<lambda>v. v ''original_value'') ` set (stage_views e src tag rvs qs) = Str ` set qs"
proof (intro equalityI subsetI)
  fix c assume "c \<in> (\<lambda>v. v ''original_value'') ` set (stage_views e src tag rvs qs)"
  then obtain v where "v \<in> set (stage_views e src tag rvs qs)" "c = v ''original_value''" by auto
  then show "c \<in> Str ` set qs" by (elim stage_views_row) simp
next
  fix c assume "c \<in> Str ` set qs"
  then show "c \<in> (\<lambda>v. v ''original_value'') ` set (stage_views e src tag rvs qs)"
    using stage_views_cover by blast
qed

lemma stage_views_unique:
  assumes "distinct (map (\<lambda>rv. rv ''updated_value'') rvs)"
  shows "map (\<lambda>v. v ''original_value'') (stage_views e src tag rvs qs) = str_cells qs"
proof (induction qs)
  case Nil
  show ?case by (simp add: str_cells_def)
next
  case (Cons q qs)
  let ?js = "join_views {''original_value'', ''updated_value''} ''updated_value'' rvs
      (replace_view src q)"
  have "length ?js = 1" by (rule join_views_unique [OF assms])
  then obtain u where js: "?js = [u]" by (cases ?js) auto
  then have "u \<in> set ?js" by simp
  from join_views_left_cols [OF this, of "''original_value''"]
  have "u ''original_value'' = Str q" by (simp add: replace_view_def)
  with Cons.IH show ?case
    by (simp add: stage_views_Cons js str_cells_def)
qed

lemma originals_semantic_stage:
  assumes "semantic_stage w e strategy tag qs = Inr out"
  shows "set (col_values out ''original_value'') = Str ` set qs"
  using assms
  by (elim views_semantic_stage) (simp add: col_values_def originals_stage_views)

lemma semantic_stage_row:
  assumes "semantic_stage w e strategy tag qs = Inr out" "v \<in> set (views out)"
  obtains q where "q \<in> set qs" "v ''original_value'' = Str q"
    "v ''updated_value'' = Str (expand (abbr_table w) q)" "v ''stage'' = Num (Flt (of_nat tag))"
    "v ''curated_ontology'' = Str (dict_get_or (cura_map e) q ''Not Found'')"
  using assms by (elim views_semantic_stage) (auto elim: stage_views_row)

end
