(* ===== verification/Controller.thy ===== *)
theory Controller
  imports StageContract
begin

text \<open>
  Properties of the cascade, \<^verbatim>\<open>OntoMapEngine.run\<close>. The intermediate values of the
  method get names (\<open>exact_df\<close>, \<open>non_exact\<close>, \<open>s2_result\<close>, the \<open>escalated\<close>
  queries, the \<open>kept\<close> stage-2 rows); \<open>run_alt\<close> restates the method over them and
  \<open>run_Inr_cases\<close> lists its three successful exits. \<open>run_rows\<close> classifies every row
  of a result; the properties of the cascade follow from it.
\<close>

section \<open>The intermediate values of the method\<close>

definition exact_df :: "engine \<Rightarrow> frame" where
  "exact_df e = exact_frame e (exact_matching (query e) (corpus e))"

definition non_exact :: "engine \<Rightarrow> string list" where
  "non_exact e = np_setdiff1d (query e) (exact_matching (query e) (corpus e))"

definition s2_result :: "env \<Rightarrow> engine \<Rightarrow> frame result" where
  "s2_result w e = semantic_stage w e (s2_strategy e) 2 (non_exact e)"

definition escalated :: "env \<Rightarrow> engine \<Rightarrow> frame \<Rightarrow> cell list" where
  "escalated w e s2 =
     (if s3_strategy e \<noteq> None \<and> has_col s2 ''top1_score''
      then col_values (filter_rows s2 (low_confidence w e)) ''original_value'' else [])"

definition kept :: "env \<Rightarrow> engine \<Rightarrow> frame \<Rightarrow> frame" where
  "kept w e s2 = filter_rows s2 (\<lambda>v. v ''original_value'' \<notin> set (escalated w e s2))"

definition after_s2 :: "env \<Rightarrow> engine \<Rightarrow> frame \<Rightarrow> frame result" where
  "after_s2 w e s2 =
     (case s3_strategy e of
        None \<Rightarrow> Inr (concat_frames [exact_df e, s2])
      | Some s3 \<Rightarrow>
          if escalated w e s2 = [] then Inr (concat_frames [exact_df e, s2])
          else bind_r (cells_text (escalated w e s2)) (\<lambda>qs3.
               bind_r (semantic_stage w e s3 3 qs3) (\<lambda>s3_res.
               Inr (concat_frames [exact_df e, kept w e s2, s3_res]))))"

text \<open>
  What the properties ask of a backend table: \<open>well_behaved\<close> for a run without
  exception, \<open>unique_keys\<close> (one row per query) for a result without repeated rows.
\<close>

definition well_behaved :: "frame \<Rightarrow> bool" where
  "well_behaved res =
     (wf_frame res \<and> has_col res ''original_value'' \<and> \<not> has_col res ''updated_value'')"

definition unique_keys :: "frame \<Rightarrow> bool" where
  "unique_keys res =
     distinct (col_values (rename_col res ''original_value'' ''updated_value'') ''updated_value'')"

section \<open>The sample runs\<close>

lemma demo_s2_result: "s2_result demo_env demo_engine = Inr demo_s2"
  by code_simp

lemma demo_rows: "length (views demo_out) = 4" "length (views twin_out) = 6"
  by (simp_all add: demo_out_def twin_out_def n_rows_def)

lemma demo_s2_rows: "length (views demo_s2) = 2"
  by (simp add: demo_s2_def n_rows_def)

lemma demo_row_mem:
  "views demo_out ! 0 \<in> set (views demo_out)" "views demo_out ! 2 \<in> set (views demo_out)"
  "views demo_out ! 3 \<in> set (views demo_out)" "views demo_out ! 1 \<in> set (views demo_out)"
  by (simp_all only: nth_mem demo_rows)

lemma twin_row_mem:
  "views twin_out ! 4 \<in> set (views twin_out)" "views twin_out ! 5 \<in> set (views twin_out)"
  by (simp_all only: nth_mem demo_rows)

lemma demo_well_behaved:
  "\<exists>res. get_match_results demo_env m c k t = Inr res \<and> well_behaved res"
  by (cases m)
    (simp add: demo_env_def demo_backend_def well_behaved_def wf_frame_def aligned_def
      has_col_def list_all_iff)

lemma demo_unique_keys:
  "get_match_results demo_env m c k t = Inr res \<Longrightarrow> unique_keys res"
  by (cases m)
    (auto simp: demo_env_def demo_backend_def unique_keys_def col_values_def views_def
      rename_col_def cell_at_def comp_def distinct_map inj_on_def)

section \<open>The exits of the method\<close>

lemma run_alt:
  "run w e =
     (if non_exact e = [] then Inr (exact_df e) else bind_r (s2_result w e) (after_s2 w e))"
  by (auto simp: run_def Let_def non_exact_def exact_df_def s2_result_def after_s2_def
      escalated_def kept_def intro!: bind_r_cong split: option.splits)

lemma run_Inr_cases:
  assumes "run w e = Inr out"
  obtains (exact_only) "non_exact e = []" "out = exact_df e"
  | (two_stage) s2 where "non_exact e \<noteq> []" "s2_result w e = Inr s2" "escalated w e s2 = []"
      "out = concat_frames [exact_df e, s2]"
  | (three_stage) s2 s3 qs3 s3_res where "non_exact e \<noteq> []" "s2_result w e = Inr s2"
      "s3_strategy e = Some s3" "has_col s2 ''top1_score''" "escalated w e s2 = str_cells qs3"
      "qs3 \<noteq> []" "semantic_stage w e s3 3 qs3 = Inr s3_res"
      "out = concat_frames [exact_df e, kept w e s2, s3_res]"
proof (cases "non_exact e = []")
  case True
  with assms show ?thesis by (intro exact_only) (simp_all add: run_alt)
next
  case False
  with assms obtain s2 where s2: "s2_result w e = Inr s2" and a: "after_s2 w e s2 = Inr out"
    by (auto simp: run_alt bind_r_eq_Inr_iff)
  show ?thesis
  proof (cases "escalated w e s2 = []")
    case True
    with a have "out = concat_frames [exact_df e, s2]"
      by (auto simp: after_s2_def split: option.splits)
    with False s2 True show ?thesis by (intro two_stage)
  next
    case ne: False
    then obtain s3 where s3: "s3_strategy e = Some s3" and h: "has_col s2 ''top1_score''"
      by (auto simp: escalated_def split: if_splits)
    with a ne obtain qs3 s3_res where "cells_text (escalated w e s2) = Inr qs3"
      and "semantic_stage w e s3 3 qs3 = Inr s3_res"
      and "out = concat_frames [exact_df e, kept w e s2, s3_res]"
      by (auto simp: after_s2_def bind_r_eq_Inr_iff)
    moreover from this ne have "escalated w e s2 = str_cells qs3" "qs3 \<noteq> []"
      by (auto simp: cells_text_Inr_iff str_cells_def)
    ultimately show ?thesis using False s2 s3 h by (intro three_stage)
  qed
qed

lemma has_col_concat_frames:
  "has_col (concat_frames fs) c \<longleftrightarrow> (\<exists>f\<in>set fs. has_col f c)"
  by (auto simp: has_col_def columns_concat_frames)

text \<open>
  C32. Every table that \<^verbatim>\<open>run\<close> returns is well formed and has the columns
  \<^verbatim>\<open>original_value\<close>, \<^verbatim>\<open>curated_ontology\<close> and \<^verbatim>\<open>stage\<close>.
\<close>

theorem run_result_wf:
  assumes "run w e = Inr out"
  shows "wf_frame out \<and> has_col out ''original_value'' \<and> has_col out ''curated_ontology'' \<and>
         has_col out ''stage''"
  using assms
  by (cases rule: run_Inr_cases)
    (simp_all add: has_col_concat_frames, simp_all add: exact_df_def has_col_def set_columns_exact_frame)

theorem run_result_wf_witness:
  "run demo_env demo_engine = Inr demo_out \<and> wf_frame demo_out \<and> has_col demo_out ''stage''"
  using run_result_wf [OF demo_run] demo_run by simp

section \<open>The original values of each stage\<close>

lemma originals_s2:
  "s2_result w e = Inr s2 \<Longrightarrow> set (col_values s2 ''original_value'') = Str ` set (non_exact e)"
  by (simp add: s2_result_def originals_semantic_stage)

lemma escalated_subset: "set (escalated w e s2) \<subseteq> set (col_values s2 ''original_value'')"
  by (auto simp: escalated_def col_values_def views_filter_rows)

lemma escalated_iff:
  "c \<in> set (escalated w e s2) \<longleftrightarrow>
     s3_strategy e \<noteq> None \<and> has_col s2 ''top1_score'' \<and>
     (\<exists>v\<in>set (views s2). low_confidence w e v \<and> v ''original_value'' = c)"
  by (auto simp: escalated_def col_values_def views_filter_rows)

lemma kept_union:
  "set (col_values (kept w e s2) ''original_value'') \<union> set (escalated w e s2)
     = set (col_values s2 ''original_value'')"
  using escalated_subset [of w e s2]
  by (auto simp: kept_def col_values_def views_filter_rows)

lemma kept_disjoint:
  "set (col_values (kept w e s2) ''original_value'') \<inter> set (escalated w e s2) = {}"
  by (auto simp: kept_def col_values_def views_filter_rows)

lemma exact_non_exact_cover:
  "Str ` set (exact_matching (query e) (corpus e)) \<union> Str ` set (non_exact e) = Str ` set (query e)"
  using non_exact_cover [of "query e" "corpus e"] by (simp add: non_exact_def image_Un [symmetric])

lemma col_values_exact_df [simp]:
  "col_values (exact_df e) ''original_value'' = str_cells (exact_matching (query e) (corpus e))"
  by (simp add: exact_df_def)

lemma views_exact_df: "views (exact_df e) = map (exact_view e) (exact_matching (query e) (corpus e))"
  by (simp add: exact_df_def views_exact_frame)

lemma non_exact_iff:
  "q \<in> set (non_exact e) \<longleftrightarrow> q \<in> set (query e) \<and> norm_key q \<notin> corpus_normalized (corpus e)"
  using set_non_exact [of "query e" "corpus e"] by (auto simp: non_exact_def)

lemma exact_not_non_exact:
  "q \<in> set (exact_matching (query e) (corpus e)) \<Longrightarrow> q \<notin> set (non_exact e)"
  by (simp add: non_exact_def)

lemma escalated_non_exact:
  assumes "s2_result w e = Inr s2" "Str q \<in> set (escalated w e s2)"
  shows "q \<in> set (non_exact e)"
  using assms escalated_subset [of w e s2] originals_s2 [of w e s2] by auto

lemma s2_row:
  assumes "s2_result w e = Inr s2" "v \<in> set (views s2)"
  obtains q where "q \<in> set (non_exact e)" "v ''original_value'' = Str q"
    "v ''stage'' = Num (Flt 2)"
proof -
  from assms obtain q where "q \<in> set (non_exact e)" "v ''original_value'' = Str q"
    "v ''stage'' = Num (Flt (of_nat 2))"
    unfolding s2_result_def by (rule semantic_stage_row)
  then show ?thesis by (intro that [of q]) simp_all
qed

section \<open>Coverage\<close>

text \<open>
  C1. Coverage. Whenever \<^verbatim>\<open>run\<close> returns a table, the values of its
  \<^verbatim>\<open>original_value\<close> column are exactly the submitted queries: no query is lost and
  no value is invented, whatever the backends answer.
\<close>

theorem run_coverage:
  assumes "run w e = Inr out"
  shows "set (col_values out ''original_value'') = Str ` set (query e)"
  using assms
proof (cases rule: run_Inr_cases)
  case exact_only
  with exact_non_exact_cover [of e] show ?thesis by simp
next
  case (two_stage s2)
  with exact_non_exact_cover [of e] originals_s2 [of w e s2] show ?thesis
    by (simp add: col_values_concat_frames)
next
  case (three_stage s2 s3 qs3 s3_res)
  from originals_semantic_stage [OF three_stage(7)] three_stage(5)
  have "set (col_values s3_res ''original_value'') = set (escalated w e s2)" by simp
  with kept_union [of w e s2] originals_s2 [OF three_stage(2)] exact_non_exact_cover [of e]
  show ?thesis by (simp add: three_stage(8) col_values_concat_frames Un_assoc)
qed

theorem run_coverage_witness:
  "run demo_env demo_engine = Inr demo_out \<and>
   set (col_values demo_out ''original_value'') = Str ` set (query demo_engine)"
  using run_coverage [OF demo_run] demo_run by simp

section \<open>The rows of a result, stage by stage\<close>

lemma run_rows:
  assumes "run w e = Inr out" "v \<in> set (views out)"
  obtains (stage1) q where "q \<in> set (exact_matching (query e) (corpus e))" "v = exact_view e q"
  | (stage2) q s2 where "s2_result w e = Inr s2" "v \<in> set (views s2)" "q \<in> set (non_exact e)"
      "v ''original_value'' = Str q" "v ''stage'' = Num (Flt 2)"
      "Str q \<notin> set (escalated w e s2)"
  | (stage3) q s2 where "s2_result w e = Inr s2" "q \<in> set (non_exact e)"
      "v ''original_value'' = Str q" "v ''stage'' = Num (Flt 3)"
      "Str q \<in> set (escalated w e s2)"
  using assms(1)
proof (cases rule: run_Inr_cases)
  case exact_only
  with assms(2) show ?thesis by (auto simp: views_exact_df intro: stage1)
next
  case (two_stage s2)
  with assms(2) consider "v \<in> set (views (exact_df e))" | "v \<in> set (views s2)"
    by (auto simp: views_concat_frames)
  then show ?thesis
  proof cases
    case 1
    then show ?thesis by (auto simp: views_exact_df intro: stage1)
  next
    case 2
    from two_stage(2) 2 obtain q where "q \<in> set (non_exact e)" "v ''original_value'' = Str q"
      "v ''stage'' = Num (Flt 2)" by (rule s2_row)
    with two_stage 2 show ?thesis by (intro stage2 [of s2 q]) simp_all
  qed
next
  case (three_stage s2 s3 qs3 s3_res)
  with assms(2) consider "v \<in> set (views (exact_df e))"
    | "v \<in> set (views s2)" "v ''original_value'' \<notin> set (escalated w e s2)"
    | "v \<in> set (views s3_res)"
    by (auto simp: views_concat_frames kept_def views_filter_rows)
  then show ?thesis
  proof cases
    case 1
    then show ?thesis by (auto simp: views_exact_df intro: stage1)
  next
    case 2
    from three_stage(2) 2(1) obtain q where "q \<in> set (non_exact e)"
      "v ''original_value'' = Str q" "v ''stage'' = Num (Flt 2)" by (rule s2_row)
    with three_stage(2) 2 show ?thesis by (intro stage2 [of s2 q]) simp_all
  next
    case 3
    from three_stage(7) 3 obtain q where q: "q \<in> set qs3" "v ''original_value'' = Str q"
      "v ''stage'' = Num (Flt (of_nat 3))"
      by (rule semantic_stage_row)
    with three_stage(5) have "Str q \<in> set (escalated w e s2)" by simp
    with q three_stage(2) show ?thesis
      by (intro stage3 [of s2 q]) (auto dest: escalated_non_exact)
  qed
qed

text \<open>
  C2. Stage exclusivity. In a table returned by \<^verbatim>\<open>run\<close>, two rows with the same
  \<^verbatim>\<open>original_value\<close> carry the same \<^verbatim>\<open>stage\<close>: a query is reported by one
  stage only, and a query escalated to stage 3 leaves no stage-2 row behind.
\<close>

theorem run_stage_exclusive:
  assumes "run w e = Inr out" "v \<in> set (views out)" "v' \<in> set (views out)"
    and "v ''original_value'' = v' ''original_value''"
  shows "v ''stage'' = v' ''stage''"
  using assms(1,2)
proof (cases rule: run_rows)
  case (stage1 q)
  with assms(1,3,4) show ?thesis
    by (cases rule: run_rows [of w e out v']) (auto simp: exact_view_fixed exact_not_non_exact)
next
  case (stage2 q s2)
  with assms(1,3,4) show ?thesis
    by (cases rule: run_rows [of w e out v']) (auto simp: exact_view_fixed exact_not_non_exact)
next
  case (stage3 q s2)
  with assms(1,3,4) show ?thesis
    by (cases rule: run_rows [of w e out v']) (auto simp: exact_view_fixed exact_not_non_exact)
qed

theorem run_stage_exclusive_witness:
  "run twin_env demo_engine = Inr twin_out \<and>
   (views twin_out ! 4) ''original_value'' = (views twin_out ! 5) ''original_value'' \<and>
   (views twin_out ! 4) ''stage'' = (views twin_out ! 5) ''stage''"
proof -
  have "(views twin_out ! 4) ''original_value'' = (views twin_out ! 5) ''original_value''"
    by code_simp
  with run_stage_exclusive [OF twin_run twin_row_mem] twin_run show ?thesis by simp
qed

text \<open>A result row whose query matches the corpus exactly is the stage-1 row of that query.\<close>

lemma exact_row_view:
  assumes "run w e = Inr out" "v \<in> set (views out)" "v ''original_value'' = Str q"
    and "norm_key q \<in> corpus_normalized (corpus e)"
  shows "v = exact_view e q"
  using assms(1,2)
proof (cases rule: run_rows)
  case (stage1 q')
  with assms(3) show ?thesis by (simp add: exact_view_fixed)
next
  case (stage2 q' s2)
  with assms(3,4) show ?thesis by (simp add: non_exact_iff)
next
  case (stage3 q' s2)
  with assms(3,4) show ?thesis by (simp add: non_exact_iff)
qed

text \<open>
  C3. Exact-match rows. A row of the result whose original value normalizes (strip, lower)
  to a corpus label is a stage-1 row: stage 1, match level 1, the curated value of the
  curation map (the query itself when the map has no entry), and for every rank
  \<open>1 \<le> i \<le> topk\<close> the match column holds the curated value and the score column 1.
\<close>

theorem exact_rows_correct:
  assumes "run w e = Inr out" "v \<in> set (views out)" "v ''original_value'' = Str q"
    and "norm_key q \<in> corpus_normalized (corpus e)"
  shows "v ''stage'' = Num (Flt 1) \<and> v ''match_level'' = Num (Flt 1) \<and>
         v ''curated_ontology'' = Str (curated e q) \<and>
         (\<forall>i. 1 \<le> i \<and> int i \<le> topk e \<longrightarrow>
            v (top_match_col i) = Str (curated e q) \<and> v (top_score_col i) = Num (Flt 1))"
  using exact_row_view [OF assms] by (simp add: exact_view_fixed exact_view_topk)

theorem exact_rows_correct_witness:
  "norm_key ''Lung Cancer'' \<in> corpus_normalized (corpus demo_engine) \<and>
   (views demo_out ! 0) ''stage'' = Num (Flt 1) \<and>
   (views demo_out ! 0) ''curated_ontology'' = Str (curated demo_engine ''Lung Cancer'')"
proof -
  have o: "(views demo_out ! 0) ''original_value'' = Str ''Lung Cancer''" by code_simp
  have k: "norm_key ''Lung Cancer'' \<in> corpus_normalized (corpus demo_engine)" by code_simp
  from exact_rows_correct [OF demo_run demo_row_mem(1) o k] k show ?thesis by simp
qed

text \<open>
  C21. The label of an exact match is the query as written. A query that matches the corpus
  exactly and is no key of the curation map gets itself as curated label, with its own
  capitals and surrounding white space, and not the corpus label it matched: two spellings
  of one label that stage 1 both accepts get two different curated labels.
\<close>

theorem exact_label_verbatim:
  assumes "run w e = Inr out" "v \<in> set (views out)" "v ''original_value'' = Str q"
    and "norm_key q \<in> corpus_normalized (corpus e)" "q \<notin> set (dict_keys (cura_map e))"
  shows "v ''curated_ontology'' = Str q"
  using exact_row_view [OF assms(1-4)] assms(5)
  by (simp add: exact_view_fixed curated_def dict_get_or_def dict_keys_def
      map_of_eq_None_iff [THEN iffD2])

theorem exact_label_verbatim_witness:
  "norm_key '' lung cancer'' \<in> corpus_normalized (corpus demo_engine) \<and>
   '' lung cancer'' \<notin> set (dict_keys (cura_map demo_engine)) \<and>
   (views demo_out ! 1) ''curated_ontology'' = Str '' lung cancer'' \<and>
   (views demo_out ! 0) ''curated_ontology'' = Str ''Lung Carcinoma''"
proof -
  have o: "(views demo_out ! 1) ''original_value'' = Str '' lung cancer''" by code_simp
  have k: "norm_key '' lung cancer'' \<in> corpus_normalized (corpus demo_engine)" by code_simp
  have c: "'' lung cancer'' \<notin> set (dict_keys (cura_map demo_engine))" by code_simp
  have z: "(views demo_out ! 0) ''curated_ontology'' = Str ''Lung Carcinoma''" by code_simp
  from exact_label_verbatim [OF demo_run demo_row_mem(4) o k c] k c z show ?thesis by simp
qed

text \<open>The stage-3 rows are the rows of the escalated queries.\<close>

lemma row_stage3_iff:
  assumes "run w e = Inr out" "s2_result w e = Inr s2" "v \<in> set (views out)"
  shows "v ''stage'' = Num (Flt 3) \<longleftrightarrow> v ''original_value'' \<in> set (escalated w e s2)"
  using assms(1,3)
proof (cases rule: run_rows)
  case (stage1 q)
  then have "Str q \<notin> set (escalated w e s2)"
    using escalated_non_exact [OF assms(2), of q] by (auto simp: exact_not_non_exact)
  with stage1 show ?thesis by (simp add: exact_view_fixed)
next
  case (stage2 q s2')
  with assms(2) show ?thesis by simp
next
  case (stage3 q s2')
  with assms(2) show ?thesis by simp
qed

text \<open>
  C4. Escalation. A row of the result is a stage-3 row exactly when its original value is
  among the escalated queries: stage 3 is configured, the stage-2 table has a
  \<^verbatim>\<open>top1_score\<close> column, and some stage-2 row of that query has a coerced score
  below the threshold.
\<close>

theorem stage3_iff_escalated:
  assumes "run w e = Inr out" "s2_result w e = Inr s2" "v \<in> set (views out)"
  shows "v ''stage'' = Num (Flt 3) \<longleftrightarrow> v ''original_value'' \<in> set (escalated w e s2)"
  using assms by (rule row_stage3_iff)

theorem stage3_iff_escalated_witness:
  "s2_result demo_env demo_engine = Inr demo_s2 \<and>
   (views demo_out ! 3) ''original_value'' \<in> set (escalated demo_env demo_engine demo_s2)"
proof -
  have "(views demo_out ! 3) ''stage'' = Num (Flt 3)" by code_simp
  with stage3_iff_escalated [OF demo_run demo_s2_result demo_row_mem(3)] demo_s2_result
  show ?thesis by simp
qed

text \<open>
  C9. When stage 3 is configured and stage 2 reports scores, every stage-2 row that remains
  in the result has a coerced top-1 score that is not below the threshold.
\<close>

theorem stage2_rows_confident:
  assumes "run w e = Inr out" "s2_result w e = Inr s2" "s3_strategy e \<noteq> None"
    and "has_col s2 ''top1_score''" "v \<in> set (views out)" "v ''stage'' = Num (Flt 2)"
  shows "\<not> low_confidence w e v"
  using assms(1,5)
proof (cases rule: run_rows)
  case (stage1 q)
  with assms(6) show ?thesis by (simp add: exact_view_fixed)
next
  case (stage2 q s2')
  with assms(2,3,4) show ?thesis by (auto simp: escalated_iff)
next
  case (stage3 q s2')
  with assms(6) show ?thesis by simp
qed

theorem stage2_rows_confident_witness:
  "has_col demo_s2 ''top1_score'' \<and> (views demo_out ! 2) ''stage'' = Num (Flt 2) \<and>
   \<not> low_confidence demo_env demo_engine (views demo_out ! 2)"
proof -
  have 1: "s3_strategy demo_engine \<noteq> None" by code_simp
  have 2: "has_col demo_s2 ''top1_score''" by code_simp
  have 3: "(views demo_out ! 2) ''stage'' = Num (Flt 2)" by code_simp
  from stage2_rows_confident [OF demo_run demo_s2_result 1 2 demo_row_mem(2) 3] 2 3
  show ?thesis by simp
qed

text \<open>
  C12. A score that cannot be read counts as 0. When stage 3 is configured, the stage-2
  table has a \<^verbatim>\<open>top1_score\<close> column and the threshold is positive, a stage-2 row
  whose score is missing or is text that is no number is escalated: every row of the
  result for its query is a stage-3 row.
\<close>

theorem unscored_rows_escalate:
  assumes "run w e = Inr out" "s2_result w e = Inr s2"
    and "s3_strategy e \<noteq> None" "has_col s2 ''top1_score''" "Flt 0 < s3_threshold e"
    and "u \<in> set (views s2)"
    and "u ''top1_score'' = NA \<or> (\<exists>s. u ''top1_score'' = Str s \<and> parse_score w s = None)"
    and "v \<in> set (views out)" "v ''original_value'' = u ''original_value''"
  shows "v ''stage'' = Num (Flt 3)"
proof -
  from assms(5,7) have "low_confidence w e u"
    by (auto simp: low_confidence_def to_numeric0_def)
  with assms(3,4,6,9) have "v ''original_value'' \<in> set (escalated w e s2)"
    by (auto simp: escalated_iff)
  with row_stage3_iff [OF assms(1,2,8)] show ?thesis by simp
qed

theorem unscored_rows_escalate_witness:
  "(views demo_s2 ! 0) ''top1_score'' = Str ''0.97'' \<and> parse_score unparsed_env ''0.97'' = None \<and>
   (views unparsed_out ! 2) ''original_value'' = (views demo_s2 ! 0) ''original_value'' \<and>
   (views unparsed_out ! 2) ''stage'' = Num (Flt 3)"
proof -
  have s2: "s2_result unparsed_env demo_engine = Inr demo_s2" by code_simp
  have 1: "s3_strategy demo_engine \<noteq> None" by code_simp
  have 2: "has_col demo_s2 ''top1_score''" by code_simp
  have 3: "Flt 0 < s3_threshold demo_engine" by (simp add: demo_engine_def)
  have u: "views demo_s2 ! 0 \<in> set (views demo_s2)" by (simp only: nth_mem demo_s2_rows)
  have t: "(views demo_s2 ! 0) ''top1_score'' = Str ''0.97''" by code_simp
  have p: "parse_score unparsed_env ''0.97'' = None" by (simp add: unparsed_env_def)
  from t p have d: "(views demo_s2 ! 0) ''top1_score'' = NA \<or>
      (\<exists>s. (views demo_s2 ! 0) ''top1_score'' = Str s \<and> parse_score unparsed_env s = None)"
    by simp
  have "length (views unparsed_out) = 4" by (simp add: unparsed_out_def n_rows_def)
  then have v: "views unparsed_out ! 2 \<in> set (views unparsed_out)" by simp
  have o: "(views unparsed_out ! 2) ''original_value'' = (views demo_s2 ! 0) ''original_value''"
    by code_simp
  from unscored_rows_escalate [OF unparsed_run s2 1 2 3 u d v o] t p o show ?thesis by simp
qed

text \<open>
  C11. A stage-2 row that is not escalated is retained unchanged. Every row of the stage-2
  table whose query is not among the escalated ones is a row of the result, with all its
  cells as stage 2 produced them.
\<close>

theorem confident_rows_retained:
  assumes "run w e = Inr out" "s2_result w e = Inr s2"
    and "u \<in> set (views s2)" "u ''original_value'' \<notin> set (escalated w e s2)"
  shows "u \<in> set (views out)"
  using assms(1)
proof (cases rule: run_Inr_cases)
  case exact_only
  with originals_s2 [OF assms(2)] assms(3) show ?thesis by (auto simp: col_values_def)
next
  case (two_stage s2')
  with assms(2,3) show ?thesis by (simp add: views_concat_frames)
next
  case (three_stage s2' s3 qs3 s3_res)
  with assms(2,3,4) show ?thesis by (simp add: views_concat_frames kept_def views_filter_rows)
qed

theorem confident_rows_retained_witness:
  "(views demo_s2 ! 0) ''original_value'' = Str ''XYZ'' \<and>
   Str ''XYZ'' \<notin> set (escalated demo_env demo_engine demo_s2) \<and>
   views demo_s2 ! 0 \<in> set (views demo_out)"
proof -
  have m: "views demo_s2 ! 0 \<in> set (views demo_s2)" by (simp only: nth_mem demo_s2_rows)
  have o: "(views demo_s2 ! 0) ''original_value'' = Str ''XYZ''" by code_simp
  have n: "Str ''XYZ'' \<notin> set (escalated demo_env demo_engine demo_s2)" by code_simp
  from confident_rows_retained [OF demo_run demo_s2_result m] o n show ?thesis by simp
qed

section \<open>The exits without stage 3\<close>

text \<open>
  C26. Short circuit. When every query matches the corpus exactly, \<^verbatim>\<open>run\<close> returns the
  stage-1 table for every environment: no backend is consulted.
\<close>

theorem run_exact_only:
  assumes "\<forall>q\<in>set (query e). norm_key q \<in> corpus_normalized (corpus e)"
  shows "run w e = Inr (exact_df e)"
proof -
  from assms have "q \<notin> set (non_exact e)" for q by (auto simp: non_exact_iff)
  then have "non_exact e = []" by (cases "non_exact e") auto
  then show ?thesis by (simp add: run_alt)
qed

theorem run_exact_only_witness:
  "run demo_env (demo_engine\<lparr>query := [''Lung Cancer'']\<rparr>)
     = Inr (exact_df (demo_engine\<lparr>query := [''Lung Cancer'']\<rparr>))"
proof -
  have "\<forall>q\<in>set (query (demo_engine\<lparr>query := [''Lung Cancer'']\<rparr>)).
      norm_key q \<in> corpus_normalized (corpus (demo_engine\<lparr>query := [''Lung Cancer'']\<rparr>))"
    by code_simp
  then show ?thesis by (rule run_exact_only)
qed

text \<open>
  C8. The exits without stage 3. When stage 3 is not configured, or the stage-2 table has
  no \<^verbatim>\<open>top1_score\<close> column (graceful degradation), or no stage-2 row is below the
  threshold, \<^verbatim>\<open>run\<close> returns the stage-1 rows followed by all stage-2 rows.
\<close>

theorem run_without_escalation:
  assumes "non_exact e \<noteq> []" "s2_result w e = Inr s2"
    and "s3_strategy e = None \<or> \<not> has_col s2 ''top1_score'' \<or>
         (\<forall>v\<in>set (views s2). \<not> low_confidence w e v)"
  shows "run w e = Inr (concat_frames [exact_df e, s2])"
proof -
  have "c \<notin> set (escalated w e s2)" for c
    using assms(3) by (auto simp: escalated_iff)
  then have "escalated w e s2 = []" by (cases "escalated w e s2") auto
  with assms(1,2) show ?thesis by (simp add: run_alt after_s2_def split: option.splits)
qed

theorem run_without_escalation_witness:
  "run demo_env (demo_engine\<lparr>s3_strategy := None\<rparr>)
     = Inr (concat_frames [exact_df (demo_engine\<lparr>s3_strategy := None\<rparr>), demo_s2])"
proof -
  have 1: "non_exact (demo_engine\<lparr>s3_strategy := None\<rparr>) \<noteq> []" by code_simp
  have 2: "s2_result demo_env (demo_engine\<lparr>s3_strategy := None\<rparr>) = Inr demo_s2" by code_simp
  show ?thesis by (rule run_without_escalation [OF 1 2]) simp
qed

section \<open>Exceptions\<close>

text \<open>
  C28. An exception of the stage-2 backend (or of the adapter) propagates out of
  \<^verbatim>\<open>run\<close> unchanged.
\<close>

theorem run_backend_error:
  assumes "non_exact e \<noteq> []" "answer_of w e (s2_strategy e) (non_exact e) = Inl err"
  shows "run w e = Inl err"
  using assms by (simp add: run_alt s2_result_def semantic_stage_alt)

theorem run_backend_error_witness:
  "run failing_env demo_engine = Inl (BackendError ''matcher unavailable'')"
proof -
  have 1: "non_exact demo_engine \<noteq> []" by code_simp
  have 2: "answer_of failing_env demo_engine (s2_strategy demo_engine) (non_exact demo_engine)
      = Inl (BackendError ''matcher unavailable'')" by code_simp
  show ?thesis by (rule run_backend_error [OF 1 2])
qed

text \<open>
  An engine whose stage-2 strategy is not one of the four known names (the constructor
  rules this out) fails in \<^verbatim>\<open>run\<close> with the adapter's \<^verbatim>\<open>ValueError\<close>
  as soon as one query needs stage 2.
\<close>

lemma run_unknown_strategy:
  assumes "non_exact e \<noteq> []" "\<not> known_strategy (s2_strategy e)"
  shows "run w e = Inl (strategy_error (s2_strategy e))"
  using assms
  by (simp add: run_alt s2_result_def semantic_stage_alt answer_of_def om_model_unknown)

lemma run_unknown_strategy_witness:
  "run demo_env (demo_engine\<lparr>s2_strategy := ''bm25''\<rparr>) = Inl (strategy_error ''bm25'')"
proof -
  have 1: "non_exact (demo_engine\<lparr>s2_strategy := ''bm25''\<rparr>) \<noteq> []" by code_simp
  have 2: "\<not> known_strategy (s2_strategy (demo_engine\<lparr>s2_strategy := ''bm25''\<rparr>))" by code_simp
  from run_unknown_strategy [OF 1 2] show ?thesis by simp
qed

lemma semantic_stage_ok:
  assumes "answer_of w e strategy qs = Inr res" "well_behaved res"
  shows "is_ok (semantic_stage w e strategy tag qs)"
proof -
  have "\<exists>m. merge_left (replace_frame (abbr_table w) qs)
      (rename_col res ''original_value'' ''updated_value'') ''updated_value'' = Inr m"
    using assms(2)
    by (simp add: merge_left_Inr_iff replace_frame_def well_behaved_def wf_frame_def has_col_def
        count_list_rename)
  with assms(1) show ?thesis by (auto simp: semantic_stage_alt)
qed

lemma answer_ok:
  assumes "known_strategy strategy"
    and "\<And>m c k t. \<exists>res. get_match_results w m c k t = Inr res \<and> well_behaved res"
  obtains res where "answer_of w e strategy qs = Inr res" "well_behaved res"
proof -
  from assms(1) obtain m where "om_model_from_strategy e strategy (map (expand (abbr_table w)) qs) = Inr m"
    using om_model_ok_iff [of e strategy] by (auto simp: is_ok_iff)
  moreover from assms(2) obtain res where "get_match_results w m
      (rekey_cura_map (map_shortname_to_fullname (abbr_table w) qs) (cura_map e))
      (topk e) (test_or_prod e) = Inr res" "well_behaved res" by blast
  ultimately show ?thesis by (intro that [of res]) (simp_all add: answer_of_def)
qed

lemma run_ok:
  assumes "valid_engine e"
    and "\<And>m c k t. \<exists>res. get_match_results w m c k t = Inr res \<and> well_behaved res"
  shows "is_ok (run w e)"
proof (cases "non_exact e = []")
  case True
  then show ?thesis by (simp add: run_alt)
next
  case False
  from assms(1) have k2: "known_strategy (s2_strategy e)"
    by (auto simp: valid_engine_def known_strategy_def)
  from answer_ok [OF k2 assms(2)] semantic_stage_ok
  obtain s2 where s2: "s2_result w e = Inr s2"
    unfolding s2_result_def by (metis is_ok_iff)
  have "is_ok (after_s2 w e s2)"
  proof (cases "s3_strategy e")
    case None
    then show ?thesis by (simp add: after_s2_def)
  next
    case (Some s3)
    with assms(1) have k3: "known_strategy s3"
      by (auto simp: valid_engine_def known_strategy_def)
    have "set (escalated w e s2) \<subseteq> range Str"
      using escalated_subset [of w e s2] originals_s2 [OF s2] by auto
    then obtain qs3 where qs3: "cells_text (escalated w e s2) = Inr qs3"
      using cells_text_ok by (auto simp: is_ok_iff)
    from answer_ok [OF k3 assms(2)] semantic_stage_ok
    obtain s3_res where "semantic_stage w e s3 3 qs3 = Inr s3_res"
      by (metis is_ok_iff)
    with Some qs3 show ?thesis by (simp add: after_s2_def)
  qed
  with False s2 show ?thesis by (simp add: run_alt)
qed

section \<open>Every query once\<close>

lemma originals_unique:
  assumes "semantic_stage w e strategy tag qs = Inr out"
    and "\<And>res. answer_of w e strategy qs = Inr res \<Longrightarrow> unique_keys res"
  shows "col_values out ''original_value'' = str_cells qs"
  using assms(1)
proof (rule views_semantic_stage)
  fix res
  assume r: "answer_of w e strategy qs = Inr res"
    and v: "views out = stage_views e (abbr_table w) tag
       (views (rename_col res ''original_value'' ''updated_value'')) qs"
  from assms(2) [OF r] show ?thesis
    by (simp add: v col_values_def stage_views_unique unique_keys_def)
qed

lemma answer_unique:
  assumes "\<And>m c k t res. get_match_results w m c k t = Inr res \<Longrightarrow> unique_keys res"
    and "answer_of w e strategy qs = Inr res"
  shows "unique_keys res"
  using assms by (auto simp: answer_of_def bind_r_eq_Inr_iff)

lemma kept_escalated_mset:
  assumes "distinct (col_values s2 ''original_value'')"
  shows "mset (col_values (kept w e s2) ''original_value'') + mset (escalated w e s2)
           = mset (col_values s2 ''original_value'')"
proof (cases "s3_strategy e \<noteq> None \<and> has_col s2 ''top1_score''")
  case False
  then have "escalated w e s2 = []" by (auto simp: escalated_def)
  then show ?thesis by (simp add: kept_def col_values_def views_filter_rows)
next
  case True
  let ?ov = "\<lambda>v::string \<Rightarrow> cell. v ''original_value''"
  let ?vs = "views s2"
  from assms have inj: "inj_on ?ov (set ?vs)" by (simp add: col_values_def distinct_map)
  have esc: "escalated w e s2 = map ?ov (filter (low_confidence w e) ?vs)"
    using True by (simp add: escalated_def col_values_def views_filter_rows)
  have "filter (\<lambda>v. ?ov v \<notin> set (escalated w e s2)) ?vs
          = filter (\<lambda>v. \<not> low_confidence w e v) ?vs"
    using inj by (intro filter_cong refl) (auto simp: esc dest: inj_onD)
  then have "col_values (kept w e s2) ''original_value''
          = map ?ov (filter (\<lambda>v. \<not> low_confidence w e v) ?vs)"
    by (simp add: kept_def col_values_def views_filter_rows)
  then show ?thesis
    using mset_map_filter_partition [of ?ov "low_confidence w e" ?vs]
    by (simp only: esc col_values_def add.commute)
qed

lemma originals_mset:
  assumes "run w e = Inr out"
    and u: "\<And>m c k t res. get_match_results w m c k t = Inr res \<Longrightarrow> unique_keys res"
  shows "mset (col_values out ''original_value'')
           = mset (str_cells (exact_matching (query e) (corpus e))) + mset (str_cells (non_exact e))"
  using assms(1)
proof (cases rule: run_Inr_cases)
  case exact_only
  then show ?thesis by (simp add: str_cells_def)
next
  case (two_stage s2)
  from two_stage(2) have "col_values s2 ''original_value'' = str_cells (non_exact e)"
    unfolding s2_result_def by (rule originals_unique) (rule answer_unique [OF u])
  with two_stage show ?thesis by (simp add: col_values_concat_frames)
next
  case (three_stage s2 s3 qs3 s3_res)
  from three_stage(2) have s2: "col_values s2 ''original_value'' = str_cells (non_exact e)"
    unfolding s2_result_def by (rule originals_unique) (rule answer_unique [OF u])
  then have "distinct (col_values s2 ''original_value'')"
    by (simp add: str_cells_def distinct_map non_exact_def inj_on_def)
  from kept_escalated_mset [OF this, of w e]
  have "mset (col_values (kept w e s2) ''original_value'') + mset (str_cells qs3)
      = mset (str_cells (non_exact e))"
    by (simp add: three_stage(5) s2)
  moreover from three_stage(7) have "col_values s3_res ''original_value'' = str_cells qs3"
    by (rule originals_unique) (rule answer_unique [OF u])
  ultimately show ?thesis by (simp add: three_stage(8) col_values_concat_frames add.assoc)
qed

lemma mset_exact_non_exact:
  assumes "distinct (query e)"
  shows "mset (exact_matching (query e) (corpus e)) + mset (non_exact e) = mset (query e)"
proof -
  let ?P = "\<lambda>q. norm_key q \<in> corpus_normalized (corpus e)"
  have s: "set (non_exact e) = set (filter (\<lambda>q. \<not> ?P q) (query e))"
    by (auto simp: non_exact_iff)
  have d: "distinct (non_exact e)" by (simp add: non_exact_def)
  from assms have d': "distinct (filter (\<lambda>q. \<not> ?P q) (query e))" by simp
  have e1: "mset (non_exact e) = mset (filter (\<lambda>q. \<not> ?P q) (query e))"
    by (rule set_eq_iff_mset_eq_distinct [THEN iffD1, OF d d' s])
  have e2: "exact_matching (query e) (corpus e) = filter ?P (query e)"
    by (simp add: exact_matching_def)
  show ?thesis unfolding e1 e2 by (rule filter_mem_partition_mset [symmetric])
qed

text \<open>
  C23. Coverage as a multiset. For a query list without duplicates and backends that answer
  with one row per key, the \<^verbatim>\<open>original_value\<close> column of the result is a
  permutation of the query list.
\<close>

theorem run_coverage_distinct:
  assumes "run w e = Inr out" "distinct (query e)"
    and "\<And>m c k t res. get_match_results w m c k t = Inr res \<Longrightarrow> unique_keys res"
  shows "mset (col_values out ''original_value'') = mset (str_cells (query e))"
  using originals_mset [OF assms(1,3)]
    arg_cong [where f = "image_mset Str", OF mset_exact_non_exact [OF assms(2)]]
  by (simp add: str_cells_def)

theorem run_coverage_distinct_witness:
  "distinct (query demo_engine) \<and>
   mset (col_values demo_out ''original_value'') = mset (str_cells (query demo_engine))"
proof -
  have 1: "distinct (query demo_engine)" by code_simp
  from run_coverage_distinct [OF demo_run 1 demo_unique_keys] 1 show ?thesis by simp
qed

text \<open>
  C22. How often a query is reported, for backends that answer with one row per key: a
  query with an exact match as often as it was submitted, any other submitted query
  once, however often it was submitted (\<^verbatim>\<open>np.setdiff1d\<close> removes duplicates).
\<close>

theorem run_label_counts:
  assumes "run w e = Inr out"
    and "\<And>m c k t res. get_match_results w m c k t = Inr res \<Longrightarrow> unique_keys res"
  shows "count_list (col_values out ''original_value'') (Str q) =
           (if norm_key q \<in> corpus_normalized (corpus e) then count_list (query e) q
            else if q \<in> set (query e) then 1 else 0)"
proof -
  have "count_list (col_values out ''original_value'') (Str q)
      = count_list (exact_matching (query e) (corpus e)) q + count_list (non_exact e) q"
    using arg_cong [where f = "\<lambda>M. count M (Str q)", OF originals_mset [OF assms]]
    by (simp add: count_mset)
  moreover have "count_list (non_exact e) q = (if q \<in> set (non_exact e) then 1 else 0)"
    by (rule count_list_distinct) (simp add: non_exact_def)
  ultimately show ?thesis
    by (simp add: count_exact_matching non_exact_iff)
qed

theorem run_label_counts_witness:
  "count_list (col_values demo_out ''original_value'') (Str ''abc'') = 1 \<and>
   count_list (col_values demo_out ''original_value'') (Str ''Lung Cancer'') = 1"
proof -
  have 1: "norm_key ''abc'' \<notin> corpus_normalized (corpus demo_engine)" by code_simp
  have 2: "norm_key ''Lung Cancer'' \<in> corpus_normalized (corpus demo_engine)" by code_simp
  have 3: "''abc'' \<in> set (query demo_engine)" by code_simp
  have 4: "count_list (query demo_engine) ''Lung Cancer'' = 1" by code_simp
  from run_label_counts [OF demo_run demo_unique_keys, where q = "''abc''"]
    run_label_counts [OF demo_run demo_unique_keys, where q = "''Lung Cancer''"] 1 2 3 4
  show ?thesis by simp
qed

end
