(* ===== verification/Machine.thy ===== *)
theory Machine
  imports Controller
begin

text \<open>
  The cascade controller as the state machine of the specification,
  \<open>INIT \<rightarrow> STAGE1 \<rightarrow> STAGE2 \<rightarrow> (STAGE3 | DONE)\<close>, with \<open>ERROR\<close> for a raised
  exception. The machine is given twice: as the inductive step relation \<open>cstep\<close>, one
  rule per transition, and as the executable function \<open>step\<close>; the two agree. A
  transition is labelled with the events it causes. The machine refines
  \<^verbatim>\<open>run\<close>: its final states are the outcomes of \<^verbatim>\<open>run\<close>. Fuel 4 suffices
  for every run, because every transition lowers the \<open>rank\<close> of the state.
\<close>

section \<open>Events and states\<close>

text \<open>
  An \<open>event\<close> is what a run does to its collaborators: a call of the abbreviation
  resolver with the list it is given (\<^verbatim>\<open>_map_shortname_to_fullname\<close>, entered
  before any element is looked at), the invocation of a backend (with the model the
  adapter built), a warning of the logger. The states are those of the specification; each carries the values the
  method has computed when it reaches that point.
\<close>

datatype event =
    Resolve "cell list"
  | Invoke model
  | Warning string

datatype cstate =
    INIT init_args
  | STAGE1 engine
  | STAGE2 engine frame "string list"
  | STAGE3 engine string frame frame "cell list"
  | DONE frame
  | ERROR error

definition abbr_warning :: string where
  "abbr_warning = ''Abbreviation mapping file not found. Skipping abbreviation replacement.''"

definition score_warning :: string where
  "score_warning = ''top1_score not found in Stage 2 results. Skipping Stage 3.''"

definition resolver_events :: "env \<Rightarrow> cell list \<Rightarrow> event list" where
  "resolver_events w cs =
     Resolve cs # (if abbr_table w = None then [Warning abbr_warning] else [])"

definition stage_events :: "env \<Rightarrow> engine \<Rightarrow> string \<Rightarrow> string list \<Rightarrow> event list" where
  "stage_events w e strategy qs =
     resolver_events w (str_cells qs)
     @ (case om_model_from_strategy e strategy (map (expand (abbr_table w)) qs) of
          Inl _ \<Rightarrow> [] | Inr m \<Rightarrow> [Invoke m])"

text \<open>
  The statements of a semantic stage once more, this time with the events in the places
  where the source causes them: the resolver is entered first, the backend is invoked
  after the adapter has built it. \<open>stage_events\<close> is the trace of this function and
  \<^verbatim>\<open>semantic_stage\<close> its result (\<open>semantic_stage_ev_eq\<close>).
\<close>

definition semantic_stage_ev ::
  "env \<Rightarrow> engine \<Rightarrow> string \<Rightarrow> nat \<Rightarrow> string list \<Rightarrow> event list \<times> frame result" where
  "semantic_stage_ev w e strategy tag qs =
     (let evs = resolver_events w (str_cells qs);
          mapping_dict = map_shortname_to_fullname (abbr_table w) qs
      in case mapM_r (dict_item mapping_dict) qs of
           Inl err \<Rightarrow> (evs, Inl err)
         | Inr updated_queries \<Rightarrow>
             (case frame_of_2cols ''original_value'' (str_cells qs)
                     ''updated_value'' (str_cells updated_queries) of
                Inl err \<Rightarrow> (evs, Inl err)
              | Inr replace_df \<Rightarrow>
                  let updated_cura_map = rekey_cura_map mapping_dict (cura_map e)
                  in (case om_model_from_strategy e strategy updated_queries of
                        Inl err \<Rightarrow> (evs, Inl err)
                      | Inr model \<Rightarrow>
                          (evs @ [Invoke model],
                           bind_r (get_match_results w model updated_cura_map (topk e)
                                     (test_or_prod e)) (\<lambda>res.
                           bind_r (merge_left replace_df
                                     (rename_col res ''original_value'' ''updated_value'')
                                     ''updated_value'') (\<lambda>merged.
                           Inr (tag_stage e tag merged)))))))"

definition low_originals :: "env \<Rightarrow> engine \<Rightarrow> frame \<Rightarrow> cell list" where
  "low_originals w e s2 = col_values (filter_rows s2 (low_confidence w e)) ''original_value''"

section \<open>The executable machine\<close>

text \<open>
  \<open>step\<close> is one transition: the constructor from \<open>INIT\<close>, lines 249-272 of
  \<^verbatim>\<open>run\<close> from \<open>STAGE1\<close>, lines 277-361 from \<open>STAGE2\<close>, lines 364-404 from
  \<open>STAGE3\<close>. \<open>exec n\<close> makes at most \<open>n\<close> transitions and collects the events.
\<close>

definition step :: "(pyfloat \<Rightarrow> string) \<Rightarrow> env \<Rightarrow> cstate \<Rightarrow> (event list \<times> cstate) option" where
  "step render w s =
     (case s of
        INIT a \<Rightarrow>
          (case init_engine render a of
             Inl err \<Rightarrow> Some ([], ERROR err)
           | Inr e \<Rightarrow> Some ([], STAGE1 e))
      | STAGE1 e \<Rightarrow>
          (let exact_matches = exact_matching (query e) (corpus e);
               exact_tbl = exact_frame e exact_matches;
               non_exact_matches_ls = np_setdiff1d (query e) exact_matches
           in if non_exact_matches_ls = [] then Some ([], DONE exact_tbl)
              else Some ([], STAGE2 e exact_tbl non_exact_matches_ls))
      | STAGE2 e exact_tbl qs \<Rightarrow>
          (let evs = stage_events w e (s2_strategy e) qs
           in case semantic_stage w e (s2_strategy e) 2 qs of
                Inl err \<Rightarrow> Some (evs, ERROR err)
              | Inr s2_tbl \<Rightarrow>
                  (case s3_strategy e of
                     None \<Rightarrow> Some (evs, DONE (concat_frames [exact_tbl, s2_tbl]))
                   | Some s3 \<Rightarrow>
                       if \<not> has_col s2_tbl ''top1_score''
                       then Some (evs @ [Warning score_warning],
                                  DONE (concat_frames [exact_tbl, s2_tbl]))
                       else if low_originals w e s2_tbl = []
                       then Some (evs, DONE (concat_frames [exact_tbl, s2_tbl]))
                       else Some (evs, STAGE3 e s3 exact_tbl s2_tbl (low_originals w e s2_tbl))))
      | STAGE3 e s3 exact_tbl s2_tbl queries_for_s3 \<Rightarrow>
          (case cells_text queries_for_s3 of
             Inl err \<Rightarrow> Some (resolver_events w queries_for_s3, ERROR err)
           | Inr qs3 \<Rightarrow>
               (let evs = stage_events w e s3 qs3
                in case semantic_stage w e s3 3 qs3 of
                     Inl err \<Rightarrow> Some (evs, ERROR err)
                   | Inr s3_tbl \<Rightarrow>
                       Some (evs, DONE (concat_frames
                         [exact_tbl,
                          filter_rows s2_tbl (\<lambda>v. v ''original_value'' \<notin> set queries_for_s3),
                          s3_tbl]))))
      | DONE out \<Rightarrow> None
      | ERROR err \<Rightarrow> None)"

fun exec :: "nat \<Rightarrow> (pyfloat \<Rightarrow> string) \<Rightarrow> env \<Rightarrow> cstate \<Rightarrow> event list \<times> cstate" where
  "exec 0 render w s = ([], s)"
| "exec (Suc n) render w s =
     (case step render w s of
        None \<Rightarrow> ([], s)
      | Some (evs, s') \<Rightarrow> (case exec n render w s' of (evs', s'') \<Rightarrow> (evs @ evs', s'')))"

definition final :: "cstate \<Rightarrow> bool" where
  "final s = (case s of DONE _ \<Rightarrow> True | ERROR _ \<Rightarrow> True | _ \<Rightarrow> False)"

definition outcome :: "frame result \<Rightarrow> cstate" where
  "outcome r = (case r of Inl err \<Rightarrow> ERROR err | Inr out \<Rightarrow> DONE out)"

definition rank :: "cstate \<Rightarrow> nat" where
  "rank s = (case s of INIT _ \<Rightarrow> 4 | STAGE1 _ \<Rightarrow> 3 | STAGE2 _ _ _ \<Rightarrow> 2 | STAGE3 _ _ _ _ _ \<Rightarrow> 1 | _ \<Rightarrow> 0)"

definition budget :: "cstate \<Rightarrow> nat" where
  "budget s = (case s of INIT _ \<Rightarrow> 2 | STAGE1 _ \<Rightarrow> 2 | STAGE2 _ _ _ \<Rightarrow> 2 | STAGE3 _ _ _ _ _ \<Rightarrow> 1 | _ \<Rightarrow> 0)"

section \<open>Traces\<close>

definition invokes :: "event list \<Rightarrow> model list" where
  "invokes evs = concat (map (\<lambda>ev. case ev of Invoke m \<Rightarrow> [m] | _ \<Rightarrow> []) evs)"

definition resolves :: "event list \<Rightarrow> cell list list" where
  "resolves evs = concat (map (\<lambda>ev. case ev of Resolve qs \<Rightarrow> [qs] | _ \<Rightarrow> []) evs)"

definition stage3_trace :: "env \<Rightarrow> engine \<Rightarrow> string \<Rightarrow> cell list \<Rightarrow> event list" where
  "stage3_trace w e s3 q =
     (case cells_text q of Inl _ \<Rightarrow> resolver_events w q | Inr qs3 \<Rightarrow> stage_events w e s3 qs3)"

definition stage2_trace :: "env \<Rightarrow> engine \<Rightarrow> string list \<Rightarrow> event list" where
  "stage2_trace w e qs =
     stage_events w e (s2_strategy e) qs @
     (case semantic_stage w e (s2_strategy e) 2 qs of
        Inl _ \<Rightarrow> []
      | Inr s2 \<Rightarrow>
          (case s3_strategy e of
             None \<Rightarrow> []
           | Some s3 \<Rightarrow>
               if \<not> has_col s2 ''top1_score'' then [Warning score_warning]
               else if low_originals w e s2 = [] then []
               else stage3_trace w e s3 (low_originals w e s2)))"

definition run_trace :: "env \<Rightarrow> engine \<Rightarrow> event list" where
  "run_trace w e = (if non_exact e = [] then [] else stage2_trace w e (non_exact e))"

section \<open>The step relation\<close>

inductive cstep :: "(pyfloat \<Rightarrow> string) \<Rightarrow> env \<Rightarrow> cstate \<Rightarrow> event list \<Rightarrow> cstate \<Rightarrow> bool"
  for render :: "pyfloat \<Rightarrow> string" and w :: env
where
  init_error: "init_engine render a = Inl err \<Longrightarrow> cstep render w (INIT a) [] (ERROR err)"
| init_ok: "init_engine render a = Inr e \<Longrightarrow> cstep render w (INIT a) [] (STAGE1 e)"
| all_exact: "non_exact e = [] \<Longrightarrow> cstep render w (STAGE1 e) [] (DONE (exact_df e))"
| some_left:
    "non_exact e \<noteq> [] \<Longrightarrow> cstep render w (STAGE1 e) [] (STAGE2 e (exact_df e) (non_exact e))"
| s2_error:
    "semantic_stage w e (s2_strategy e) 2 qs = Inl err \<Longrightarrow>
     cstep render w (STAGE2 e x qs) (stage_events w e (s2_strategy e) qs) (ERROR err)"
| s2_only:
    "semantic_stage w e (s2_strategy e) 2 qs = Inr s2 \<Longrightarrow> s3_strategy e = None \<Longrightarrow>
     cstep render w (STAGE2 e x qs) (stage_events w e (s2_strategy e) qs)
       (DONE (concat_frames [x, s2]))"
| s2_degraded:
    "semantic_stage w e (s2_strategy e) 2 qs = Inr s2 \<Longrightarrow> s3_strategy e = Some s3 \<Longrightarrow>
     \<not> has_col s2 ''top1_score'' \<Longrightarrow>
     cstep render w (STAGE2 e x qs) (stage_events w e (s2_strategy e) qs @ [Warning score_warning])
       (DONE (concat_frames [x, s2]))"
| s2_confident:
    "semantic_stage w e (s2_strategy e) 2 qs = Inr s2 \<Longrightarrow> s3_strategy e = Some s3 \<Longrightarrow>
     has_col s2 ''top1_score'' \<Longrightarrow> low_originals w e s2 = [] \<Longrightarrow>
     cstep render w (STAGE2 e x qs) (stage_events w e (s2_strategy e) qs)
       (DONE (concat_frames [x, s2]))"
| s2_escalate:
    "semantic_stage w e (s2_strategy e) 2 qs = Inr s2 \<Longrightarrow> s3_strategy e = Some s3 \<Longrightarrow>
     has_col s2 ''top1_score'' \<Longrightarrow> low_originals w e s2 \<noteq> [] \<Longrightarrow>
     cstep render w (STAGE2 e x qs) (stage_events w e (s2_strategy e) qs)
       (STAGE3 e s3 x s2 (low_originals w e s2))"
| s3_not_text:
    "cells_text q = Inl err \<Longrightarrow>
     cstep render w (STAGE3 e s3 x s2 q) (resolver_events w q) (ERROR err)"
| s3_error:
    "cells_text q = Inr qs3 \<Longrightarrow> semantic_stage w e s3 3 qs3 = Inl err \<Longrightarrow>
     cstep render w (STAGE3 e s3 x s2 q) (stage_events w e s3 qs3) (ERROR err)"
| s3_done:
    "cells_text q = Inr qs3 \<Longrightarrow> semantic_stage w e s3 3 qs3 = Inr s3_tbl \<Longrightarrow>
     cstep render w (STAGE3 e s3 x s2 q) (stage_events w e s3 qs3)
       (DONE (concat_frames
          [x, filter_rows s2 (\<lambda>v. v ''original_value'' \<notin> set q), s3_tbl]))"

inductive cpath :: "(pyfloat \<Rightarrow> string) \<Rightarrow> env \<Rightarrow> cstate \<Rightarrow> event list \<Rightarrow> cstate \<Rightarrow> bool"
  for render :: "pyfloat \<Rightarrow> string" and w :: env
where
  stay: "cpath render w s [] s"
| move: "cstep render w s evs s' \<Longrightarrow> cpath render w s' evs' s'' \<Longrightarrow>
         cpath render w s (evs @ evs') s''"

definition machine_inv :: "(pyfloat \<Rightarrow> string) \<Rightarrow> env \<Rightarrow> init_args \<Rightarrow> cstate \<Rightarrow> bool" where
  "machine_inv render w a s =
     (case s of
        INIT a' \<Rightarrow> a' = a
      | STAGE1 e \<Rightarrow> init_engine render a = Inr e
      | STAGE2 e x qs \<Rightarrow>
          init_engine render a = Inr e \<and> x = exact_df e \<and> qs = non_exact e \<and> qs \<noteq> []
      | STAGE3 e s3 x s2 q \<Rightarrow>
          init_engine render a = Inr e \<and> x = exact_df e \<and> non_exact e \<noteq> [] \<and>
          s3_strategy e = Some s3 \<and> s2_result w e = Inr s2 \<and> q = escalated w e s2 \<and> q \<noteq> []
      | DONE out \<Rightarrow> bind_r (init_engine render a) (run w) = Inr out
      | ERROR err \<Rightarrow> bind_r (init_engine render a) (run w) = Inl err)"

section \<open>Sample traces\<close>

definition demo_trace :: "event list" where
  "demo_trace =
     [Resolve [Str ''XYZ'', Str ''abc''],
      Invoke (Model OntoMapST
        \<lparr>m_method = ''mpnet'', m_category = ''disease'', m_om_strategy = ''st'',
         m_query = [''xylo zeta'', ''abc''], m_corpus = [''lung cancer'', ''Breast Cancer''],
         m_topk = 1, m_from_tokenizer = Some False, m_query_df = None, m_corpus_df = None\<rparr>),
      Resolve [Str ''abc''],
      Invoke (Model OntoMapRAG
        \<lparr>m_method = ''mpnet'', m_category = ''disease'', m_om_strategy = ''rag'',
         m_query = [''abc''], m_corpus = [''lung cancer'', ''Breast Cancer''],
         m_topk = 1, m_from_tokenizer = None, m_query_df = None,
         m_corpus_df = Some demo_normal_df\<rparr>)]"

section \<open>Rule inversion\<close>

inductive_cases cstep_INIT_E: "cstep render w (INIT a) evs s'"
inductive_cases cstep_STAGE1_E: "cstep render w (STAGE1 e) evs s'"
inductive_cases cstep_STAGE2_E: "cstep render w (STAGE2 e x qs) evs s'"
inductive_cases cstep_STAGE3_E: "cstep render w (STAGE3 e s3 x s2 q) evs s'"
inductive_cases cstep_DONE_E [elim!]: "cstep render w (DONE out) evs s'"
inductive_cases cstep_ERROR_E [elim!]: "cstep render w (ERROR err) evs s'"

section \<open>Steps of the executable machine\<close>

lemma step_None_iff: "step render w s = None \<longleftrightarrow> final s"
  by (auto simp: step_def final_def Let_def split: cstate.splits sum.splits option.splits)

lemma step_rank: "step render w s = Some (evs, s') \<Longrightarrow> rank s' < rank s"
  by (auto simp: step_def rank_def Let_def split: cstate.splits sum.splits option.splits if_splits)

lemma final_simps [simp]:
  "final (DONE out)" "final (ERROR err)" "\<not> final (INIT a)" "\<not> final (STAGE1 e)"
  "\<not> final (STAGE2 e x qs)" "\<not> final (STAGE3 e s3 x s2 q)"
  by (simp_all add: final_def)

lemma outcome_simps [simp]: "outcome (Inl err) = ERROR err" "outcome (Inr out) = DONE out"
  by (simp_all add: outcome_def)

lemma final_outcome [simp]: "final (outcome r)"
  by (cases r) simp_all

declare exec.simps(2) [simp del]

lemma exec_final [simp]: "final s \<Longrightarrow> exec n render w s = ([], s)"
  by (cases n) (simp_all add: exec.simps(2) step_None_iff [THEN iffD2])

lemma exec_Suc:
  "step render w s = Some (evs, s') \<Longrightarrow>
   exec (Suc n) render w s = (evs @ fst (exec n render w s'), snd (exec n render w s'))"
  by (simp add: exec.simps(2) split: prod.splits)

lemma exec_enough: "rank s \<le> n \<Longrightarrow> final (snd (exec n render w s))"
proof (induction n arbitrary: s)
  case 0
  then show ?case by (cases s) (simp_all add: rank_def)
next
  case (Suc n)
  show ?case
  proof (cases "step render w s")
    case None
    then have "final s" by (simp add: step_None_iff)
    then show ?thesis by simp
  next
    case (Some p)
    obtain evs s' where p: "p = (evs, s')" by (cases p)
    with Some step_rank [of render w s evs s'] Suc.prems have "rank s' \<le> n" by simp
    from Suc.IH [OF this] Some p show ?thesis by (simp add: exec_Suc)
  qed
qed

lemma rank_le_4: "rank s \<le> 4"
  by (cases s) (simp_all add: rank_def)

lemma step_INIT:
  "step render w (INIT a) =
     (case init_engine render a of Inl err \<Rightarrow> Some ([], ERROR err) | Inr e \<Rightarrow> Some ([], STAGE1 e))"
  by (simp add: step_def)

lemma step_STAGE1:
  "step render w (STAGE1 e) =
     (if non_exact e = [] then Some ([], DONE (exact_df e))
      else Some ([], STAGE2 e (exact_df e) (non_exact e)))"
  by (simp add: step_def Let_def non_exact_def exact_df_def)

lemma step_STAGE2:
  "step render w (STAGE2 e x qs) =
     (case semantic_stage w e (s2_strategy e) 2 qs of
        Inl err \<Rightarrow> Some (stage_events w e (s2_strategy e) qs, ERROR err)
      | Inr s2 \<Rightarrow>
          (case s3_strategy e of
             None \<Rightarrow> Some (stage_events w e (s2_strategy e) qs, DONE (concat_frames [x, s2]))
           | Some s3 \<Rightarrow>
               if \<not> has_col s2 ''top1_score''
               then Some (stage_events w e (s2_strategy e) qs @ [Warning score_warning],
                          DONE (concat_frames [x, s2]))
               else if low_originals w e s2 = []
               then Some (stage_events w e (s2_strategy e) qs, DONE (concat_frames [x, s2]))
               else Some (stage_events w e (s2_strategy e) qs,
                          STAGE3 e s3 x s2 (low_originals w e s2))))"
  by (simp add: step_def Let_def)

lemma step_STAGE3:
  "step render w (STAGE3 e s3 x s2 q) =
     (case cells_text q of
        Inl err \<Rightarrow> Some (resolver_events w q, ERROR err)
      | Inr qs3 \<Rightarrow>
          Some (stage_events w e s3 qs3,
            outcome (bind_r (semantic_stage w e s3 3 qs3) (\<lambda>s3_tbl.
              Inr (concat_frames [x, filter_rows s2 (\<lambda>v. v ''original_value'' \<notin> set q), s3_tbl])))))"
  by (simp add: step_def Let_def split: sum.splits)

lemma escalated_low_originals:
  "escalated w e s2 =
     (if s3_strategy e \<noteq> None \<and> has_col s2 ''top1_score'' then low_originals w e s2 else [])"
  by (simp add: escalated_def low_originals_def)

section \<open>The machine computes run\<close>

lemma exec_STAGE3:
  "snd (exec (Suc n) render w (STAGE3 e s3 x s2 q)) =
     outcome (bind_r (cells_text q) (\<lambda>qs3. bind_r (semantic_stage w e s3 3 qs3) (\<lambda>s3_tbl.
        Inr (concat_frames [x, filter_rows s2 (\<lambda>v. v ''original_value'' \<notin> set q), s3_tbl]))))"
proof (cases "cells_text q")
  case (Inl err)
  then show ?thesis by (simp add: step_STAGE3 exec_Suc)
next
  case (Inr qs3)
  then show ?thesis
    by (cases "semantic_stage w e s3 3 qs3") (simp_all add: step_STAGE3 exec_Suc)
qed

lemma exec_STAGE2:
  "snd (exec (Suc (Suc n)) render w (STAGE2 e (exact_df e) (non_exact e))) =
     outcome (bind_r (s2_result w e) (after_s2 w e))"
proof (cases "s2_result w e")
  case (Inl err)
  then show ?thesis by (simp add: s2_result_def step_STAGE2 exec_Suc)
next
  case (Inr s2)
  then have s: "semantic_stage w e (s2_strategy e) 2 (non_exact e) = Inr s2"
    by (simp add: s2_result_def)
  show ?thesis
  proof (cases "s3_strategy e")
    case None
    with Inr s show ?thesis by (simp add: step_STAGE2 exec_Suc after_s2_def)
  next
    case (Some s3)
    with Inr s show ?thesis
      by (simp add: step_STAGE2 exec_Suc [where n = "Suc n"] after_s2_def exec_STAGE3
          escalated_low_originals kept_def)
  qed
qed

lemma exec_STAGE1: "snd (exec (Suc (Suc (Suc n))) render w (STAGE1 e)) = outcome (run w e)"
  by (simp add: step_STAGE1 exec_Suc [where n = "Suc (Suc n)"] exec_STAGE2 run_alt)

lemma exec_INIT:
  "snd (exec (Suc (Suc (Suc (Suc n)))) render w (INIT a)) =
     outcome (bind_r (init_engine render a) (run w))"
  by (cases "init_engine render a")
    (simp_all add: step_INIT exec_Suc [where n = "Suc (Suc (Suc n))"] exec_STAGE1)

lemma fst_exec_STAGE3:
  "fst (exec (Suc n) render w (STAGE3 e s3 x s2 q)) = stage3_trace w e s3 q"
  by (cases "cells_text q") (simp_all add: step_STAGE3 exec_Suc stage3_trace_def)

lemma fst_exec_STAGE2:
  "fst (exec (Suc (Suc n)) render w (STAGE2 e x qs)) = stage2_trace w e qs"
proof (cases "semantic_stage w e (s2_strategy e) 2 qs")
  case (Inl err)
  then show ?thesis by (simp add: step_STAGE2 exec_Suc stage2_trace_def)
next
  case (Inr s2)
  then show ?thesis
    by (cases "s3_strategy e")
      (simp_all add: step_STAGE2 exec_Suc [where n = "Suc n"] stage2_trace_def fst_exec_STAGE3)
qed

lemma fst_exec_STAGE1:
  "fst (exec (Suc (Suc (Suc n))) render w (STAGE1 e)) = run_trace w e"
  by (simp add: step_STAGE1 exec_Suc [where n = "Suc (Suc n)"] fst_exec_STAGE2 run_trace_def)

lemma fst_exec_INIT:
  "fst (exec (Suc (Suc (Suc (Suc n)))) render w (INIT a)) =
     (case init_engine render a of Inl _ \<Rightarrow> [] | Inr e \<Rightarrow> run_trace w e)"
  by (cases "init_engine render a")
    (simp_all add: step_INIT exec_Suc [where n = "Suc (Suc (Suc n))"] fst_exec_STAGE1)

section \<open>The relation and the machine\<close>

lemma cstep_iff_step: "cstep render w s evs s' \<longleftrightarrow> step render w s = Some (evs, s')"
proof
  assume "cstep render w s evs s'"
  then show "step render w s = Some (evs, s')"
    by (induction rule: cstep.induct)
      (simp_all add: step_INIT step_STAGE1 step_STAGE2 step_STAGE3)
next
  assume "step render w s = Some (evs, s')"
  then show "cstep render w s evs s'"
    by (cases s)
      (auto simp: step_def Let_def non_exact_def [symmetric] exact_df_def [symmetric]
        split: sum.splits option.splits if_splits intro: cstep.intros)
qed

lemma cstep_rank: "cstep render w s evs s' \<Longrightarrow> rank s' < rank s"
  by (simp add: cstep_iff_step step_rank)

lemma cstep_decreases:
  assumes "cstep render w s evs s'"
  shows "rank s' < rank s \<and> \<not> final s"
  using assms step_None_iff [of render w s] by (auto simp: cstep_iff_step step_rank)

lemma cpath_append:
  "cpath render w s evs s' \<Longrightarrow> cpath render w s' evs' s'' \<Longrightarrow> cpath render w s (evs @ evs') s''"
  by (induction rule: cpath.induct) (auto intro: cpath.intros)

lemma exec_cpath: "cpath render w s (fst (exec n render w s)) (snd (exec n render w s))"
proof (induction n arbitrary: s)
  case 0
  show ?case by (simp add: stay)
next
  case (Suc n)
  show ?case
  proof (cases "step render w s")
    case None
    then have "final s" by (simp add: step_None_iff)
    then show ?thesis by (simp add: stay)
  next
    case (Some p)
    obtain evs s' where p: "p = (evs, s')" by (cases p)
    with Some have "cstep render w s evs s'" by (simp add: cstep_iff_step)
    from move [OF this Suc.IH [of s']] Some p show ?thesis by (simp add: exec_Suc)
  qed
qed

lemma cpath_exec:
  "cpath render w s evs s' \<Longrightarrow> final s' \<Longrightarrow> rank s \<le> n \<Longrightarrow> exec n render w s = (evs, s')"
proof (induction arbitrary: n rule: cpath.induct)
  case (stay s)
  then show ?case by simp
next
  case (move s evs s' evs' s'')
  from move.hyps(1) have st: "step render w s = Some (evs, s')" and r: "rank s' < rank s"
    by (simp_all add: cstep_iff_step step_rank)
  with move.prems obtain m where n: "n = Suc m" and "rank s' \<le> m" by (cases n) auto
  with move.IH [of m] move.prems(1) have "exec m render w s' = (evs', s'')" by simp
  with st n show ?case by (simp add: exec_Suc)
qed

lemma cpath_final_iff:
  "(\<exists>evs. cpath render w s evs s' \<and> final s') \<longleftrightarrow> s' = snd (exec (rank s) render w s)"
proof
  assume "\<exists>evs. cpath render w s evs s' \<and> final s'"
  then obtain evs where "cpath render w s evs s'" "final s'" by blast
  from cpath_exec [OF this le_refl] show "s' = snd (exec (rank s) render w s)" by simp
next
  assume "s' = snd (exec (rank s) render w s)"
  with exec_cpath [of render w s "rank s"] exec_enough [of s "rank s" render w]
  show "\<exists>evs. cpath render w s evs s' \<and> final s'" by auto
qed

lemma complete_trace:
  assumes "cpath render w (INIT a) evs s" "final s" "init_engine render a = Inr e"
  shows "evs = run_trace w e \<and> s = outcome (run w e)"
proof -
  have "exec 4 render w (INIT a) = (evs, s)"
    using assms(1,2) by (rule cpath_exec) (simp add: rank_def)
  then have "fst (exec (Suc (Suc (Suc (Suc 0)))) render w (INIT a)) = evs"
    and "snd (exec (Suc (Suc (Suc (Suc 0)))) render w (INIT a)) = s"
    by (simp_all add: numeral_eq_Suc)
  with assms(3) show ?thesis by (simp add: fst_exec_INIT exec_INIT)
qed

lemma demo_exec: "exec 4 demo_render demo_env (INIT demo_args) = (demo_trace, DONE demo_out)"
  by code_simp

lemma demo_path: "cpath demo_render demo_env (INIT demo_args) demo_trace (DONE demo_out)"
  using exec_cpath [of demo_render demo_env "INIT demo_args" 4] by (simp add: demo_exec)

text \<open>
  The controller is deterministic: a state has at most one successor and one list of
  events.
\<close>

lemma cstep_deterministic:
  assumes "cstep render w s evs s'" "cstep render w s evs2 s2"
  shows "evs2 = evs \<and> s2 = s'"
  using assms by (simp add: cstep_iff_step)

text \<open>
  The step relation and the executable machine agree: a path of the relation from a
  state to a final state exists with a given trace exactly when the machine, run with the
  rank of the state as fuel, returns that trace and that state.
\<close>

lemma cpath_iff_exec:
  "cpath render w s evs s' \<and> final s' \<longleftrightarrow> exec (rank s) render w s = (evs, s')"
proof
  assume "cpath render w s evs s' \<and> final s'"
  then show "exec (rank s) render w s = (evs, s')" by (auto intro: cpath_exec)
next
  assume "exec (rank s) render w s = (evs, s')"
  with exec_cpath [of render w s "rank s"] exec_enough [of s "rank s" render w]
  show "cpath render w s evs s' \<and> final s'" by simp
qed

text \<open>
  C6. Refinement of \<^verbatim>\<open>run\<close> by the controller machine. From \<open>STAGE1 e\<close> the
  machine reaches a final state, and the final states it reaches are exactly the outcome
  of \<^verbatim>\<open>run\<close>: \<open>DONE\<close> with the returned table, or \<open>ERROR\<close> with the raised
  exception.
\<close>

theorem machine_refines_run:
  "(\<exists>evs. cpath render w (STAGE1 e) evs s \<and> final s) \<longleftrightarrow> s = outcome (run w e)"
  unfolding cpath_final_iff using exec_STAGE1 [of 0 render w e]
  by (simp add: rank_def numeral_eq_Suc)

text \<open>
  C25. The life cycle from configuration to result. From \<open>INIT a\<close> the final states
  of the machine are exactly the outcome of \<^verbatim>\<open>__init__\<close> followed by
  \<^verbatim>\<open>run\<close>.
\<close>

theorem machine_lifecycle:
  "(\<exists>evs. cpath render w (INIT a) evs s \<and> final s) \<longleftrightarrow>
     s = outcome (bind_r (init_engine render a) (run w))"
  unfolding cpath_final_iff using exec_INIT [of 0 render w a]
  by (simp add: rank_def numeral_eq_Suc)

text \<open>
  Termination. Every state has rank at most 4, and the executable machine with fuel 4
  is in a final state, from whichever state it starts: the fuel never runs out.
\<close>

lemma machine_terminates: "final (snd (exec 4 render w s)) \<and> rank s \<le> 4"
  using exec_enough [of s 4 render w] rank_le_4 [of s] by simp

section \<open>Invariant of the reachable states\<close>

lemma inv_step:
  assumes "machine_inv render w a s" "cstep render w s evs s'"
  shows "machine_inv render w a s'"
  using assms(2,1)
  by (cases rule: cstep.cases)
    (auto simp: machine_inv_def run_alt after_s2_def s2_result_def escalated_low_originals
      kept_def)

lemma inv_path:
  "cpath render w s evs s' \<Longrightarrow> machine_inv render w a s \<Longrightarrow> machine_inv render w a s'"
  by (induction rule: cpath.induct) (auto intro: inv_step)

text \<open>
  C14. Invariant of the reachable states, by rule induction. In \<open>STAGE1\<close> the engine is
  the constructed one; in \<open>STAGE2\<close> the table is the stage-1 table and the pending
  queries are the non-empty sorted list of queries without exact match; in \<open>STAGE3\<close>
  the stage-2 table is the result of stage 2 and the pending cells are the non-empty list
  of escalated values; \<open>DONE\<close> and \<open>ERROR\<close> hold the outcome of construction and
  run.
\<close>

theorem reachable_invariant:
  assumes "cpath render w (INIT a) evs s"
  shows "machine_inv render w a s"
  using assms by (rule inv_path) (simp add: machine_inv_def)

theorem reachable_invariant_witness:
  "cpath demo_render demo_env (INIT demo_args) demo_trace (DONE demo_out) \<and>
   machine_inv demo_render demo_env demo_args (DONE demo_out)"
  using reachable_invariant [OF demo_path] demo_path by simp

section \<open>Backend calls\<close>

lemma invokes_simps [simp]:
  "invokes [] = []" "invokes (Invoke m # evs) = m # invokes evs"
  "invokes (Resolve qs # evs) = invokes evs" "invokes (Warning t # evs) = invokes evs"
  "invokes (evs @ evs') = invokes evs @ invokes evs'"
  by (simp_all add: invokes_def)

lemma resolves_simps [simp]:
  "resolves [] = []" "resolves (Resolve qs # evs) = qs # resolves evs"
  "resolves (Invoke m # evs) = resolves evs" "resolves (Warning t # evs) = resolves evs"
  "resolves (evs @ evs') = resolves evs @ resolves evs'"
  by (simp_all add: resolves_def)

lemma invokes_resolver_events [simp]: "invokes (resolver_events w cs) = []"
  by (simp add: resolver_events_def)

lemma resolves_resolver_events [simp]: "resolves (resolver_events w cs) = [cs]"
  by (simp add: resolver_events_def)

lemma invokes_stage_events:
  "invokes (stage_events w e strategy qs) =
     (case om_model_from_strategy e strategy (map (expand (abbr_table w)) qs) of
        Inl _ \<Rightarrow> [] | Inr m \<Rightarrow> [m])"
  by (simp add: stage_events_def split: sum.splits)

lemma resolves_stage_events [simp]: "resolves (stage_events w e strategy qs) = [str_cells qs]"
  by (simp add: stage_events_def split: sum.splits)

lemma semantic_stage_ev_eq:
  "semantic_stage_ev w e strategy tag qs =
     (stage_events w e strategy qs, semantic_stage w e strategy tag qs)"
  by (auto simp: semantic_stage_ev_def semantic_stage_def stage_events_def Let_def
      updated_queries_total frame_of_2cols_def str_cells_def split: sum.splits)

lemma resolves_stage3_trace [simp]: "resolves (stage3_trace w e s3 q) = [q]"
  by (cases "cells_text q") (auto simp: stage3_trace_def cells_text_Inr_iff)

lemma length_invokes_stage_events: "length (invokes (stage_events w e strategy qs)) \<le> Suc 0"
  by (simp add: invokes_stage_events split: sum.splits)

lemma length_invokes_stage_events2: "length (invokes (stage_events w e strategy qs)) \<le> 2"
  using length_invokes_stage_events [of w e strategy qs] by simp

lemma length_invokes_stage3: "length (invokes (stage3_trace w e s3 q)) \<le> Suc 0"
  by (cases "cells_text q") (simp_all add: stage3_trace_def length_invokes_stage_events)

lemma length_invokes_stage2: "length (invokes (stage2_trace w e qs)) \<le> 2"
proof -
  define rest where "rest =
     (case semantic_stage w e (s2_strategy e) 2 qs of
        Inl _ \<Rightarrow> []
      | Inr s2 \<Rightarrow>
          (case s3_strategy e of
             None \<Rightarrow> []
           | Some s3 \<Rightarrow>
               if \<not> has_col s2 ''top1_score'' then [Warning score_warning]
               else if low_originals w e s2 = [] then []
               else stage3_trace w e s3 (low_originals w e s2)))"
  have "length (invokes rest) \<le> Suc 0"
    by (simp add: rest_def length_invokes_stage3 split: sum.splits option.splits)
  moreover have "stage2_trace w e qs = stage_events w e (s2_strategy e) qs @ rest"
    by (simp add: stage2_trace_def rest_def)
  ultimately show ?thesis
    using length_invokes_stage_events [of w e "s2_strategy e" qs] by simp
qed

lemma length_invokes_run_trace: "length (invokes (run_trace w e)) \<le> 2"
  by (simp add: run_trace_def length_invokes_stage2)

lemma budget_step:
  "cstep render w s evs s' \<Longrightarrow> length (invokes evs) + budget s' \<le> budget s"
  by (induction rule: cstep.induct)
    (simp_all add: budget_def length_invokes_stage_events length_invokes_stage_events2)

lemma budget_path:
  "cpath render w s evs s' \<Longrightarrow> length (invokes evs) + budget s' \<le> budget s"
proof (induction rule: cpath.induct)
  case (stay s)
  show ?case by simp
next
  case (move s evs s' evs' s'')
  with budget_step [OF move.hyps(1)] show ?case by simp
qed

text \<open>
  C19. On every path of the controller, from any state, at most two backends are invoked.
\<close>

theorem at_most_two_backend_calls:
  assumes "cpath render w s evs s'"
  shows "length (invokes evs) \<le> 2"
proof -
  have "budget s \<le> 2" by (cases s) (simp_all add: budget_def)
  with budget_path [OF assms] show ?thesis by simp
qed

theorem at_most_two_backend_calls_witness:
  "cpath demo_render demo_env (INIT demo_args) demo_trace (DONE demo_out) \<and>
   length (invokes demo_trace) \<le> 2"
  using at_most_two_backend_calls [OF demo_path] demo_path by simp

lemma score_warning_fresh [simp]:
  "Warning score_warning \<notin> set (stage_events w e strategy qs)"
  "Warning score_warning \<notin> set (stage3_trace w e s3 q)"
  by (auto simp: stage_events_def stage3_trace_def resolver_events_def score_warning_def
      abbr_warning_def split: sum.splits)

lemma invokes_stage_ok:
  assumes "known_strategy strategy"
  obtains m where "om_model_from_strategy e strategy (map (expand (abbr_table w)) qs) = Inr m"
    "invokes (stage_events w e strategy qs) = [m]"
proof -
  from assms obtain m where
    "om_model_from_strategy e strategy (map (expand (abbr_table w)) qs) = Inr m"
    using om_model_ok_iff [of e strategy] by (auto simp: is_ok_iff)
  then show ?thesis by (intro that [of m]) (simp_all add: invokes_stage_events)
qed

lemma low_originals_subset:
  assumes "semantic_stage w e strategy tag qs = Inr s2"
  shows "set (low_originals w e s2) \<subseteq> Str ` set qs"
  using originals_semantic_stage [OF assms]
  by (auto simp: low_originals_def col_values_def views_filter_rows)

lemma low_originals_text:
  assumes "semantic_stage w e strategy tag qs = Inr s2" "cells_text (low_originals w e s2) = Inr qs3"
  shows "set qs3 \<subseteq> set qs"
proof -
  have "set (low_originals w e s2) \<subseteq> set (col_values s2 ''original_value'')"
    by (auto simp: low_originals_def col_values_def views_filter_rows)
  with originals_semantic_stage [OF assms(1)] assms(2) show ?thesis
    by (auto simp: cells_text_Inr_iff)
qed

lemma stage3_calls:
  assumes "semantic_stage w e strategy tag qs = Inr s2" "s3 \<in> {''rag'', ''rag_bie''}"
    and "m \<in> set (invokes (stage3_trace w e s3 (low_originals w e s2)))"
  shows "backend_of m \<in> {OntoMapRAG, OntoMapBIE} \<and>
         set (m_query (args_of m)) \<subseteq> expand (abbr_table w) ` set qs"
proof (cases "cells_text (low_originals w e s2)")
  case (Inl err)
  with assms(3) show ?thesis by (simp add: stage3_trace_def)
next
  case (Inr qs3)
  with assms(3) have m: "om_model_from_strategy e s3 (map (expand (abbr_table w)) qs3) = Inr m"
    by (auto simp: stage3_trace_def invokes_stage_events split: sum.splits)
  from om_model_backend [OF m] om_model_passes_queries [OF m] assms(2)
    low_originals_text [OF assms(1) Inr]
  show ?thesis by auto
qed

text \<open>
  C18. The backend calls of a complete run with a query left after stage 1. The first
  call goes to the model that the adapter builds for the stage-2 strategy over the
  expanded queries without exact match, a semantic matcher; every later call goes to a
  retrieval matcher, over expansions of such queries only.
\<close>

theorem calls_in_stage_order:
  assumes "cpath render w (INIT a) evs s" "final s" "init_engine render a = Inr e"
    and "non_exact e \<noteq> []"
  shows "om_model_from_strategy e (s2_strategy e) (map (expand (abbr_table w)) (non_exact e))
           = Inr (hd (invokes evs)) \<and> invokes evs \<noteq> [] \<and>
         backend_of (hd (invokes evs)) \<in> {OntoMapLM, OntoMapST} \<and>
         (\<forall>m\<in>set (tl (invokes evs)).
            backend_of m \<in> {OntoMapRAG, OntoMapBIE} \<and>
            set (m_query (args_of m)) \<subseteq> expand (abbr_table w) ` set (non_exact e))"
proof -
  from init_valid [OF assms(3)] have v: "valid_engine e" .
  then have k: "known_strategy (s2_strategy e)" by (auto simp: valid_engine_def known_strategy_def)
  from complete_trace [OF assms(1-3)] assms(4)
  have evs: "evs = stage2_trace w e (non_exact e)" by (simp add: run_trace_def)
  obtain m where m: "om_model_from_strategy e (s2_strategy e)
      (map (expand (abbr_table w)) (non_exact e)) = Inr m"
    and i: "invokes (stage_events w e (s2_strategy e) (non_exact e)) = [m]"
    using k by (rule invokes_stage_ok)
  from om_model_backend [OF m] v have b: "backend_of m \<in> {OntoMapLM, OntoMapST}"
    by (auto simp: valid_engine_def)
  have "backend_of m' \<in> {OntoMapRAG, OntoMapBIE} \<and>
      set (m_query (args_of m')) \<subseteq> expand (abbr_table w) ` set (non_exact e)"
    if "m' \<in> set (tl (invokes evs))" for m'
    using that v stage3_calls [of w e "s2_strategy e" 2 "non_exact e" _ _ m']
    by (auto simp: evs stage2_trace_def i valid_engine_def split: sum.splits option.splits if_splits)
  with m i b show ?thesis by (simp add: evs stage2_trace_def)
qed

theorem calls_in_stage_order_witness:
  "non_exact demo_engine \<noteq> [] \<and> backend_of (hd (invokes demo_trace)) \<in> {OntoMapLM, OntoMapST}"
proof -
  have ne: "non_exact demo_engine \<noteq> []" by code_simp
  from calls_in_stage_order [OF demo_path _ demo_init ne] ne show ?thesis by simp
qed

text \<open>
  C27. When every query matches exactly, a complete run has no event: no abbreviation is
  resolved, no backend is invoked, nothing is warned, and the result is the stage-1
  table.
\<close>

theorem all_exact_silent:
  assumes "cpath render w (INIT a) evs s" "final s" "init_engine render a = Inr e"
    and "non_exact e = []"
  shows "evs = [] \<and> s = DONE (exact_df e)"
  using complete_trace [OF assms(1-3)] assms(4) by (simp add: run_trace_def run_alt)

theorem all_exact_silent_witness:
  "fst (exec 4 demo_render demo_env (INIT (demo_args\<lparr>query := [''Lung Cancer'']\<rparr>))) = []"
proof -
  let ?a = "demo_args\<lparr>query := [''Lung Cancer'']\<rparr>"
  let ?e = "demo_engine\<lparr>query := [''Lung Cancer'']\<rparr>"
  have i: "init_engine demo_render ?a = Inr ?e" by code_simp
  have ne: "non_exact ?e = []" by code_simp
  have f: "final (snd (exec 4 demo_render demo_env (INIT ?a)))"
    by (rule exec_enough) (simp add: rank_def)
  from all_exact_silent [OF exec_cpath f i ne] show ?thesis by simp
qed

text \<open>
  C24. The warning that stage 3 is skipped is logged exactly in the degraded runs: a query
  is left after stage 1, stage 3 is configured, and the stage-2 table has no
  \<^verbatim>\<open>top1_score\<close> column.
\<close>

theorem degradation_warned:
  assumes "cpath render w (INIT a) evs s" "final s" "init_engine render a = Inr e"
  shows "Warning score_warning \<in> set evs \<longleftrightarrow>
           non_exact e \<noteq> [] \<and> s3_strategy e \<noteq> None \<and>
           (\<exists>s2. s2_result w e = Inr s2 \<and> \<not> has_col s2 ''top1_score'')"
proof -
  from complete_trace [OF assms] have evs: "evs = run_trace w e" by simp
  show ?thesis
  proof (cases "non_exact e = []")
    case True
    then show ?thesis by (simp add: evs run_trace_def)
  next
    case ne: False
    show ?thesis
    proof (cases "s2_result w e")
      case (Inl err)
      with ne show ?thesis by (simp add: evs run_trace_def stage2_trace_def s2_result_def)
    next
      case (Inr s2)
      with ne show ?thesis
        by (cases "s3_strategy e")
          (simp_all add: evs run_trace_def stage2_trace_def s2_result_def)
    qed
  qed
qed

theorem degradation_warned_witness:
  "s2_result scoreless_env demo_engine = Inr scoreless_s2 \<and>
   \<not> has_col scoreless_s2 ''top1_score'' \<and>
   Warning score_warning \<in> set (fst (exec 4 demo_render scoreless_env (INIT demo_args)))"
proof -
  have f: "final (snd (exec 4 demo_render scoreless_env (INIT demo_args)))"
    by (rule exec_enough) (simp add: rank_def)
  have ne: "non_exact demo_engine \<noteq> []" by code_simp
  have s3: "s3_strategy demo_engine \<noteq> None" by code_simp
  have s2: "s2_result scoreless_env demo_engine = Inr scoreless_s2" by code_simp
  have c: "\<not> has_col scoreless_s2 ''top1_score''" by code_simp
  from degradation_warned [OF exec_cpath f demo_init] ne s3 s2 c show ?thesis by blast
qed

text \<open>
  C37. The abbreviation resolver runs once per semantic stage: a complete run resolves at
  least as often as it invokes a backend, first the queries without exact match and then
  only lists of such queries.
\<close>

theorem resolver_per_stage:
  assumes "cpath render w (INIT a) evs s" "final s" "init_engine render a = Inr e"
  shows "length (invokes evs) \<le> length (resolves evs) \<and>
         (non_exact e \<noteq> [] \<longrightarrow> hd (resolves evs) = str_cells (non_exact e)) \<and>
         (\<forall>cs\<in>set (resolves evs). set cs \<subseteq> Str ` set (non_exact e))"
proof -
  from complete_trace [OF assms] have evs: "evs = run_trace w e" by simp
  have 1: "length (invokes (stage_events w e strategy qs)) \<le> length (resolves (stage_events w e strategy qs))"
    for strategy qs
    using length_invokes_stage_events [of w e strategy qs] by simp
  have 4: "set cs \<subseteq> Str ` set (non_exact e)"
    if "semantic_stage w e (s2_strategy e) 2 (non_exact e) = Inr s2"
      "cs \<in> set (resolves (stage3_trace w e s3 (low_originals w e s2)))" for cs s2 s3
    using that low_originals_subset [OF that(1)] by simp
  show ?thesis
  proof (cases "non_exact e = []")
    case True
    then show ?thesis by (simp add: evs run_trace_def)
  next
    case ne: False
    define rest where "rest =
       (case semantic_stage w e (s2_strategy e) 2 (non_exact e) of
          Inl _ \<Rightarrow> []
        | Inr s2 \<Rightarrow>
            (case s3_strategy e of
               None \<Rightarrow> []
             | Some s3 \<Rightarrow>
                 if \<not> has_col s2 ''top1_score'' then [Warning score_warning]
                 else if low_originals w e s2 = [] then []
                 else stage3_trace w e s3 (low_originals w e s2)))"
    have evs': "evs = stage_events w e (s2_strategy e) (non_exact e) @ rest"
      using ne by (simp add: evs run_trace_def stage2_trace_def rest_def)
    have r1: "length (invokes rest) \<le> length (resolves rest)"
      by (simp add: rest_def length_invokes_stage3 split: sum.splits option.splits)
    have r2: "set cs \<subseteq> Str ` set (non_exact e)" if "cs \<in> set (resolves rest)" for cs
      using that 4 by (auto simp: rest_def split: sum.splits option.splits if_splits)
    from 1 [of "s2_strategy e" "non_exact e"] r1 r2 show ?thesis
      by (auto simp: evs')
  qed
qed

theorem resolver_per_stage_witness:
  "length (invokes demo_trace) \<le> length (resolves demo_trace) \<and>
   resolves demo_trace \<noteq> []"
proof -
  have "resolves demo_trace \<noteq> []" by code_simp
  with resolver_per_stage [OF demo_path _ demo_init] show ?thesis by simp
qed

end
