(* ===== verification/Spec2Isabelle.thy ===== *)
theory Spec2Isabelle
  imports Machine
begin

text \<open>
  \<^bold>\<open>Verification of the ontology-mapping cascade\<close>
  (\<^verbatim>\<open>src/src/Engine/ontology_mapping_engine.py\<close>, class \<^verbatim>\<open>OntoMapEngine\<close>).

  \<^bold>\<open>The program.\<close> The engine resolves free-text queries against a corpus of ontology
  labels. Its constructor \<^verbatim>\<open>__init__\<close> checks the configuration and, when stage 3 is
  configured, normalizes the reference table with \<^verbatim>\<open>_normalize_df\<close> and takes the
  corpus from it. \<^verbatim>\<open>run\<close> is a cascade of three stages: stage 1 keeps the queries
  that equal a corpus label after stripping and lower-casing (\<^verbatim>\<open>_exact_matching\<close>);
  stage 2 expands abbreviations (\<^verbatim>\<open>_map_shortname_to_fullname\<close>), asks a semantic
  matcher obtained from \<^verbatim>\<open>_om_model_from_strategy\<close> and merges its answer back to
  the original queries; stage 3, if configured, does the same with a retrieval matcher for
  the queries whose first stage-2 score is below the threshold. The result is the
  concatenation of the stage tables, a stage-2 row being dropped when its query went to
  stage 3. The matcher classes, the logger, the abbreviation file and pandas/numpy are
  not part of the source; the model takes the first and the third as parameters and
  gives the last a semantics of its own.

  \<^bold>\<open>Theories and what they model.\<close>
  \<^item> \<open>Prelude\<close>: exceptions as values (\<open>error\<close>, \<open>'a result = error + 'a\<close>, \<open>bind_r\<close>,
    \<open>mapM_r\<close>); \<^verbatim>\<open>list(dict.fromkeys(xs))\<close> and \<^verbatim>\<open>Series.unique()\<close> as
    \<open>dedup_first\<close>, \<^verbatim>\<open>drop_duplicates\<close> on a key as \<open>dedup_on\<close>, numpy's
    \<open>np_unique\<close> and \<open>np_setdiff1d\<close> (sorted, without duplicates). Lemmas: set,
    distinctness, idempotence, equality with reference definitions.
  \<^item> \<open>PyString\<close>: \<open>strip\<close>, \<open>lower\<close> and the matching key \<open>norm_key\<close>; the decimal
    rendering \<open>str_nat\<close> of the f-strings with its inverse; the pattern
    \<^verbatim>\<open>(C\d+)\<close> as \<open>extract_code\<close>. Lemmas: idempotence and commutation of strip and
    lower, injectivity of the rendering, soundness and completeness of the pattern search.
  \<^item> \<open>PyDict\<close>: insertion-ordered dictionaries as association lists with the invariant
    \<open>wf_dict\<close> (distinct keys); \<open>dict_item\<close> raises \<^verbatim>\<open>KeyError\<close>.
  \<^item> \<open>Frame\<close>: pandas cells (\<open>NA\<close>, \<open>Str\<close>, \<open>Num\<close>) and frames (a header and rows);
    \<open>assign\<close>, \<open>rename_col\<close>, \<open>filter_rows\<close>, \<open>merge_left\<close>, \<open>concat_frames\<close>,
    \<open>dropna\<close>, \<open>drop_duplicates\<close>, \<open>to_numeric0\<close>. The invariant \<open>wf_frame\<close> is kept
    by every operation. Each operation is characterized on row views (functions from
    column names to cells); \<open>merge_left\<close> refines the abstract join \<open>join_views\<close>.
  \<^item> \<open>ExactMatch\<close>: \<^verbatim>\<open>_exact_matching\<close> as \<open>exact_matching\<close>; the partition of the
    queries into exact matches and the rest; an exact match is equality up to surrounding
    white space and letter case (\<open>exact_matching_insensitive\<close>).
  \<^item> \<open>Abbreviation\<close>: \<^verbatim>\<open>_map_shortname_to_fullname\<close> as
    \<open>map_shortname_to_fullname\<close>, the re-keyed curation map of \<^verbatim>\<open>run\<close> as
    \<open>rekey_cura_map\<close>; the look-ups of \<^verbatim>\<open>run\<close> in the mapping never fail.
  \<^item> \<open>Normalizer\<close>, \<open>NormalizerContract\<close>: \<^verbatim>\<open>_normalize_df\<close> as \<open>normalize_df\<close>,
    composed of its three blocks; when it fails and with which error; the contract
    \<open>normalized\<close>, idempotence, and the table for which both fail.
  \<^item> \<open>Engine\<close>: the state (\<open>init_args\<close>, \<open>engine\<close>, \<open>params\<close>) and \<^verbatim>\<open>__init__\<close>
    as \<open>init_engine\<close>; the order of its errors (\<open>first_error\<close>), the invariant
    \<open>valid_engine\<close>, and the corpus of a stage-3 engine as the labels of the given
    reference table (\<open>reference_labels\<close>).
  \<^item> \<open>Adapter\<close>: \<^verbatim>\<open>_om_model_from_strategy\<close> as \<open>om_model_from_strategy\<close>, returning
    the chosen backend class with its constructor arguments.
  \<^item> \<open>Cascade\<close>: \<^verbatim>\<open>run\<close> as \<open>run\<close>, composed of \<open>exact_frame\<close> (the stage-1
    table) and \<open>semantic_stage\<close> (the statements stages 2 and 3 share); the environment
    \<open>env\<close>. Lemmas: the stage-1 table row by row, its shape.
  \<^item> \<open>Scenario\<close>: sample runs, evaluated from the definitions.
  \<^item> \<open>StageContract\<close>: the rows a semantic stage promises (\<open>stage_views\<close>) and the
    refinement lemma for \<open>semantic_stage\<close>.
  \<^item> \<open>Controller\<close>: the exits of \<open>run\<close> (\<open>run_Inr_cases\<close>), the classification of
    the result rows (\<open>run_rows\<close>), and the properties of the cascade: coverage, stage
    exclusivity, exact-match rows, escalation, the exits without stage 3, exceptions,
    multiplicities.
  \<^item> \<open>Machine\<close>: the same method read as a state machine. A state \<open>cstate\<close> is the
    point the control has reached with the values that are live there: \<open>INIT\<close> (the
    arguments of \<^verbatim>\<open>__init__\<close>), \<open>STAGE1\<close> (the engine), \<open>STAGE2\<close> (the stage-1
    table and the queries left), \<open>STAGE3\<close> (the strategy, both tables and the escalated
    cells), \<open>DONE\<close> (the returned table) and \<open>ERROR\<close> (the raised exception). One
    step runs the block of the source between two such points and emits its
    \<open>event\<close>s: the resolver calls with their argument, the backend constructions and the
    two warnings
    (\<open>abbr_warning\<close> of the missing file, \<open>score_warning\<close> of the skipped stage 3).
    \<open>step\<close> is the executable step function, \<open>exec\<close> iterates it with fuel,
    \<open>cstep\<close> is the step relation with one rule per exit of a block and \<open>cpath\<close> its
    paths with their traces. Lemmas: \<open>cstep\<close> is the graph of \<open>step\<close>, the rank
    decreases, paths to final states are the runs of \<open>exec\<close>, the machine refines
    \<open>run\<close>, the invariant \<open>machine_inv\<close> holds on every reachable state, and the
    properties of the traces (number and order of the backend calls, warnings).
  \<^item> this theory: properties that span the constructor, the adapter and the cascade.

  \<^bold>\<open>Bounds and parameters.\<close> Characters are Isabelle's 8-bit \<open>char\<close>: \<open>strip\<close>
  and \<open>lower\<close> are Python's on Latin-1 text. Numbers in cells are rationals extended by
  the two infinities, ordered as floats are; NaN is the missing cell \<open>NA\<close>, and an
  integer and a float of the same value are the same cell. How pandas prints a number
  (\<open>render\<close>) and reads a score written as text (\<open>parse_score\<close>) are parameters; every
  theorem holds for all of them. A backend is any function from the constructed model
  and the call's arguments to a table or an exception; the theorems on \<open>run\<close>
  that need no assumption on it say so, the others name the assumption
  (\<open>well_behaved\<close>, \<open>unique_keys\<close>). No loop of the program is unbounded: every
  definition of the cascade is a total function. Only \<open>exec\<close> takes fuel; the rank of a
  state (\<open>INIT\<close> 4, \<open>STAGE1\<close> 3, \<open>STAGE2\<close> 2, \<open>STAGE3\<close> 1, final states 0)
  decreases with every step, so fuel 4 reaches a final state from every state
  (\<open>machine_terminates\<close>) and more fuel changes nothing.

  \<^bold>\<open>Assumptions on the environment.\<close> The model is exact about the engine and
  idealizes what the engine calls; a theorem holds of the program where these hold.
  \<^item> Merge keys: pandas refuses to merge a text key column with a numeric one
    (\<^verbatim>\<open>ValueError\<close>); \<open>merge_left\<close> has no column types and compares cells. The
    theorem \<open>constructed_engine_runs\<close> therefore speaks of backends whose
    \<^verbatim>\<open>original_value\<close> column pandas accepts as a text key.
  \<^item> The abbreviation file is missing or has the columns \<^verbatim>\<open>code\<close> and
    \<^verbatim>\<open>name\<close> with string cells; a file of another shape makes the program raise an
    exception that it does not catch and that the model does not have.
  \<^item> The parameter \<open>get_match_results\<close> stands for constructing the backend and
    calling it: an exception raised by a backend constructor is an \<open>Inl\<close> of the
    parameter, as an exception of the call is. Nothing in \<^verbatim>\<open>run\<close> lies
    between the two.
  \<^item> \<^verbatim>\<open>test_or_prod\<close> is a string when the key is given; of
    \<^verbatim>\<open>other_params\<close> only the three keys the engine reads are kept.
  \<^item> Strings hold no NUL character at their end (numpy's fixed-width strings drop
    them in \<^verbatim>\<open>np.setdiff1d\<close>); a missing cell is NaN, which prints as
    \<^verbatim>\<open>nan\<close>.

  \<^bold>\<open>Not modelled.\<close> The informational log messages (they do not influence the result;
  the two warnings are events of \<open>Machine\<close>), the internals
  of the four matcher classes, reading the abbreviation file (its content is the
  parameter \<open>abbr_table\<close>; \<open>None\<close> is the missing file), pandas' index labels (the
  code resets or ignores them) and dtypes. \<open>concat_frames\<close> accepts frames with a
  repeated column name, for which pandas may raise; the theorems that state that
  \<open>run\<close> returns assume backends with well-formed tables.
\<close>

section \<open>From construction to result\<close>

text \<open>
  C5. A constructed engine runs to completion. If \<^verbatim>\<open>__init__\<close> accepts the
  configuration and every backend call answers with a well-formed table that has an
  \<^verbatim>\<open>original_value\<close> column and no \<^verbatim>\<open>updated_value\<close> column, then
  \<^verbatim>\<open>run\<close> raises no exception: the adapter knows both strategies, the look-ups in
  the abbreviation mapping succeed, both merges find their key, and the escalated values
  are strings.
\<close>

theorem constructed_engine_runs:
  assumes "init_engine render a = Inr e"
    and "\<And>m c k t. \<exists>res. get_match_results w m c k t = Inr res \<and> well_behaved res"
  shows "is_ok (run w e)"
  using init_valid [OF assms(1)] assms(2) by (rule run_ok)

theorem constructed_engine_runs_witness:
  "init_engine demo_render demo_args = Inr demo_engine \<and> is_ok (run demo_env demo_engine)"
  using constructed_engine_runs [OF demo_init demo_well_behaved] demo_init by simp

text \<open>
  C29. The adapter's \<^verbatim>\<open>ValueError\<close> is unreachable from a constructed engine:
  \<^verbatim>\<open>_om_model_from_strategy\<close> succeeds for its stage-2 strategy and for its stage-3
  strategy, whatever the queries.
\<close>

theorem adapter_total_after_init:
  assumes "init_engine render a = Inr e"
  shows "is_ok (om_model_from_strategy e (s2_strategy e) qs) \<and>
         (\<forall>s3. s3_strategy e = Some s3 \<longrightarrow> is_ok (om_model_from_strategy e s3 qs))"
  using init_valid [OF assms]
  by (auto simp: om_model_ok_iff valid_engine_def known_strategy_def)

theorem adapter_total_after_init_witness:
  "init_engine demo_render demo_args = Inr demo_engine \<and>
   is_ok (om_model_from_strategy demo_engine (s2_strategy demo_engine) [''abc''])"
  using adapter_total_after_init [OF demo_init] demo_init by simp

text \<open>
  C31. Without stage 3, removing the repeated corpus entries in the constructor does not
  change stage 1: the engine finds the exact matches of the given queries in the given
  corpus.
\<close>

theorem init_exact_matching:
  assumes "init_engine render a = Inr e" "s3_strategy a = None"
  shows "exact_matching (query e) (corpus e) = exact_matching (query a) (corpus a)"
  using assms by (cases rule: init_engine_Inr) (simp_all add: assign_fields_def)

theorem init_exact_matching_witness:
  "init_engine demo_render (demo_args\<lparr>s3_strategy := None\<rparr>) = Inr (demo_engine\<lparr>s3_strategy := None,
      corpus := [''lung cancer''], other_params := other_params demo_args\<rparr>) \<and>
   exact_matching (query demo_args) [''lung cancer'']
     = exact_matching (query demo_args) [''lung cancer'', ''lung cancer'']"
proof -
  have i: "init_engine demo_render (demo_args\<lparr>s3_strategy := None\<rparr>)
      = Inr (demo_engine\<lparr>s3_strategy := None, corpus := [''lung cancer''],
          other_params := other_params demo_args\<rparr>)"
    by code_simp
  have "s3_strategy (demo_args\<lparr>s3_strategy := None\<rparr>) = None" by simp
  from init_exact_matching [OF i this] i show ?thesis
    by (simp add: demo_args_def demo_engine_def)
qed

end
